theory Spec2Isabelle
  imports Complex_Main
begin

section \<open>JavaScript numbers\<close>

text \<open>
  The engine computes on JavaScript numbers. Counters and timers that the code only
  increments, decrements and resets are integers here. Coordinates and velocities of
  enemies are quotients of square roots, and JavaScript does not raise on a division by
  zero: it yields \<open>NaN\<close> or an infinity, which then flows through the arithmetic and
  makes every comparison false. Such numbers are values of \<open>jsnum\<close>: a real number
  (rounding and overflow are not modelled, and zero carries no sign: every zero divisor
  of the code is the result of \<open>Math.sqrt\<close> or a speed, hence \<open>+0\<close>), an infinity
  or \<open>NaN\<close>, with the IEEE-754 rules for the special values.
\<close>

datatype jsnum = Fin real | PInf | NInf | NaN

definition inf_of :: "bool \<Rightarrow> jsnum" where
  "inf_of pos = (if pos then PInf else NInf)"

instantiation jsnum :: "{plus, minus, uminus, times, divide, ord, abs}"
begin

fun uminus_jsnum :: "jsnum \<Rightarrow> jsnum" where
  "- (Fin a) = Fin (- a)"
| "- PInf = NInf"
| "- NInf = PInf"
| "- NaN = NaN"

fun plus_jsnum :: "jsnum \<Rightarrow> jsnum \<Rightarrow> jsnum" where
  "Fin a + Fin b = Fin (a + b)"
| "NaN + _ = NaN"
| "_ + NaN = NaN"
| "PInf + NInf = NaN"
| "NInf + PInf = NaN"
| "PInf + _ = PInf"
| "_ + PInf = PInf"
| "NInf + _ = NInf"
| "_ + NInf = NInf"

definition minus_jsnum :: "jsnum \<Rightarrow> jsnum \<Rightarrow> jsnum" where
  "minus_jsnum a b = a + (- b)"

fun times_jsnum :: "jsnum \<Rightarrow> jsnum \<Rightarrow> jsnum" where
  "Fin a * Fin b = Fin (a * b)"
| "NaN * _ = NaN"
| "_ * NaN = NaN"
| "Fin a * PInf = (if a = 0 then NaN else inf_of (0 < a))"
| "Fin a * NInf = (if a = 0 then NaN else inf_of (a < 0))"
| "PInf * Fin b = (if b = 0 then NaN else inf_of (0 < b))"
| "NInf * Fin b = (if b = 0 then NaN else inf_of (b < 0))"
| "PInf * PInf = PInf"
| "PInf * NInf = NInf"
| "NInf * PInf = NInf"
| "NInf * NInf = PInf"

fun divide_jsnum :: "jsnum \<Rightarrow> jsnum \<Rightarrow> jsnum" where
  "divide_jsnum (Fin a) (Fin b) =
     (if b = 0 then (if a = 0 then NaN else inf_of (0 < a)) else Fin (a / b))"
| "divide_jsnum NaN _ = NaN"
| "divide_jsnum _ NaN = NaN"
| "divide_jsnum (Fin a) PInf = Fin 0"
| "divide_jsnum (Fin a) NInf = Fin 0"
| "divide_jsnum PInf (Fin b) = inf_of (0 \<le> b)"
| "divide_jsnum NInf (Fin b) = inf_of (b < 0)"
| "divide_jsnum PInf _ = NaN"
| "divide_jsnum NInf _ = NaN"

fun less_jsnum :: "jsnum \<Rightarrow> jsnum \<Rightarrow> bool" where
  "Fin a < Fin b = (a < b)"
| "NaN < _ = False"
| "_ < NaN = False"
| "_ < NInf = False"
| "PInf < _ = False"
| "_ < PInf = True"
| "NInf < _ = True"

fun less_eq_jsnum :: "jsnum \<Rightarrow> jsnum \<Rightarrow> bool" where
  "Fin a \<le> Fin b = (a \<le> b)"
| "NaN \<le> _ = False"
| "_ \<le> NaN = False"
| "NInf \<le> _ = True"
| "_ \<le> PInf = True"
| "_ \<le> NInf = False"
| "PInf \<le> _ = False"

fun abs_jsnum :: "jsnum \<Rightarrow> jsnum" where
  "\<bar>Fin a\<bar> = Fin \<bar>a\<bar>"
| "\<bar>PInf\<bar> = PInf"
| "\<bar>NInf\<bar> = PInf"
| "\<bar>NaN\<bar> = NaN"

instance ..

end

instantiation jsnum :: inverse
begin

definition inverse_jsnum :: "jsnum \<Rightarrow> jsnum" where
  "inverse_jsnum a = divide (Fin 1) a"

instance ..

end

text \<open>\<open>Math.sqrt\<close>: \<open>NaN\<close> on a negative argument.\<close>

fun Math_sqrt :: "jsnum \<Rightarrow> jsnum" where
  "Math_sqrt (Fin a) = (if a < 0 then NaN else Fin (sqrt a))"
| "Math_sqrt PInf = PInf"
| "Math_sqrt NInf = NaN"
| "Math_sqrt NaN = NaN"


text \<open>\<open>Math.atan2(y, x)\<close> on finite arguments.\<close>

definition Math_atan2 :: "real \<Rightarrow> real \<Rightarrow> real" where
  "Math_atan2 b a =
     (if 0 < a then arctan (b / a)
      else if a < 0 then (if 0 \<le> b then arctan (b / a) + pi else arctan (b / a) - pi)
      else if 0 < b then pi / 2
      else if b < 0 then - pi / 2
      else 0)"

text \<open>\<open>Math.round\<close> rounds half-way cases up.\<close>

definition Math_round :: "real \<Rightarrow> int" where
  "Math_round r = \<lfloor>r + 1 / 2\<rfloor>"

text \<open>
  \<open>Math.random()\<close> returns a number in \<open>[0, 1)\<close>. The values it returns during a run
  are a stream given with the run; the state counts the draws made so far.
\<close>

typedef unitreal = "{r::real. 0 \<le> r \<and> r < 1}"
  morphisms rnd_val Rnd
  by (rule exI[of _ 0]) simp

section \<open>Entity model (enemies.ts)\<close>

datatype pattern = Straight | Zigzag | Spiral | Teleport | Chase | Bounce | Split

text \<open>
  \<open>EnemyType\<close> without \<open>hp\<close>, as \<open>ENEMY_TYPES\<close> holds it. The fields only the drawing
  code and the help screen read (\<open>name\<close>, \<open>glowColor\<close>, \<open>shape\<close>, \<open>special\<close>,
  \<open>description\<close>) are left out.
\<close>

record enemyType =
  id_e :: string
  color :: string
  maxHp :: int
  speed :: real
  damage :: real
  radius :: real
  points :: int
  pattern :: pattern

record enemy = enemyType +
  hp :: int
  x :: jsnum
  y :: jsnum
  vx :: jsnum
  vy :: jsnum
  angle :: real
  zigzagTimer :: int
  teleportTimer :: real
  splitDone :: bool
  pulseRadius :: real
  pulseGrowing :: bool
  flashTimer :: int

record projectile =
  x :: real
  y :: real
  vx :: real
  vy :: real
  radius :: real
  trail :: "(real \<times> real) list"
  piercing :: bool

record particle =
  x :: jsnum
  y :: jsnum
  vx :: real
  vy :: real
  life :: real
  maxLife :: real
  color :: string
  radius :: real

definition ENEMY_TYPES :: "enemyType list" where
  "ENEMY_TYPES =
    [\<lparr>id_e = ''scout'', color = ''#00ff41'', maxHp = 1, speed = 2.5, damage = 10,
       radius = 14, points = 10, pattern = Straight\<rparr>,
     \<lparr>id_e = ''tank'', color = ''#ff6600'', maxHp = 5, speed = 1.0, damage = 25,
       radius = 24, points = 40, pattern = Straight\<rparr>,
     \<lparr>id_e = ''zigzagger'', color = ''#ffff00'', maxHp = 2, speed = 2.0, damage = 15,
       radius = 16, points = 25, pattern = Zigzag\<rparr>,
     \<lparr>id_e = ''ghost'', color = ''#bf00ff'', maxHp = 3, speed = 1.8, damage = 20,
       radius = 18, points = 35, pattern = Teleport\<rparr>,
     \<lparr>id_e = ''splitter'', color = ''#ff006e'', maxHp = 4, speed = 1.5, damage = 18,
       radius = 20, points = 50, pattern = Straight\<rparr>,
     \<lparr>id_e = ''berserker'', color = ''#ff0000'', maxHp = 3, speed = 3.5, damage = 30,
       radius = 17, points = 60, pattern = Chase\<rparr>,
     \<lparr>id_e = ''bouncer'', color = ''#00ffff'', maxHp = 3, speed = 2.2, damage = 15,
       radius = 15, points = 45, pattern = Bounce\<rparr>]"

text \<open>
  \<open>createEnemy(type, canvasW, canvasH, overrides?)\<close>. The four \<open>Math.random()\<close> calls
  (side, coordinate along the edge, speed jitter, teleport timer) are the draws
  \<open>k\<close> .. \<open>k + 3\<close> of the stream \<open>r\<close>. The only overrides the engine passes are a position
  \<open>{x, y}\<close>; the velocity is aimed from the edge point that was drawn, also when the
  position is overridden. \<open>type\<close> may be a live enemy (the teleport relocation passes one):
  only its \<open>EnemyType\<close> fields reach the result, every other field is set afresh.
\<close>

definition createEnemy ::
  "(nat \<Rightarrow> unitreal) \<Rightarrow> nat \<Rightarrow> 'a enemyType_scheme \<Rightarrow> real \<Rightarrow> real \<Rightarrow> (jsnum \<times> jsnum) option \<Rightarrow> enemy"
where
  "createEnemy r k type canvasW canvasH overrides =
    (let side = \<lfloor>rnd_val (r k) * 4\<rfloor>;
         margin = 60;
         (ex, ey) =
           (if side = 0 then (rnd_val (r (k + 1)) * canvasW, - margin)
            else if side = 1 then (canvasW + margin, rnd_val (r (k + 1)) * canvasH)
            else if side = 2 then (rnd_val (r (k + 1)) * canvasW, canvasH + margin)
            else if side = 3 then (- margin, rnd_val (r (k + 1)) * canvasH)
            else (0, 0));
         spd = enemyType.speed type * (0.85 + rnd_val (r (k + 2)) * 0.3);
         ang = Math_atan2 (canvasH / 2 - ey) (canvasW / 2 - ex)
     in \<lparr>id_e = id_e type, color = enemyType.color type, maxHp = maxHp type,
         speed = enemyType.speed type, damage = damage type,
         radius = enemyType.radius type, points = points type, pattern = pattern type,
         hp = maxHp type,
         x = (case overrides of None \<Rightarrow> Fin ex | Some (ox, oy) \<Rightarrow> ox),
         y = (case overrides of None \<Rightarrow> Fin ey | Some (ox, oy) \<Rightarrow> oy),
         vx = Fin (cos ang * spd),
         vy = Fin (sin ang * spd),
         angle = ang,
         zigzagTimer = 0,
         teleportTimer = rnd_val (r (k + 3)) * 180,
         splitDone = False,
         pulseRadius = enemyType.radius type,
         pulseGrowing = True,
         flashTimer = 0\<rparr>)"

section \<open>Session state and helpers (GameCanvas.tsx)\<close>

datatype powerupKind = Multi | Pierce | Rapid | Bomb

text \<open>
  The text of a floating label is built from a number or a power-up kind
  (\<open>+${earned}\<close>, \<open>x${combo} COMBO!\<close>, \<open>LABEL POWER!\<close>); the label keeps that argument.
\<close>

datatype floatLabel = ScoreText int | ComboText int | PowerText powerupKind

record floatingText =
  x :: jsnum
  y :: jsnum
  label :: floatLabel
  color :: string
  life :: int
  maxLife :: int
  vy :: real
  scale :: real

record powerUp =
  x :: jsnum
  y :: jsnum
  ptype :: powerupKind
  radius :: real
  angle :: real
  life :: int
  pulsePhase :: real

datatype difficulty = Easy | Normal | Hard

record difficultyProfile =
  spawnRate :: int
  enemySpeedMult :: real
  playerDamageMult :: real
  maxArrows :: int
  reloadTime :: int

fun DIFFICULTY :: "difficulty \<Rightarrow> difficultyProfile" where
  "DIFFICULTY Easy = \<lparr>spawnRate = 180, enemySpeedMult = 0.7, playerDamageMult = 0.6,
     maxArrows = 12, reloadTime = 150\<rparr>"
| "DIFFICULTY Normal = \<lparr>spawnRate = 110, enemySpeedMult = 1.0, playerDamageMult = 1.0,
     maxArrows = 8, reloadTime = 180\<rparr>"
| "DIFFICULTY Hard = \<lparr>spawnRate = 65, enemySpeedMult = 1.4, playerDamageMult = 1.4,
     maxArrows = 5, reloadTime = 220\<rparr>"

fun POWERUP_COLORS :: "powerupKind \<Rightarrow> string" where
  "POWERUP_COLORS Multi = ''#ff006e''"
| "POWERUP_COLORS Pierce = ''#00ffff''"
| "POWERUP_COLORS Rapid = ''#ffff00''"
| "POWERUP_COLORS Bomb = ''#ff6600''"

text \<open>
  What the engine reads but does not own: the canvas (\<open>canvasRef.current\<close>, absent
  before mounting; its width and height), the pointer position \<open>mousePos.current\<close>, the
  difficulty chosen by the host and the stream of \<open>Math.random()\<close> values.
\<close>

record world =
  canvas :: "(real \<times> real) option"
  mouseX :: real
  mouseY :: real
  difficulty :: difficulty
  rnd :: "nat \<Rightarrow> unitreal"

text \<open>
  The mutable aggregate \<open>s\<close>. Two fields are not in the source: \<open>seed\<close> counts the
  \<open>Math.random()\<close> calls made so far, and \<open>gameOverCalls\<close> records the argument of every
  invocation of the host callback \<open>onGameOver\<close>, in order. The wave number only ever
  grows from 1, so it is a natural number. Sound effects (\<open>play\<close>) and the snapshot
  sent to the host (\<open>emitState\<close>) do not change \<open>s\<close> and are not modelled; neither is
  the drawing code.
\<close>

record game =
  hp :: real
  score :: int
  wave :: nat
  arrows :: int
  maxArrows :: int
  reloading :: bool
  reloadProgress :: real
  reloadTimer :: int
  spawnTimer :: int
  waveTimer :: int
  enemies :: "enemy list"
  projectiles :: "projectile list"
  particles :: "particle list"
  floats :: "floatingText list"
  powerups :: "powerUp list"
  alive :: bool
  bowPulse :: int
  shootCooldown :: int
  combo :: int
  comboTimer :: int
  killStreak :: int
  shakeX :: real
  shakeY :: real
  shakePower :: real
  activePowerup :: "powerupKind option"
  powerupTimer :: int
  rapidFire :: bool
  waveAnnounce :: int
  totalKills :: int
  nextPowerupKill :: int
  seed :: nat
  gameOverCalls :: "int list"

definition diff :: "world \<Rightarrow> difficultyProfile" where
  "diff w = DIFFICULTY (difficulty w)"

text \<open>The \<open>k\<close>-th next value of \<open>Math.random()\<close>.\<close>

definition Math_random :: "world \<Rightarrow> game \<Rightarrow> nat \<Rightarrow> real" where
  "Math_random w s k = rnd_val (rnd w (seed s + k))"

definition addShake :: "real \<Rightarrow> game \<Rightarrow> game" where
  "addShake pw s = s\<lparr>shakePower := max (shakePower s) pw\<rparr>"

text \<open>One iteration of the loop of \<open>spawnParticles\<close>, and the loop.\<close>

definition spawnParticle ::
  "world \<Rightarrow> jsnum \<Rightarrow> jsnum \<Rightarrow> string \<Rightarrow> nat \<Rightarrow> real \<Rightarrow> nat \<Rightarrow> game \<Rightarrow> game"
where
  "spawnParticle w px py col count speedMult i s =
    (let ang = (pi * 2 * real i) / real count + Math_random w s 0 * 0.8;
         spd = (1.5 + Math_random w s 1 * 3.5) * speedMult
     in s\<lparr>particles := particles s @
            [\<lparr>particle.x = px, y = py, vx = cos ang * spd, vy = sin ang * spd,
              life = 35 + Math_random w s 2 * 30, maxLife = 65, color = col,
              radius = 2 + Math_random w s 3 * 3\<rparr>],
          seed := seed s + 4\<rparr>)"

definition spawnParticles ::
  "world \<Rightarrow> jsnum \<Rightarrow> jsnum \<Rightarrow> string \<Rightarrow> nat \<Rightarrow> real \<Rightarrow> game \<Rightarrow> game"
where
  "spawnParticles w px py col count speedMult s =
     fold (spawnParticle w px py col count speedMult) [0..<count] s"

definition addFloat :: "jsnum \<Rightarrow> jsnum \<Rightarrow> floatLabel \<Rightarrow> string \<Rightarrow> bool \<Rightarrow> game \<Rightarrow> game" where
  "addFloat fx fy txt col big s =
     s\<lparr>floats := floats s @
        [\<lparr>floatingText.x = fx, y = fy, label = txt, color = col, life = 55, maxLife = 55,
          vy = - 1.2, scale = (if big then 1.6 else 1)\<rparr>]\<rparr>"

text \<open>\<open>xs.splice(i, 1)\<close>: nothing happens when \<open>i\<close> is past the end.\<close>

definition splice1 :: "nat \<Rightarrow> 'a list \<Rightarrow> 'a list" where
  "splice1 i xs = take i xs @ drop (Suc i) xs"

subsection \<open>The bomb\<close>

text \<open>
  The distance test of \<open>spawnBombExplosion\<close>, and the callback of its
  \<open>s.enemies.forEach\<close>, with the list \<open>killed\<close>.
\<close>

definition inBlast :: "real \<Rightarrow> real \<Rightarrow> enemy \<Rightarrow> bool" where
  "inBlast cx cy e =
    (let dx = enemy.x e - Fin cx;
         dy = enemy.y e - Fin cy
     in Math_sqrt (dx * dx + dy * dy) < Fin 180)"

definition bombEnemy :: "world \<Rightarrow> real \<Rightarrow> real \<Rightarrow> nat \<Rightarrow> nat list \<times> game \<Rightarrow> nat list \<times> game" where
  "bombEnemy w cx cy i ks =
    (case ks of (killed, s) \<Rightarrow>
      let e = enemies s ! i
      in if inBlast cx cy e then
           let s1 = s\<lparr>score := score s + points e * int (wave s)\<rparr>;
               s2 = spawnParticles w (enemy.x e) (enemy.y e) (enemyType.color e) 12 1.5 s1;
               s3 = addFloat (enemy.x e) (enemy.y e - Fin 20)
                      (ScoreText (points e * int (wave s2))) (enemyType.color e) False s2
           in (killed @ [i], s3\<lparr>totalKills := totalKills s3 + 1\<rparr>)
         else (killed, s))"

definition bombRing :: "world \<Rightarrow> real \<Rightarrow> real \<Rightarrow> nat \<Rightarrow> game \<Rightarrow> game" where
  "bombRing w cx cy i s =
    (let ang = (pi * 2 * real i) / 30;
         spd = 3 + Math_random w s 0 * 5
     in s\<lparr>particles := particles s @
            [\<lparr>particle.x = Fin cx, y = Fin cy, vx = cos ang * spd, vy = sin ang * spd,
              life = 50 + Math_random w s 1 * 30, maxLife = 80, color = ''#ff6600'',
              radius = 3 + Math_random w s 2 * 5\<rparr>],
          seed := seed s + 3\<rparr>)"

definition spawnBombExplosion :: "world \<Rightarrow> real \<Rightarrow> real \<Rightarrow> game \<Rightarrow> game" where
  "spawnBombExplosion w cx cy s =
    (case fold (bombEnemy w cx cy) [0..<length (enemies s)] ([], s) of (killed, s1) \<Rightarrow>
      let s2 = s1\<lparr>enemies := fold splice1 (rev (sort killed)) (enemies s1)\<rparr>;
          s3 = fold (bombRing w cx cy) [0..<30] s2
      in addShake 14 s3)"

subsection \<open>Shooting\<close>

text \<open>
  \<open>shoot\<close>, the click handler. The first three tests are those of
  \<open>if (!s.alive || s.reloading || s.arrows <= 0) return\<close>, in the order in which
  \<open>||\<close> evaluates them.
\<close>

definition shoot :: "world \<Rightarrow> game \<Rightarrow> game" where
  "shoot w s =
    (if \<not> alive s then s
     else if reloading s \<or> arrows s \<le> 0 then s
     else
       let cooldown = (if activePowerup s = Some Rapid then 4 else 12) in
       if shootCooldown s > 0 then s
       else
         case canvas w of
           None \<Rightarrow> s
         | Some (W, H) \<Rightarrow>
             let cx = W / 2;
                 cy = H / 2;
                 dx = mouseX w - cx;
                 dy = mouseY w - cy;
                 dist = sqrt (dx * dx + dy * dy)
             in if dist = 0 then s
                else
                  let spd = 15;
                      isPierce = (activePowerup s = Some Pierce);
                      isMulti = (activePowerup s = Some Multi);
                      s1 = (if activePowerup s = Some Bomb then
                              (spawnBombExplosion w (mouseX w) (mouseY w) s)
                                \<lparr>activePowerup := None, powerupTimer := 0\<rparr>
                            else
                              s\<lparr>projectiles := projectiles s @
                                  map (\<lambda>offset.
                                         let a = Math_atan2 dy dx + offset
                                         in \<lparr>projectile.x = cx, y = cy, vx = cos a * spd,
                                              vy = sin a * spd,
                                              radius = (if isPierce then 5 else 4),
                                              trail = [], piercing = isPierce\<rparr>)
                                      (if isMulti then [- 0.18, 0, 0.18] else [0])\<rparr>);
                      s2 = s1\<lparr>arrows := arrows s1 - 1, shootCooldown := cooldown,
                              bowPulse := 12\<rparr>
                  in if arrows s2 \<le> 0 then
                       s2\<lparr>reloading := True, reloadTimer := reloadTime (diff w),
                          reloadProgress := 0\<rparr>
                     else s2)"

section \<open>The frame loop\<close>

subsection \<open>Timers\<close>

definition waveStep :: "game \<Rightarrow> game" where
  "waveStep s =
    (let s1 = s\<lparr>spawnTimer := spawnTimer s + 1, waveTimer := waveTimer s + 1\<rparr>;
         s2 = (if waveTimer s1 > 700 then
                 s1\<lparr>wave := wave s1 + 1, waveTimer := 0, waveAnnounce := 150\<rparr>
               else s1)
     in if waveAnnounce s2 > 0 then s2\<lparr>waveAnnounce := waveAnnounce s2 - 1\<rparr> else s2)"

text \<open>
  The type is drawn from the archetypes unlocked up to the current wave; the index is
  always inside the pool (lemma \<open>spawn_index_in_pool\<close>). Draw 0 picks the type, draws
  1 to 4 are those of \<open>createEnemy\<close>.
\<close>

definition spawnStep :: "world \<Rightarrow> real \<Rightarrow> real \<Rightarrow> game \<Rightarrow> game" where
  "spawnStep w W H s =
    (let rate = max 35 (spawnRate (diff w) - int (wave s) * 6) in
     if spawnTimer s \<ge> rate then
       let maxTypes = min (wave s + 1) (length ENEMY_TYPES);
           pool = take maxTypes ENEMY_TYPES;
           type = pool ! nat \<lfloor>Math_random w s 0 * real (length pool)\<rfloor>;
           e = createEnemy (rnd w) (seed s + 1) type W H None;
           m = enemySpeedMult (diff w) * (1 + real (wave s) * 0.04);
           e1 = e\<lparr>speed := enemyType.speed e * m\<rparr>;
           e2 = e1\<lparr>enemy.vx := enemy.vx e1 * Fin m\<rparr>;
           e3 = e2\<lparr>enemy.vy := enemy.vy e2 * Fin m\<rparr>
       in s\<lparr>spawnTimer := 0, enemies := enemies s @ [e3], seed := seed s + 5\<rparr>
     else s)"

definition reloadStep :: "world \<Rightarrow> real \<Rightarrow> real \<Rightarrow> game \<Rightarrow> game" where
  "reloadStep w W H s =
    (if reloading s then
       let s1 = s\<lparr>reloadTimer := reloadTimer s - 1\<rparr>;
           s2 = s1\<lparr>reloadProgress :=
                     1 - real_of_int (reloadTimer s1) / real_of_int (reloadTime (diff w))\<rparr>
       in if reloadTimer s2 \<le> 0 then
            spawnParticles w (Fin (W / 2)) (Fin (H / 2)) ''#00ffff'' 8 1
              (s2\<lparr>reloading := False, arrows := game.maxArrows s2, reloadProgress := 0\<rparr>)
          else s2
     else s)"

definition cooldownStep :: "game \<Rightarrow> game" where
  "cooldownStep s =
    (let s1 = (if shootCooldown s > 0 then s\<lparr>shootCooldown := shootCooldown s - 1\<rparr> else s)
     in if bowPulse s1 > 0 then s1\<lparr>bowPulse := bowPulse s1 - 1\<rparr> else s1)"

definition comboDecay :: "game \<Rightarrow> game" where
  "comboDecay s =
    (if comboTimer s > 0 then
       let s1 = s\<lparr>comboTimer := comboTimer s - 1\<rparr>
       in if comboTimer s1 = 0 then s1\<lparr>combo := 0\<rparr> else s1
     else s)"

definition powerupTimerStep :: "game \<Rightarrow> game" where
  "powerupTimerStep s =
    (if powerupTimer s > 0 then
       let s1 = s\<lparr>powerupTimer := powerupTimer s - 1\<rparr>
       in if powerupTimer s1 = 0 then s1\<lparr>activePowerup := None\<rparr> else s1
     else s)"

definition shakeDecay :: "world \<Rightarrow> game \<Rightarrow> game" where
  "shakeDecay w s =
    (if shakePower s > 0 then
       let s1 = s\<lparr>shakeX := (Math_random w s 0 - 0.5) * shakePower s,
                  shakeY := (Math_random w s 1 - 0.5) * shakePower s,
                  seed := seed s + 2\<rparr>;
           s2 = s1\<lparr>shakePower := shakePower s1 * 0.82\<rparr>
       in if shakePower s2 < 0.3 then s2\<lparr>shakePower := 0, shakeX := 0, shakeY := 0\<rparr>
          else s2
     else s)"

definition powerupRotate :: "game \<Rightarrow> game" where
  "powerupRotate s =
     s\<lparr>powerups :=
        filter (\<lambda>p. powerUp.life p > 0)
          (map (\<lambda>p. p\<lparr>powerUp.angle := powerUp.angle p + 0.04,
                      pulsePhase := pulsePhase p + 0.07,
                      powerUp.life := powerUp.life p - 1\<rparr>)
               (powerups s))\<rparr>"

subsection \<open>Movement patterns\<close>

definition moveStraight :: "enemy \<Rightarrow> enemy" where
  "moveStraight e =
     (let e1 = e\<lparr>enemy.x := enemy.x e + enemy.vx e\<rparr>
      in e1\<lparr>enemy.y := enemy.y e1 + enemy.vy e1\<rparr>)"

text \<open>The velocity kick of the zigzag pattern (every 35th frame); \<open>flip\<close> is 1 or -1.\<close>

definition zigzagKick :: "real \<Rightarrow> enemy \<Rightarrow> enemy" where
  "zigzagKick flip e =
    (let perpx = - enemy.vy e / Fin (speed e);
         perpy = enemy.vx e / Fin (speed e);
         e1 = e\<lparr>enemy.vx :=
                  (enemy.vx e / Fin (speed e) + perpx * Fin flip * Fin 1.8)
                    * Fin (speed e) * Fin 0.65\<rparr>;
         e2 = e1\<lparr>enemy.vy :=
                   (enemy.vy e1 / Fin (speed e1) + perpy * Fin flip * Fin 1.8)
                     * Fin (speed e1) * Fin 0.65\<rparr>;
         spd = Math_sqrt (enemy.vx e2 * enemy.vx e2 + enemy.vy e2 * enemy.vy e2);
         e3 = e2\<lparr>enemy.vx := (enemy.vx e2 / spd) * Fin (speed e2)\<rparr>
     in e3\<lparr>enemy.vy := (enemy.vy e3 / spd) * Fin (speed e3)\<rparr>)"

definition moveZigzag :: "world \<Rightarrow> game \<Rightarrow> enemy \<Rightarrow> enemy \<times> game" where
  "moveZigzag w s e =
    (let e1 = e\<lparr>zigzagTimer := zigzagTimer e + 1\<rparr>;
         e2 = moveStraight e1
     in if zigzagTimer e2 mod 35 = 0 then
          (zigzagKick (if Math_random w s 0 > 0.5 then 1 else - 1) e2,
           s\<lparr>seed := seed s + 1\<rparr>)
        else (e2, s))"

definition moveChase :: "real \<Rightarrow> real \<Rightarrow> enemy \<Rightarrow> enemy" where
  "moveChase cx cy e =
    (let dx = Fin cx - enemy.x e;
         dy = Fin cy - enemy.y e;
         d = Math_sqrt (dx * dx + dy * dy);
         accel = 0.08;
         e1 = e\<lparr>enemy.vx := enemy.vx e + (dx / d) * Fin (speed e) * Fin accel\<rparr>;
         e2 = e1\<lparr>enemy.vy := enemy.vy e1 + (dy / d) * Fin (speed e1) * Fin accel\<rparr>;
         curSpd = Math_sqrt (enemy.vx e2 * enemy.vx e2 + enemy.vy e2 * enemy.vy e2);
         e3 = (if curSpd > Fin (speed e2) then
                 (let e' = e2\<lparr>enemy.vx := (enemy.vx e2 / curSpd) * Fin (speed e2)\<rparr>
                  in e'\<lparr>enemy.vy := (enemy.vy e' / curSpd) * Fin (speed e')\<rparr>)
               else e2)
     in moveStraight e3)"

text \<open>
  The relocation of a teleport-pattern enemy whose countdown has expired: the body of
  \<open>if (e.teleportTimer <= 0)\<close>. Draw 0 resets the countdown, each \<open>spawnParticles\<close>
  makes 24 draws and \<open>createEnemy\<close> four.
\<close>

definition teleportRelocate :: "world \<Rightarrow> real \<Rightarrow> real \<Rightarrow> game \<Rightarrow> enemy \<Rightarrow> enemy \<times> game" where
  "teleportRelocate w W H s e =
    (let e1 = e\<lparr>teleportTimer := 100 + Math_random w s 0 * 100\<rparr>;
         s1 = s\<lparr>seed := seed s + 1\<rparr>;
         s2 = spawnParticles w (enemy.x e1) (enemy.y e1) (enemyType.color e1) 6 1 s1;
         newE = createEnemy (rnd w) (seed s2) e1 W H None;
         s3 = s2\<lparr>seed := seed s2 + 4\<rparr>;
         e2 = e1\<lparr>enemy.x := enemy.x newE\<rparr>;
         e3 = e2\<lparr>enemy.y := enemy.y newE\<rparr>
     in (e3, spawnParticles w (enemy.x e3) (enemy.y e3) (enemyType.color e3) 6 1 s3))"

definition moveTeleport :: "world \<Rightarrow> real \<Rightarrow> real \<Rightarrow> game \<Rightarrow> enemy \<Rightarrow> enemy \<times> game" where
  "moveTeleport w W H s e =
    (let e1 = moveStraight e;
         e2 = e1\<lparr>teleportTimer := teleportTimer e1 - 1\<rparr>
     in if teleportTimer e2 \<le> 0 then teleportRelocate w W H s e2 else (e2, s))"

definition moveBounce :: "world \<Rightarrow> real \<Rightarrow> real \<Rightarrow> game \<Rightarrow> enemy \<Rightarrow> enemy \<times> game" where
  "moveBounce w W H s e =
    (let e1 = moveStraight e;
         puff = (\<lambda>e' s'. spawnParticles w (enemy.x e') (enemy.y e') (enemyType.color e') 3 1 s');
         (e2, s2) = (if enemy.x e1 - Fin (enemyType.radius e1) < Fin 0
                     then (e1\<lparr>enemy.vx := \<bar>enemy.vx e1\<bar>\<rparr>, puff e1 s) else (e1, s));
         (e3, s3) = (if enemy.x e2 + Fin (enemyType.radius e2) > Fin W
                     then (e2\<lparr>enemy.vx := - \<bar>enemy.vx e2\<bar>\<rparr>, puff e2 s2) else (e2, s2));
         (e4, s4) = (if enemy.y e3 - Fin (enemyType.radius e3) < Fin 0
                     then (e3\<lparr>enemy.vy := \<bar>enemy.vy e3\<bar>\<rparr>, puff e3 s3) else (e3, s3))
     in if enemy.y e4 + Fin (enemyType.radius e4) > Fin H
        then (e4\<lparr>enemy.vy := - \<bar>enemy.vy e4\<bar>\<rparr>, puff e4 s4) else (e4, s4))"

definition moveSpiral :: "real \<Rightarrow> real \<Rightarrow> enemy \<Rightarrow> enemy" where
  "moveSpiral cx cy e =
    (let dx = Fin cx - enemy.x e;
         dy = Fin cy - enemy.y e;
         d = Math_sqrt (dx * dx + dy * dy);
         e1 = e\<lparr>enemy.angle := enemy.angle e + 0.05\<rparr>;
         e2 = e1\<lparr>enemy.vx := Fin (cos (enemy.angle e1) * speed e1 * 0.8)
                              + (dx / d) * Fin (speed e1) * Fin 0.6\<rparr>;
         e3 = e2\<lparr>enemy.vy := Fin (sin (enemy.angle e2) * speed e2 * 0.8)
                              + (dy / d) * Fin (speed e2) * Fin 0.6\<rparr>;
         spd = Math_sqrt (enemy.vx e3 * enemy.vx e3 + enemy.vy e3 * enemy.vy e3);
         e4 = e3\<lparr>enemy.vx := (enemy.vx e3 / spd) * Fin (speed e3)\<rparr>;
         e5 = e4\<lparr>enemy.vy := (enemy.vy e4 / spd) * Fin (speed e4)\<rparr>
     in moveStraight e5)"

text \<open>The \<open>switch (e.pattern)\<close>.\<close>

definition movePattern :: "world \<Rightarrow> real \<Rightarrow> real \<Rightarrow> game \<Rightarrow> enemy \<Rightarrow> enemy \<times> game" where
  "movePattern w W H s e =
    (case pattern e of
       Straight \<Rightarrow> (moveStraight e, s)
     | Split \<Rightarrow> (moveStraight e, s)
     | Zigzag \<Rightarrow> moveZigzag w s e
     | Chase \<Rightarrow> (moveChase (W / 2) (H / 2) e, s)
     | Teleport \<Rightarrow> moveTeleport w W H s e
     | Bounce \<Rightarrow> moveBounce w W H s e
     | Spiral \<Rightarrow> (moveSpiral (W / 2) (H / 2) e, s))"

definition pulseStep :: "enemy \<Rightarrow> enemy" where
  "pulseStep e =
    (if pulseGrowing e then
       let e1 = e\<lparr>pulseRadius := pulseRadius e + 0.18\<rparr>
       in if pulseRadius e1 > enemyType.radius e1 + 5 then e1\<lparr>pulseGrowing := False\<rparr> else e1
     else
       let e1 = e\<lparr>pulseRadius := pulseRadius e - 0.18\<rparr>
       in if pulseRadius e1 < enemyType.radius e1 then e1\<lparr>pulseGrowing := True\<rparr> else e1)"

subsection \<open>Enemy update\<close>

text \<open>The out-of-bounds rule that ends the callback (non-bounce patterns only).\<close>

definition outOfBounds :: "real \<Rightarrow> real \<Rightarrow> nat \<Rightarrow> enemy \<Rightarrow> nat list \<Rightarrow> nat list" where
  "outOfBounds W H i e deadEnemies =
    (if pattern e \<noteq> Bounce then
       let margin = 220
       in if enemy.x e < Fin (- margin) \<or> enemy.x e > Fin (W + margin)
             \<or> enemy.y e < Fin (- margin) \<or> enemy.y e > Fin (H + margin)
          then deadEnemies @ [i] else deadEnemies
     else deadEnemies)"

text \<open>
  The contact test with the bow, the first part of the callback of
  \<open>s.enemies.forEach((e, i) => ...)\<close> (flash countdown, movement, pulse ring and
  rotation of enemy \<open>e\<close>), and the callback, with the list \<open>deadEnemies\<close>.
  The enemy is an object of the array and is changed in place: it is written back at
  its index. The \<open>return\<close> after \<open>onGameOver\<close> leaves the callback of this enemy only;
  \<open>forEach\<close> goes on with the next one.
\<close>

definition touchesBow :: "real \<Rightarrow> real \<Rightarrow> enemy \<Rightarrow> bool" where
  "touchesBow cx cy e =
    (let dx = enemy.x e - Fin cx;
         dy = enemy.y e - Fin cy
     in Math_sqrt (dx * dx + dy * dy) < Fin (enemyType.radius e + 22))"

definition advanceEnemy :: "world \<Rightarrow> real \<Rightarrow> real \<Rightarrow> game \<Rightarrow> enemy \<Rightarrow> enemy \<times> game" where
  "advanceEnemy w W H s e0 =
    (let e1 = (if flashTimer e0 > 0 then e0\<lparr>flashTimer := flashTimer e0 - 1\<rparr> else e0)
     in case movePattern w W H s e1 of (e2, s1) \<Rightarrow>
       let e3 = pulseStep e2;
           e4 = (if pattern e3 \<noteq> Chase then e3\<lparr>enemy.angle := enemy.angle e3 + 0.012\<rparr>
                 else e3)
       in (e4, s1))"

definition updateEnemy :: "world \<Rightarrow> real \<Rightarrow> real \<Rightarrow> nat \<Rightarrow> nat list \<times> game \<Rightarrow> nat list \<times> game" where
  "updateEnemy w W H i ds =
    (case ds of (deadEnemies, s) \<Rightarrow>
      case advanceEnemy w W H s (enemies s ! i) of (e4, s1) \<Rightarrow>
        let cx = W / 2;
            cy = H / 2;
            s2 = s1\<lparr>enemies := (enemies s1)[i := e4]\<rparr>
        in if touchesBow cx cy e4 then
             let dmg = damage e4 * playerDamageMult (diff w) * 0.017;
                 s3 = s2\<lparr>hp := max 0 (hp s2 - dmg)\<rparr>;
                 s4 = spawnParticles w (Fin cx) (Fin cy) ''#ff0000'' 6 1.2 s3;
                 s5 = addShake 10 s4;
                 s6 = s5\<lparr>combo := 0, comboTimer := 0, killStreak := 0\<rparr>;
                 dead1 = deadEnemies @ [i]
             in if hp s6 \<le> 0 then
                  (dead1, s6\<lparr>alive := False, gameOverCalls := gameOverCalls s6 @ [score s6]\<rparr>)
                else (outOfBounds W H i e4 dead1, s6)
           else (outOfBounds W H i e4 deadEnemies, s2))"

definition updateEnemies :: "world \<Rightarrow> real \<Rightarrow> real \<Rightarrow> game \<Rightarrow> nat list \<times> game" where
  "updateEnemies w W H s = fold (updateEnemy w W H) [0..<length (enemies s)] ([], s)"

subsection \<open>Projectile hits\<close>

text \<open>One offspring of a dying splitter: two draws for the position, four in \<open>createEnemy\<close>.\<close>

definition spawnScout :: "world \<Rightarrow> real \<Rightarrow> real \<Rightarrow> nat \<Rightarrow> enemyType \<Rightarrow> game \<Rightarrow> game" where
  "spawnScout w W H ei scout s =
    (let e = enemies s ! ei;
         ox = enemy.x e + Fin ((Math_random w s 0 - 0.5) * 50);
         oy = enemy.y e + Fin ((Math_random w s 1 - 0.5) * 50)
     in s\<lparr>enemies := enemies s @ [createEnemy (rnd w) (seed s + 2) scout W H (Some (ox, oy))],
          seed := seed s + 6\<rparr>)"

text \<open>
  \<open>ENEMY_TYPES.find(t => t.id === 'scout')!\<close> always finds the scout (lemma
  \<open>find_scout\<close>), so the branch \<open>None\<close> is never taken.
\<close>

definition splitStep :: "world \<Rightarrow> real \<Rightarrow> real \<Rightarrow> nat \<Rightarrow> game \<Rightarrow> game" where
  "splitStep w W H ei s =
    (let e = enemies s ! ei in
     if id_e e = ''splitter'' \<and> \<not> splitDone e then
       let s1 = s\<lparr>enemies := (enemies s)[ei := e\<lparr>splitDone := True\<rparr>]\<rparr>
       in case find (\<lambda>t. id_e t = ''scout'') ENEMY_TYPES of
            None \<Rightarrow> s1
          | Some scout \<Rightarrow> fold (\<lambda>k. spawnScout w W H ei scout) [0..<2] s1
     else s)"

definition powerupDrop :: "world \<Rightarrow> nat \<Rightarrow> game \<Rightarrow> game" where
  "powerupDrop w ei s =
    (if totalKills s \<ge> nextPowerupKill s then
       let e = enemies s ! ei;
           s1 = s\<lparr>nextPowerupKill := nextPowerupKill s + (8 + \<lfloor>Math_random w s 0 * 8\<rfloor>)\<rparr>;
           types = [Multi, Pierce, Rapid, Bomb];
           t = types ! nat \<lfloor>Math_random w s 1 * real (length types)\<rfloor>
       in s1\<lparr>powerups := powerups s1 @
               [\<lparr>powerUp.x = enemy.x e, y = enemy.y e, ptype = t, radius = 16, angle = 0,
                 life = 360, pulsePhase = 0\<rparr>],
             seed := seed s1 + 2\<rparr>
     else s)"

text \<open>The body of \<open>if (e.hp <= 0)\<close>: the kill of enemy \<open>ei\<close> by a projectile.\<close>

definition killEnemy :: "world \<Rightarrow> real \<Rightarrow> real \<Rightarrow> nat \<Rightarrow> nat list \<times> game \<Rightarrow> nat list \<times> game" where
  "killEnemy w W H ei ds =
    (case ds of (deadEnemies, s) \<Rightarrow>
      let e = enemies s ! ei;
          earned = real_of_int (points e * int (wave s))
                     * (1 + real_of_int (combo s div 3) * 0.5);
          s1 = s\<lparr>score := score s + Math_round earned, totalKills := totalKills s + 1,
                 killStreak := killStreak s + 1\<rparr>;
          s2 = s1\<lparr>combo := combo s1 + 1, comboTimer := 90\<rparr>;
          s3 = spawnParticles w (enemy.x e) (enemy.y e) (enemyType.color e) 14 1.3 s2;
          s4 = addFloat (enemy.x e) (enemy.y e - Fin (enemyType.radius e) - Fin 8)
                 (ScoreText (Math_round earned)) (enemyType.color e) (combo s3 \<ge> 3) s3;
          s5 = (if combo s4 \<ge> 3 then
                  addFloat (enemy.x e) (enemy.y e - Fin (enemyType.radius e) - Fin 28)
                    (ComboText (combo s4)) ''#ffff00'' True s4
                else s4);
          s6 = addShake (4 + real_of_int (maxHp e)) s5;
          s7 = splitStep w W H ei s6;
          dead1 = (if ei \<notin> set deadEnemies then deadEnemies @ [ei] else deadEnemies)
      in (dead1, powerupDrop w ei s7))"

text \<open>
  The circle overlap test, and the callback of the inner
  \<open>s.enemies.forEach((e, ei) => ...)\<close> for projectile \<open>p\<close> of
  index \<open>pix\<close> (\<open>pi\<close> in the source), with \<open>deadEnemies\<close> and the set \<open>deadProjectiles\<close>.
\<close>

definition hits :: "projectile \<Rightarrow> enemy \<Rightarrow> bool" where
  "hits p e =
    (let dx = Fin (projectile.x p) - enemy.x e;
         dy = Fin (projectile.y p) - enemy.y e
     in Math_sqrt (dx * dx + dy * dy) < Fin (projectile.radius p + enemyType.radius e))"

definition hitEnemy ::
  "world \<Rightarrow> real \<Rightarrow> real \<Rightarrow> nat \<Rightarrow> projectile \<Rightarrow> nat \<Rightarrow> nat list \<times> nat set \<times> game
     \<Rightarrow> nat list \<times> nat set \<times> game"
where
  "hitEnemy w W H pix p ei st =
    (case st of (deadEnemies, deadProjectiles, s) \<Rightarrow>
      if ei \<in> set deadEnemies then st
      else
        let e = enemies s ! ei
        in if hits p e then
             let e1 = e\<lparr>enemy.hp := enemy.hp e - 1\<rparr>;
                 e2 = e1\<lparr>flashTimer := 7\<rparr>;
                 s1 = s\<lparr>enemies := (enemies s)[ei := e2]\<rparr>;
                 s2 = spawnParticles w (enemy.x e2) (enemy.y e2) (enemyType.color e2) 4 1 s1
             in case (if enemy.hp e2 \<le> 0 then killEnemy w W H ei (deadEnemies, s2)
                      else (deadEnemies, s2)) of
                  (dead1, s3) \<Rightarrow>
                    (dead1,
                     (if \<not> piercing p then insert pix deadProjectiles else deadProjectiles),
                     s3)
           else st)"

text \<open>
  The inner \<open>forEach\<close> visits the enemies that are in the array when it starts: offspring
  pushed during it are not visited by this projectile, but by the next ones.
\<close>

definition projectileLoop ::
  "world \<Rightarrow> real \<Rightarrow> real \<Rightarrow> nat \<times> projectile \<Rightarrow> nat list \<times> nat set \<times> game
     \<Rightarrow> nat list \<times> nat set \<times> game"
where
  "projectileLoop w W H ip st =
     fold (hitEnemy w W H (fst ip) (snd ip)) [0..<length (enemies (snd (snd st)))] st"

definition projectileHits ::
  "world \<Rightarrow> real \<Rightarrow> real \<Rightarrow> nat list \<Rightarrow> game \<Rightarrow> nat list \<times> nat set \<times> game"
where
  "projectileHits w W H deadEnemies s =
     fold (projectileLoop w W H) (enumerate 0 (projectiles s)) (deadEnemies, {}, s)"

subsection \<open>Removal, pick-up and the remaining motion\<close>

definition removeDead :: "nat list \<Rightarrow> nat set \<Rightarrow> game \<Rightarrow> game" where
  "removeDead deadEnemies deadProjectiles s =
     s\<lparr>enemies := fold splice1 (rev (sort (remdups deadEnemies))) (enemies s),
       projectiles :=
         map snd (filter (\<lambda>ip. fst ip \<notin> deadProjectiles) (enumerate 0 (projectiles s)))\<rparr>"

text \<open>
  The distance test of the pick-up, and the callback of \<open>s.powerups.filter\<close>, with
  the list of the power-ups kept so far.
\<close>

definition nearPointer :: "world \<Rightarrow> powerUp \<Rightarrow> bool" where
  "nearPointer w pu =
    (let dx = Fin (mouseX w) - powerUp.x pu;
         dy = Fin (mouseY w) - powerUp.y pu
     in Math_sqrt (dx * dx + dy * dy) < Fin (powerUp.radius pu + 20))"

definition pickupStep :: "world \<Rightarrow> powerUp \<Rightarrow> powerUp list \<times> game \<Rightarrow> powerUp list \<times> game" where
  "pickupStep w pu ks =
    (case ks of (kept, s) \<Rightarrow>
      if nearPointer w pu then
           let s1 = s\<lparr>activePowerup := Some (ptype pu)\<rparr>;
               s2 = s1\<lparr>powerupTimer := (if ptype pu = Bomb then 1 else 360)\<rparr>;
               s3 = spawnParticles w (powerUp.x pu) (powerUp.y pu)
                      (POWERUP_COLORS (ptype pu)) 12 1.5 s2
           in (kept,
               addFloat (powerUp.x pu) (powerUp.y pu - Fin 30) (PowerText (ptype pu))
                 (POWERUP_COLORS (ptype pu)) True s3)
         else (kept @ [pu], s))"

definition powerupPickup :: "world \<Rightarrow> game \<Rightarrow> game" where
  "powerupPickup w s =
    (case fold (pickupStep w) (powerups s) ([], s) of (kept, s1) \<Rightarrow> s1\<lparr>powerups := kept\<rparr>)"

definition moveProjectile :: "projectile \<Rightarrow> projectile" where
  "moveProjectile p =
    (let t1 = trail p @ [(projectile.x p, projectile.y p)];
         t2 = (if length t1 > 12 then tl t1 else t1);
         p1 = p\<lparr>trail := t2\<rparr>;
         p2 = p1\<lparr>projectile.x := projectile.x p1 + projectile.vx p1\<rparr>
     in p2\<lparr>projectile.y := projectile.y p2 + projectile.vy p2\<rparr>)"

definition moveProjectiles :: "real \<Rightarrow> real \<Rightarrow> game \<Rightarrow> game" where
  "moveProjectiles W H s =
     s\<lparr>projectiles :=
        filter (\<lambda>p. projectile.x p > - 80 \<and> projectile.x p < W + 80
                    \<and> projectile.y p > - 80 \<and> projectile.y p < H + 80)
          (map moveProjectile (projectiles s))\<rparr>"

definition moveParticle :: "particle \<Rightarrow> particle" where
  "moveParticle p =
    (let p1 = p\<lparr>particle.x := particle.x p + Fin (particle.vx p)\<rparr>;
         p2 = p1\<lparr>particle.y := particle.y p1 + Fin (particle.vy p1)\<rparr>;
         p3 = p2\<lparr>particle.vx := particle.vx p2 * 0.94\<rparr>;
         p4 = p3\<lparr>particle.vy := particle.vy p3 * 0.94\<rparr>
     in p4\<lparr>particle.life := particle.life p4 - 1\<rparr>)"

definition moveParticles :: "game \<Rightarrow> game" where
  "moveParticles s =
     s\<lparr>particles := filter (\<lambda>p. particle.life p > 0) (map moveParticle (particles s))\<rparr>"

definition moveFloats :: "game \<Rightarrow> game" where
  "moveFloats s =
     s\<lparr>floats :=
        filter (\<lambda>f. floatingText.life f > 0)
          (map (\<lambda>f. f\<lparr>floatingText.y := floatingText.y f + Fin (floatingText.vy f),
                      floatingText.life := floatingText.life f - 1\<rparr>)
               (floats s))\<rparr>"

subsection \<open>One frame\<close>

text \<open>
  \<open>loop\<close> up to the drawing code, which reads \<open>s\<close> only. The loop exists once the canvas
  is mounted (the effect returns early without one) and does nothing once the player
  is dead.
\<close>

definition loop :: "world \<Rightarrow> game \<Rightarrow> game" where
  "loop w s =
    (if \<not> alive s then s
     else
       case canvas w of
         None \<Rightarrow> s
       | Some (W, H) \<Rightarrow>
           let s1 = waveStep s;
               s2 = spawnStep w W H s1;
               s3 = reloadStep w W H s2;
               s4 = cooldownStep s3;
               s5 = comboDecay s4;
               s6 = powerupTimerStep s5;
               s7 = shakeDecay w s6;
               s8 = powerupRotate s7
           in case updateEnemies w W H s8 of (deadEnemies, s9) \<Rightarrow>
                case projectileHits w W H deadEnemies s9 of
                  (deadEnemies', deadProjectiles, s10) \<Rightarrow>
                    let s11 = removeDead deadEnemies' deadProjectiles s10;
                        s12 = powerupPickup w s11;
                        s13 = moveProjectiles W H s12;
                        s14 = moveParticles s13
                    in moveFloats s14)"

text \<open>A run of frames, each with the world as it is during that frame.\<close>

definition run :: "world list \<Rightarrow> game \<Rightarrow> game" where
  "run ws s = fold loop ws s"

subsection \<open>Session start\<close>

text \<open>The state as the effect resets it before the first frame.\<close>

definition initialState :: "difficulty \<Rightarrow> game" where
  "initialState d =
    \<lparr>hp = 100, score = 0, wave = 1,
     arrows = difficultyProfile.maxArrows (DIFFICULTY d),
     maxArrows = difficultyProfile.maxArrows (DIFFICULTY d),
     reloading = False, reloadProgress = 0, reloadTimer = 0,
     spawnTimer = 0, waveTimer = 0,
     enemies = [], projectiles = [], particles = [], floats = [], powerups = [],
     alive = True, bowPulse = 0, shootCooldown = 0,
     combo = 0, comboTimer = 0, killStreak = 0,
     shakeX = 0, shakeY = 0, shakePower = 0,
     activePowerup = None, powerupTimer = 0, rapidFire = False, waveAnnounce = 0,
     totalKills = 0, nextPowerupKill = 10,
     seed = 0, gameOverCalls = []\<rparr>"

text \<open>
  A world for concrete runs: an 800 by 600 canvas, the pointer at \<open>(mx, my)\<close>, and a
  stream of random values that is constantly 0.
\<close>

definition sampleWorld :: "difficulty \<Rightarrow> real \<Rightarrow> real \<Rightarrow> world" where
  "sampleWorld d mx my =
    \<lparr>canvas = Some (800, 600), mouseX = mx, mouseY = my, difficulty = d,
     rnd = (\<lambda>k. Rnd 0)\<rparr>"

text \<open>
  An enemy of a given type as \<open>createEnemy\<close> makes it (full health, timers and flags
  reset), at a given position with a given velocity, and a plain projectile at a given
  position flying to the right.
\<close>

definition sampleEnemy :: "enemyType \<Rightarrow> real \<Rightarrow> real \<Rightarrow> real \<Rightarrow> real \<Rightarrow> enemy" where
  "sampleEnemy type px py pvx pvy =
    \<lparr>id_e = id_e type, enemyType.color = enemyType.color type, maxHp = maxHp type,
     speed = enemyType.speed type, damage = damage type,
     enemyType.radius = enemyType.radius type,
     points = points type, pattern = pattern type,
     enemy.hp = maxHp type, enemy.x = Fin px, enemy.y = Fin py, enemy.vx = Fin pvx,
     enemy.vy = Fin pvy, enemy.angle = 0,
     zigzagTimer = 0, teleportTimer = 90, splitDone = False,
     pulseRadius = enemyType.radius type, pulseGrowing = True, flashTimer = 0\<rparr>"

definition sampleProjectile :: "real \<Rightarrow> real \<Rightarrow> projectile" where
  "sampleProjectile px py =
    \<lparr>projectile.x = px, y = py, vx = 15, vy = 0, radius = 4, trail = [], piercing = False\<rparr>"

subsection \<open>Concrete situations\<close>

text \<open>
  Two scouts reach the bow from above and from below in the same frame, while the
  player has 0.04 health left (the health after 588 scout contacts at normal
  difficulty, each costing 0.17).
\<close>

definition twoContacts :: game where
  "twoContacts =
    (initialState Normal)
      \<lparr>hp := 0.04,
       enemies := [sampleEnemy (ENEMY_TYPES ! 0) 400 263 0 2.5,
                   sampleEnemy (ENEMY_TYPES ! 0) 400 337 0 (- 2.5)]\<rparr>"

text \<open>
  A splitter at full health stands at the pointer when a shot is made with the bomb
  power-up active (picked up in the frame before).
\<close>

definition bombOnSplitter :: game where
  "bombOnSplitter =
    (initialState Normal)
      \<lparr>activePowerup := Some Bomb, powerupTimer := 1,
       enemies := [sampleEnemy (ENEMY_TYPES ! 4) 200 200 1.5 0]\<rparr>"

text \<open>A bomb pick-up lies under the pointer, at (100, 100), at the start of a session.\<close>

definition bombUnderPointer :: game where
  "bombUnderPointer =
    (initialState Normal)
      \<lparr>powerups := [\<lparr>powerUp.x = Fin 100, y = Fin 100, ptype = Bomb, radius = 16,
                      angle = 0, life = 360, pulsePhase = 0\<rparr>]\<rparr>"


text \<open>
  An enemy between frames: health at least 1 and at most the maximum of its type.
\<close>

definition healthy :: "enemy \<Rightarrow> bool" where
  "healthy e \<longleftrightarrow> 1 \<le> enemy.hp e \<and> enemy.hp e \<le> maxHp e"

text \<open>
  The enemies during the hit phase of a frame, with the list \<open>deadEnemies\<close>: every
  health is between 0 and the maximum, and an enemy at 0 is marked for removal.
\<close>

definition hitInv :: "nat list \<Rightarrow> enemy list \<Rightarrow> bool" where
  "hitInv dead es \<longleftrightarrow>
     (\<forall>i < length es.
        0 \<le> enemy.hp (es ! i) \<and> enemy.hp (es ! i) \<le> maxHp (es ! i)
        \<and> (enemy.hp (es ! i) \<le> 0 \<longrightarrow> i \<in> set dead))"

section \<open>The hit loop of the earlier revision (src/game/GameCanvas.tsx)\<close>

text \<open>
  The repository also holds an earlier revision of the engine. Its projectile loop registers
  a hit on every overlap (there is no test of \<open>deadEnemies\<close> before \<open>e.hp--\<close>), has no
  combo, floating text or power-up, and splices a projectile out of \<open>s.projectiles\<close>
  inside the loop (its projectiles have no \<open>piercing\<close> field, which reads as false). Its
  state has a part of the fields of \<open>game\<close>; the loop reads and writes the enemies, the
  projectiles, the particles, the score and the wave only.
\<close>

definition spawnParticle_old ::
  "world \<Rightarrow> jsnum \<Rightarrow> jsnum \<Rightarrow> string \<Rightarrow> nat \<Rightarrow> nat \<Rightarrow> game \<Rightarrow> game"
where
  "spawnParticle_old w px py col count i s =
    (let ang = (pi * 2 * real i) / real count + Math_random w s 0 * 0.5;
         spd = 1.5 + Math_random w s 1 * 3
     in s\<lparr>particles := particles s @
            [\<lparr>particle.x = px, y = py, vx = cos ang * spd, vy = sin ang * spd,
              life = 40 + Math_random w s 2 * 20, maxLife = 60, color = col,
              radius = 2 + Math_random w s 3 * 3\<rparr>],
          seed := seed s + 4\<rparr>)"

definition spawnParticles_old ::
  "world \<Rightarrow> jsnum \<Rightarrow> jsnum \<Rightarrow> string \<Rightarrow> nat \<Rightarrow> game \<Rightarrow> game"
where
  "spawnParticles_old w px py col count s =
     fold (spawnParticle_old w px py col count) [0..<count] s"

definition spawnScout_old :: "world \<Rightarrow> real \<Rightarrow> real \<Rightarrow> nat \<Rightarrow> enemyType \<Rightarrow> game \<Rightarrow> game" where
  "spawnScout_old w W H ei scout s =
    (let e = enemies s ! ei;
         ox = enemy.x e + Fin ((Math_random w s 0 - 0.5) * 40);
         oy = enemy.y e + Fin ((Math_random w s 1 - 0.5) * 40)
     in s\<lparr>enemies := enemies s @ [createEnemy (rnd w) (seed s + 2) scout W H (Some (ox, oy))],
          seed := seed s + 6\<rparr>)"

definition splitStep_old :: "world \<Rightarrow> real \<Rightarrow> real \<Rightarrow> nat \<Rightarrow> game \<Rightarrow> game" where
  "splitStep_old w W H ei s =
    (let e = enemies s ! ei in
     if id_e e = ''splitter'' \<and> \<not> splitDone e then
       let s1 = s\<lparr>enemies := (enemies s)[ei := e\<lparr>splitDone := True\<rparr>]\<rparr>
       in case find (\<lambda>t. id_e t = ''scout'') ENEMY_TYPES of
            None \<Rightarrow> s1
          | Some scout \<Rightarrow> fold (\<lambda>k. spawnScout_old w W H ei scout) [0..<2] s1
     else s)"

text \<open>The body of \<open>if (e.hp <= 0)\<close>; \<open>emitState()\<close> only reports to the HUD.\<close>

definition killEnemy_old :: "world \<Rightarrow> real \<Rightarrow> real \<Rightarrow> nat \<Rightarrow> nat list \<times> game \<Rightarrow> nat list \<times> game" where
  "killEnemy_old w W H ei ds =
    (case ds of (deadEnemies, s) \<Rightarrow>
      let e = enemies s ! ei;
          s1 = s\<lparr>score := score s + points e * int (wave s)\<rparr>;
          s2 = spawnParticles_old w (enemy.x e) (enemy.y e) (enemyType.color e) 15 s1;
          s3 = splitStep_old w W H ei s2;
          dead1 = (if ei \<notin> set deadEnemies then deadEnemies @ [ei] else deadEnemies)
      in (dead1, s3))"

text \<open>
  The callback of the inner \<open>s.enemies.forEach((e, ei) => ...)\<close> for the projectile \<open>p\<close>
  that the outer callback received at index \<open>pix\<close> (\<open>pi\<close> in the source).
  \<open>s.projectiles.splice(pi, 1)\<close> removes whatever stands at that index at that moment.
\<close>

definition hitEnemy_old ::
  "world \<Rightarrow> real \<Rightarrow> real \<Rightarrow> nat \<Rightarrow> projectile \<Rightarrow> nat \<Rightarrow> nat list \<times> game \<Rightarrow> nat list \<times> game"
where
  "hitEnemy_old w W H pix p ei st =
    (case st of (deadEnemies, s) \<Rightarrow>
      let e = enemies s ! ei
      in if hits p e then
           let e1 = e\<lparr>enemy.hp := enemy.hp e - 1\<rparr>;
               e2 = e1\<lparr>flashTimer := 8\<rparr>;
               s1 = s\<lparr>enemies := (enemies s)[ei := e2]\<rparr>;
               s2 = spawnParticles_old w (enemy.x e2) (enemy.y e2) (enemyType.color e2) 5 s1
           in case (if enemy.hp e2 \<le> 0 then killEnemy_old w W H ei (deadEnemies, s2)
                    else (deadEnemies, s2)) of
                (dead1, s3) \<Rightarrow>
                  (dead1,
                   if \<not> piercing p then s3\<lparr>projectiles := splice1 pix (projectiles s3)\<rparr>
                   else s3)
         else st)"

text \<open>
  \<open>forEach\<close> fixes the number of indices when it starts and skips an index that is no
  longer in the array when its turn comes. So the outer loop, whose array shrinks under
  it, passes the projectile that stands at \<open>pix\<close> at that time, and nothing once \<open>pix\<close> is
  past the end; the inner loop visits the enemies present when it starts.
\<close>

definition projectileLoop_old ::
  "world \<Rightarrow> real \<Rightarrow> real \<Rightarrow> nat \<Rightarrow> nat list \<times> game \<Rightarrow> nat list \<times> game"
where
  "projectileLoop_old w W H pix st =
    (if pix < length (projectiles (snd st)) then
       fold (hitEnemy_old w W H pix (projectiles (snd st) ! pix))
         [0..<length (enemies (snd st))] st
     else st)"

definition projectileHits_old ::
  "world \<Rightarrow> real \<Rightarrow> real \<Rightarrow> nat list \<Rightarrow> game \<Rightarrow> nat list \<times> game"
where
  "projectileHits_old w W H deadEnemies s =
     fold (projectileLoop_old w W H) [0..<length (projectiles s)] (deadEnemies, s)"

text \<open>
  Three projectiles, at (98, 100), (100, 100) and (102, 100), overlap a scout (health 1,
  radius 14) that stands at (100, 100), in wave 1.
\<close>

definition threeOnScout :: game where
  "threeOnScout =
    (initialState Normal)
      \<lparr>enemies := [sampleEnemy (ENEMY_TYPES ! 0) 100 100 2.5 0],
       projectiles := [sampleProjectile 98 100, sampleProjectile 100 100,
                       sampleProjectile 102 100]\<rparr>"

section \<open>Basic facts\<close>

lemma createEnemy_hp: "enemy.hp (createEnemy r k type cw ch ov) = maxHp type"
  by (simp add: createEnemy_def Let_def split: prod.splits)

lemma fold_keeps:
  assumes "\<And>x a. f (g x a) = f a"
  shows "f (fold g xs a) = f a"
  using assms by (induction xs arbitrary: a) simp_all

subsection \<open>What the helpers leave alone\<close>

lemma spawnParticles_frame [simp]:
  "hp (spawnParticles w px py col n m s) = hp s"
  "score (spawnParticles w px py col n m s) = score s"
  "wave (spawnParticles w px py col n m s) = wave s"
  "arrows (spawnParticles w px py col n m s) = arrows s"
  "game.maxArrows (spawnParticles w px py col n m s) = game.maxArrows s"
  "reloading (spawnParticles w px py col n m s) = reloading s"
  "reloadProgress (spawnParticles w px py col n m s) = reloadProgress s"
  "reloadTimer (spawnParticles w px py col n m s) = reloadTimer s"
  "spawnTimer (spawnParticles w px py col n m s) = spawnTimer s"
  "waveTimer (spawnParticles w px py col n m s) = waveTimer s"
  "enemies (spawnParticles w px py col n m s) = enemies s"
  "projectiles (spawnParticles w px py col n m s) = projectiles s"
  "floats (spawnParticles w px py col n m s) = floats s"
  "powerups (spawnParticles w px py col n m s) = powerups s"
  "alive (spawnParticles w px py col n m s) = alive s"
  "bowPulse (spawnParticles w px py col n m s) = bowPulse s"
  "shootCooldown (spawnParticles w px py col n m s) = shootCooldown s"
  "combo (spawnParticles w px py col n m s) = combo s"
  "comboTimer (spawnParticles w px py col n m s) = comboTimer s"
  "killStreak (spawnParticles w px py col n m s) = killStreak s"
  "shakeX (spawnParticles w px py col n m s) = shakeX s"
  "shakeY (spawnParticles w px py col n m s) = shakeY s"
  "shakePower (spawnParticles w px py col n m s) = shakePower s"
  "activePowerup (spawnParticles w px py col n m s) = activePowerup s"
  "powerupTimer (spawnParticles w px py col n m s) = powerupTimer s"
  "rapidFire (spawnParticles w px py col n m s) = rapidFire s"
  "waveAnnounce (spawnParticles w px py col n m s) = waveAnnounce s"
  "totalKills (spawnParticles w px py col n m s) = totalKills s"
  "nextPowerupKill (spawnParticles w px py col n m s) = nextPowerupKill s"
  "gameOverCalls (spawnParticles w px py col n m s) = gameOverCalls s"
  unfolding spawnParticles_def by (rule fold_keeps, simp add: spawnParticle_def Let_def)+

lemma seed_spawnParticles [simp]: "seed (spawnParticles w px py col n m s) = seed s + 4 * n"
proof -
  have "seed (fold (spawnParticle w px py col c m) is s) = seed s + 4 * length is" for c "is"
    by (induction "is" arbitrary: s) (simp_all add: spawnParticle_def Let_def)
  then show ?thesis by (simp add: spawnParticles_def)
qed

lemma length_particles_spawnParticles [simp]:
  "length (particles (spawnParticles w px py col n m s)) = length (particles s) + n"
proof -
  have "length (particles (fold (spawnParticle w px py col c m) is s))
          = length (particles s) + length is" for c "is"
    by (induction "is" arbitrary: s) (simp_all add: spawnParticle_def Let_def)
  then show ?thesis by (simp add: spawnParticles_def)
qed

lemma addFloat_frame [simp]:
  "hp (addFloat fx fy txt col big s) = hp s"
  "score (addFloat fx fy txt col big s) = score s"
  "wave (addFloat fx fy txt col big s) = wave s"
  "arrows (addFloat fx fy txt col big s) = arrows s"
  "game.maxArrows (addFloat fx fy txt col big s) = game.maxArrows s"
  "reloading (addFloat fx fy txt col big s) = reloading s"
  "reloadProgress (addFloat fx fy txt col big s) = reloadProgress s"
  "reloadTimer (addFloat fx fy txt col big s) = reloadTimer s"
  "spawnTimer (addFloat fx fy txt col big s) = spawnTimer s"
  "waveTimer (addFloat fx fy txt col big s) = waveTimer s"
  "enemies (addFloat fx fy txt col big s) = enemies s"
  "projectiles (addFloat fx fy txt col big s) = projectiles s"
  "particles (addFloat fx fy txt col big s) = particles s"
  "powerups (addFloat fx fy txt col big s) = powerups s"
  "alive (addFloat fx fy txt col big s) = alive s"
  "bowPulse (addFloat fx fy txt col big s) = bowPulse s"
  "shootCooldown (addFloat fx fy txt col big s) = shootCooldown s"
  "combo (addFloat fx fy txt col big s) = combo s"
  "comboTimer (addFloat fx fy txt col big s) = comboTimer s"
  "killStreak (addFloat fx fy txt col big s) = killStreak s"
  "shakeX (addFloat fx fy txt col big s) = shakeX s"
  "shakeY (addFloat fx fy txt col big s) = shakeY s"
  "shakePower (addFloat fx fy txt col big s) = shakePower s"
  "activePowerup (addFloat fx fy txt col big s) = activePowerup s"
  "powerupTimer (addFloat fx fy txt col big s) = powerupTimer s"
  "rapidFire (addFloat fx fy txt col big s) = rapidFire s"
  "waveAnnounce (addFloat fx fy txt col big s) = waveAnnounce s"
  "totalKills (addFloat fx fy txt col big s) = totalKills s"
  "nextPowerupKill (addFloat fx fy txt col big s) = nextPowerupKill s"
  "seed (addFloat fx fy txt col big s) = seed s"
  "gameOverCalls (addFloat fx fy txt col big s) = gameOverCalls s"
  by (simp_all add: addFloat_def)

lemma addShake_frame [simp]:
  "hp (addShake pw s) = hp s"
  "score (addShake pw s) = score s"
  "wave (addShake pw s) = wave s"
  "arrows (addShake pw s) = arrows s"
  "game.maxArrows (addShake pw s) = game.maxArrows s"
  "reloading (addShake pw s) = reloading s"
  "reloadProgress (addShake pw s) = reloadProgress s"
  "reloadTimer (addShake pw s) = reloadTimer s"
  "spawnTimer (addShake pw s) = spawnTimer s"
  "waveTimer (addShake pw s) = waveTimer s"
  "enemies (addShake pw s) = enemies s"
  "projectiles (addShake pw s) = projectiles s"
  "particles (addShake pw s) = particles s"
  "floats (addShake pw s) = floats s"
  "powerups (addShake pw s) = powerups s"
  "alive (addShake pw s) = alive s"
  "bowPulse (addShake pw s) = bowPulse s"
  "shootCooldown (addShake pw s) = shootCooldown s"
  "combo (addShake pw s) = combo s"
  "comboTimer (addShake pw s) = comboTimer s"
  "killStreak (addShake pw s) = killStreak s"
  "shakeX (addShake pw s) = shakeX s"
  "shakeY (addShake pw s) = shakeY s"
  "activePowerup (addShake pw s) = activePowerup s"
  "powerupTimer (addShake pw s) = powerupTimer s"
  "rapidFire (addShake pw s) = rapidFire s"
  "waveAnnounce (addShake pw s) = waveAnnounce s"
  "totalKills (addShake pw s) = totalKills s"
  "nextPowerupKill (addShake pw s) = nextPowerupKill s"
  "seed (addShake pw s) = seed s"
  "gameOverCalls (addShake pw s) = gameOverCalls s"
  by (simp_all add: addShake_def)

lemma spawnScout_frame [simp]:
  "hp (spawnScout w W H ei scout s) = hp s"
  "score (spawnScout w W H ei scout s) = score s"
  "wave (spawnScout w W H ei scout s) = wave s"
  "arrows (spawnScout w W H ei scout s) = arrows s"
  "game.maxArrows (spawnScout w W H ei scout s) = game.maxArrows s"
  "reloading (spawnScout w W H ei scout s) = reloading s"
  "reloadProgress (spawnScout w W H ei scout s) = reloadProgress s"
  "reloadTimer (spawnScout w W H ei scout s) = reloadTimer s"
  "spawnTimer (spawnScout w W H ei scout s) = spawnTimer s"
  "waveTimer (spawnScout w W H ei scout s) = waveTimer s"
  "projectiles (spawnScout w W H ei scout s) = projectiles s"
  "particles (spawnScout w W H ei scout s) = particles s"
  "floats (spawnScout w W H ei scout s) = floats s"
  "powerups (spawnScout w W H ei scout s) = powerups s"
  "alive (spawnScout w W H ei scout s) = alive s"
  "bowPulse (spawnScout w W H ei scout s) = bowPulse s"
  "shootCooldown (spawnScout w W H ei scout s) = shootCooldown s"
  "combo (spawnScout w W H ei scout s) = combo s"
  "comboTimer (spawnScout w W H ei scout s) = comboTimer s"
  "killStreak (spawnScout w W H ei scout s) = killStreak s"
  "shakeX (spawnScout w W H ei scout s) = shakeX s"
  "shakeY (spawnScout w W H ei scout s) = shakeY s"
  "shakePower (spawnScout w W H ei scout s) = shakePower s"
  "activePowerup (spawnScout w W H ei scout s) = activePowerup s"
  "powerupTimer (spawnScout w W H ei scout s) = powerupTimer s"
  "rapidFire (spawnScout w W H ei scout s) = rapidFire s"
  "waveAnnounce (spawnScout w W H ei scout s) = waveAnnounce s"
  "totalKills (spawnScout w W H ei scout s) = totalKills s"
  "nextPowerupKill (spawnScout w W H ei scout s) = nextPowerupKill s"
  "gameOverCalls (spawnScout w W H ei scout s) = gameOverCalls s"
  by (simp_all add: spawnScout_def Let_def)

lemma find_scout: "find (\<lambda>t. id_e t = ''scout'') ENEMY_TYPES = Some (ENEMY_TYPES ! 0)"
  by (simp add: ENEMY_TYPES_def)

lemma fold_upt_2: "fold f [0..<2] a = f 1 (f 0 a)"
  by (simp add: numeral_2_eq_2)

lemma splitStep_frame [simp]:
  "hp (splitStep w W H ei s) = hp s"
  "score (splitStep w W H ei s) = score s"
  "wave (splitStep w W H ei s) = wave s"
  "arrows (splitStep w W H ei s) = arrows s"
  "game.maxArrows (splitStep w W H ei s) = game.maxArrows s"
  "reloading (splitStep w W H ei s) = reloading s"
  "reloadProgress (splitStep w W H ei s) = reloadProgress s"
  "reloadTimer (splitStep w W H ei s) = reloadTimer s"
  "spawnTimer (splitStep w W H ei s) = spawnTimer s"
  "waveTimer (splitStep w W H ei s) = waveTimer s"
  "projectiles (splitStep w W H ei s) = projectiles s"
  "particles (splitStep w W H ei s) = particles s"
  "floats (splitStep w W H ei s) = floats s"
  "powerups (splitStep w W H ei s) = powerups s"
  "alive (splitStep w W H ei s) = alive s"
  "bowPulse (splitStep w W H ei s) = bowPulse s"
  "shootCooldown (splitStep w W H ei s) = shootCooldown s"
  "combo (splitStep w W H ei s) = combo s"
  "comboTimer (splitStep w W H ei s) = comboTimer s"
  "killStreak (splitStep w W H ei s) = killStreak s"
  "shakeX (splitStep w W H ei s) = shakeX s"
  "shakeY (splitStep w W H ei s) = shakeY s"
  "shakePower (splitStep w W H ei s) = shakePower s"
  "activePowerup (splitStep w W H ei s) = activePowerup s"
  "powerupTimer (splitStep w W H ei s) = powerupTimer s"
  "rapidFire (splitStep w W H ei s) = rapidFire s"
  "waveAnnounce (splitStep w W H ei s) = waveAnnounce s"
  "totalKills (splitStep w W H ei s) = totalKills s"
  "nextPowerupKill (splitStep w W H ei s) = nextPowerupKill s"
  "gameOverCalls (splitStep w W H ei s) = gameOverCalls s"
  by (simp_all add: splitStep_def Let_def find_scout fold_upt_2)

lemma powerupDrop_frame [simp]:
  "hp (powerupDrop w ei s) = hp s"
  "score (powerupDrop w ei s) = score s"
  "wave (powerupDrop w ei s) = wave s"
  "arrows (powerupDrop w ei s) = arrows s"
  "game.maxArrows (powerupDrop w ei s) = game.maxArrows s"
  "reloading (powerupDrop w ei s) = reloading s"
  "reloadProgress (powerupDrop w ei s) = reloadProgress s"
  "reloadTimer (powerupDrop w ei s) = reloadTimer s"
  "spawnTimer (powerupDrop w ei s) = spawnTimer s"
  "waveTimer (powerupDrop w ei s) = waveTimer s"
  "enemies (powerupDrop w ei s) = enemies s"
  "projectiles (powerupDrop w ei s) = projectiles s"
  "particles (powerupDrop w ei s) = particles s"
  "floats (powerupDrop w ei s) = floats s"
  "alive (powerupDrop w ei s) = alive s"
  "bowPulse (powerupDrop w ei s) = bowPulse s"
  "shootCooldown (powerupDrop w ei s) = shootCooldown s"
  "combo (powerupDrop w ei s) = combo s"
  "comboTimer (powerupDrop w ei s) = comboTimer s"
  "killStreak (powerupDrop w ei s) = killStreak s"
  "shakeX (powerupDrop w ei s) = shakeX s"
  "shakeY (powerupDrop w ei s) = shakeY s"
  "shakePower (powerupDrop w ei s) = shakePower s"
  "activePowerup (powerupDrop w ei s) = activePowerup s"
  "powerupTimer (powerupDrop w ei s) = powerupTimer s"
  "rapidFire (powerupDrop w ei s) = rapidFire s"
  "waveAnnounce (powerupDrop w ei s) = waveAnnounce s"
  "totalKills (powerupDrop w ei s) = totalKills s"
  "gameOverCalls (powerupDrop w ei s) = gameOverCalls s"
  by (simp_all add: powerupDrop_def Let_def)

lemma killEnemy_frame [simp]:
  "hp (snd (killEnemy w W H ei ds)) = hp (snd ds)"
  "wave (snd (killEnemy w W H ei ds)) = wave (snd ds)"
  "arrows (snd (killEnemy w W H ei ds)) = arrows (snd ds)"
  "game.maxArrows (snd (killEnemy w W H ei ds)) = game.maxArrows (snd ds)"
  "reloading (snd (killEnemy w W H ei ds)) = reloading (snd ds)"
  "reloadProgress (snd (killEnemy w W H ei ds)) = reloadProgress (snd ds)"
  "reloadTimer (snd (killEnemy w W H ei ds)) = reloadTimer (snd ds)"
  "spawnTimer (snd (killEnemy w W H ei ds)) = spawnTimer (snd ds)"
  "waveTimer (snd (killEnemy w W H ei ds)) = waveTimer (snd ds)"
  "projectiles (snd (killEnemy w W H ei ds)) = projectiles (snd ds)"
  "alive (snd (killEnemy w W H ei ds)) = alive (snd ds)"
  "bowPulse (snd (killEnemy w W H ei ds)) = bowPulse (snd ds)"
  "shootCooldown (snd (killEnemy w W H ei ds)) = shootCooldown (snd ds)"
  "shakeX (snd (killEnemy w W H ei ds)) = shakeX (snd ds)"
  "shakeY (snd (killEnemy w W H ei ds)) = shakeY (snd ds)"
  "activePowerup (snd (killEnemy w W H ei ds)) = activePowerup (snd ds)"
  "powerupTimer (snd (killEnemy w W H ei ds)) = powerupTimer (snd ds)"
  "rapidFire (snd (killEnemy w W H ei ds)) = rapidFire (snd ds)"
  "waveAnnounce (snd (killEnemy w W H ei ds)) = waveAnnounce (snd ds)"
  "gameOverCalls (snd (killEnemy w W H ei ds)) = gameOverCalls (snd ds)"
  by (simp_all add: killEnemy_def Let_def case_prod_beta)

lemma hitEnemy_frame [simp]:
  "hp (snd (snd (hitEnemy w W H pix p ei st))) = hp (snd (snd st))"
  "wave (snd (snd (hitEnemy w W H pix p ei st))) = wave (snd (snd st))"
  "arrows (snd (snd (hitEnemy w W H pix p ei st))) = arrows (snd (snd st))"
  "game.maxArrows (snd (snd (hitEnemy w W H pix p ei st))) = game.maxArrows (snd (snd st))"
  "reloading (snd (snd (hitEnemy w W H pix p ei st))) = reloading (snd (snd st))"
  "reloadProgress (snd (snd (hitEnemy w W H pix p ei st))) = reloadProgress (snd (snd st))"
  "reloadTimer (snd (snd (hitEnemy w W H pix p ei st))) = reloadTimer (snd (snd st))"
  "spawnTimer (snd (snd (hitEnemy w W H pix p ei st))) = spawnTimer (snd (snd st))"
  "waveTimer (snd (snd (hitEnemy w W H pix p ei st))) = waveTimer (snd (snd st))"
  "projectiles (snd (snd (hitEnemy w W H pix p ei st))) = projectiles (snd (snd st))"
  "alive (snd (snd (hitEnemy w W H pix p ei st))) = alive (snd (snd st))"
  "bowPulse (snd (snd (hitEnemy w W H pix p ei st))) = bowPulse (snd (snd st))"
  "shootCooldown (snd (snd (hitEnemy w W H pix p ei st))) = shootCooldown (snd (snd st))"
  "shakeX (snd (snd (hitEnemy w W H pix p ei st))) = shakeX (snd (snd st))"
  "shakeY (snd (snd (hitEnemy w W H pix p ei st))) = shakeY (snd (snd st))"
  "activePowerup (snd (snd (hitEnemy w W H pix p ei st))) = activePowerup (snd (snd st))"
  "powerupTimer (snd (snd (hitEnemy w W H pix p ei st))) = powerupTimer (snd (snd st))"
  "rapidFire (snd (snd (hitEnemy w W H pix p ei st))) = rapidFire (snd (snd st))"
  "waveAnnounce (snd (snd (hitEnemy w W H pix p ei st))) = waveAnnounce (snd (snd st))"
  "gameOverCalls (snd (snd (hitEnemy w W H pix p ei st))) = gameOverCalls (snd (snd st))"
  by (simp_all add: hitEnemy_def Let_def case_prod_beta)

lemma projectileLoop_frame [simp]:
  "hp (snd (snd (projectileLoop w W H ip st))) = hp (snd (snd st))"
  "wave (snd (snd (projectileLoop w W H ip st))) = wave (snd (snd st))"
  "arrows (snd (snd (projectileLoop w W H ip st))) = arrows (snd (snd st))"
  "game.maxArrows (snd (snd (projectileLoop w W H ip st))) = game.maxArrows (snd (snd st))"
  "reloading (snd (snd (projectileLoop w W H ip st))) = reloading (snd (snd st))"
  "reloadProgress (snd (snd (projectileLoop w W H ip st))) = reloadProgress (snd (snd st))"
  "reloadTimer (snd (snd (projectileLoop w W H ip st))) = reloadTimer (snd (snd st))"
  "spawnTimer (snd (snd (projectileLoop w W H ip st))) = spawnTimer (snd (snd st))"
  "waveTimer (snd (snd (projectileLoop w W H ip st))) = waveTimer (snd (snd st))"
  "projectiles (snd (snd (projectileLoop w W H ip st))) = projectiles (snd (snd st))"
  "alive (snd (snd (projectileLoop w W H ip st))) = alive (snd (snd st))"
  "bowPulse (snd (snd (projectileLoop w W H ip st))) = bowPulse (snd (snd st))"
  "shootCooldown (snd (snd (projectileLoop w W H ip st))) = shootCooldown (snd (snd st))"
  "shakeX (snd (snd (projectileLoop w W H ip st))) = shakeX (snd (snd st))"
  "shakeY (snd (snd (projectileLoop w W H ip st))) = shakeY (snd (snd st))"
  "activePowerup (snd (snd (projectileLoop w W H ip st))) = activePowerup (snd (snd st))"
  "powerupTimer (snd (snd (projectileLoop w W H ip st))) = powerupTimer (snd (snd st))"
  "rapidFire (snd (snd (projectileLoop w W H ip st))) = rapidFire (snd (snd st))"
  "waveAnnounce (snd (snd (projectileLoop w W H ip st))) = waveAnnounce (snd (snd st))"
  "gameOverCalls (snd (snd (projectileLoop w W H ip st))) = gameOverCalls (snd (snd st))"
  unfolding projectileLoop_def by (rule fold_keeps, simp)+

lemma projectileHits_frame [simp]:
  "hp (snd (snd (projectileHits w W H dead s))) = hp s"
  "wave (snd (snd (projectileHits w W H dead s))) = wave s"
  "arrows (snd (snd (projectileHits w W H dead s))) = arrows s"
  "game.maxArrows (snd (snd (projectileHits w W H dead s))) = game.maxArrows s"
  "reloading (snd (snd (projectileHits w W H dead s))) = reloading s"
  "reloadProgress (snd (snd (projectileHits w W H dead s))) = reloadProgress s"
  "reloadTimer (snd (snd (projectileHits w W H dead s))) = reloadTimer s"
  "spawnTimer (snd (snd (projectileHits w W H dead s))) = spawnTimer s"
  "waveTimer (snd (snd (projectileHits w W H dead s))) = waveTimer s"
  "projectiles (snd (snd (projectileHits w W H dead s))) = projectiles s"
  "alive (snd (snd (projectileHits w W H dead s))) = alive s"
  "bowPulse (snd (snd (projectileHits w W H dead s))) = bowPulse s"
  "shootCooldown (snd (snd (projectileHits w W H dead s))) = shootCooldown s"
  "shakeX (snd (snd (projectileHits w W H dead s))) = shakeX s"
  "shakeY (snd (snd (projectileHits w W H dead s))) = shakeY s"
  "activePowerup (snd (snd (projectileHits w W H dead s))) = activePowerup s"
  "powerupTimer (snd (snd (projectileHits w W H dead s))) = powerupTimer s"
  "rapidFire (snd (snd (projectileHits w W H dead s))) = rapidFire s"
  "waveAnnounce (snd (snd (projectileHits w W H dead s))) = waveAnnounce s"
  "gameOverCalls (snd (snd (projectileHits w W H dead s))) = gameOverCalls s"
  unfolding projectileHits_def by (simp_all add: fold_keeps [where f = "\<lambda>st. g (snd (snd st))" for g])

lemma moveZigzag_frame [simp]:
  "hp (snd (moveZigzag w s e)) = hp s"
  "score (snd (moveZigzag w s e)) = score s"
  "wave (snd (moveZigzag w s e)) = wave s"
  "arrows (snd (moveZigzag w s e)) = arrows s"
  "game.maxArrows (snd (moveZigzag w s e)) = game.maxArrows s"
  "reloading (snd (moveZigzag w s e)) = reloading s"
  "reloadProgress (snd (moveZigzag w s e)) = reloadProgress s"
  "reloadTimer (snd (moveZigzag w s e)) = reloadTimer s"
  "spawnTimer (snd (moveZigzag w s e)) = spawnTimer s"
  "waveTimer (snd (moveZigzag w s e)) = waveTimer s"
  "enemies (snd (moveZigzag w s e)) = enemies s"
  "projectiles (snd (moveZigzag w s e)) = projectiles s"
  "particles (snd (moveZigzag w s e)) = particles s"
  "floats (snd (moveZigzag w s e)) = floats s"
  "powerups (snd (moveZigzag w s e)) = powerups s"
  "alive (snd (moveZigzag w s e)) = alive s"
  "bowPulse (snd (moveZigzag w s e)) = bowPulse s"
  "shootCooldown (snd (moveZigzag w s e)) = shootCooldown s"
  "combo (snd (moveZigzag w s e)) = combo s"
  "comboTimer (snd (moveZigzag w s e)) = comboTimer s"
  "killStreak (snd (moveZigzag w s e)) = killStreak s"
  "shakeX (snd (moveZigzag w s e)) = shakeX s"
  "shakeY (snd (moveZigzag w s e)) = shakeY s"
  "shakePower (snd (moveZigzag w s e)) = shakePower s"
  "activePowerup (snd (moveZigzag w s e)) = activePowerup s"
  "powerupTimer (snd (moveZigzag w s e)) = powerupTimer s"
  "rapidFire (snd (moveZigzag w s e)) = rapidFire s"
  "waveAnnounce (snd (moveZigzag w s e)) = waveAnnounce s"
  "totalKills (snd (moveZigzag w s e)) = totalKills s"
  "nextPowerupKill (snd (moveZigzag w s e)) = nextPowerupKill s"
  "gameOverCalls (snd (moveZigzag w s e)) = gameOverCalls s"
  by (simp_all add: moveZigzag_def Let_def)

lemma teleportRelocate_frame [simp]:
  "hp (snd (teleportRelocate w W H s e)) = hp s"
  "score (snd (teleportRelocate w W H s e)) = score s"
  "wave (snd (teleportRelocate w W H s e)) = wave s"
  "arrows (snd (teleportRelocate w W H s e)) = arrows s"
  "game.maxArrows (snd (teleportRelocate w W H s e)) = game.maxArrows s"
  "reloading (snd (teleportRelocate w W H s e)) = reloading s"
  "reloadProgress (snd (teleportRelocate w W H s e)) = reloadProgress s"
  "reloadTimer (snd (teleportRelocate w W H s e)) = reloadTimer s"
  "spawnTimer (snd (teleportRelocate w W H s e)) = spawnTimer s"
  "waveTimer (snd (teleportRelocate w W H s e)) = waveTimer s"
  "enemies (snd (teleportRelocate w W H s e)) = enemies s"
  "projectiles (snd (teleportRelocate w W H s e)) = projectiles s"
  "floats (snd (teleportRelocate w W H s e)) = floats s"
  "powerups (snd (teleportRelocate w W H s e)) = powerups s"
  "alive (snd (teleportRelocate w W H s e)) = alive s"
  "bowPulse (snd (teleportRelocate w W H s e)) = bowPulse s"
  "shootCooldown (snd (teleportRelocate w W H s e)) = shootCooldown s"
  "combo (snd (teleportRelocate w W H s e)) = combo s"
  "comboTimer (snd (teleportRelocate w W H s e)) = comboTimer s"
  "killStreak (snd (teleportRelocate w W H s e)) = killStreak s"
  "shakeX (snd (teleportRelocate w W H s e)) = shakeX s"
  "shakeY (snd (teleportRelocate w W H s e)) = shakeY s"
  "shakePower (snd (teleportRelocate w W H s e)) = shakePower s"
  "activePowerup (snd (teleportRelocate w W H s e)) = activePowerup s"
  "powerupTimer (snd (teleportRelocate w W H s e)) = powerupTimer s"
  "rapidFire (snd (teleportRelocate w W H s e)) = rapidFire s"
  "waveAnnounce (snd (teleportRelocate w W H s e)) = waveAnnounce s"
  "totalKills (snd (teleportRelocate w W H s e)) = totalKills s"
  "nextPowerupKill (snd (teleportRelocate w W H s e)) = nextPowerupKill s"
  "gameOverCalls (snd (teleportRelocate w W H s e)) = gameOverCalls s"
  by (simp_all add: teleportRelocate_def Let_def)

lemma moveTeleport_frame [simp]:
  "hp (snd (moveTeleport w W H s e)) = hp s"
  "score (snd (moveTeleport w W H s e)) = score s"
  "wave (snd (moveTeleport w W H s e)) = wave s"
  "arrows (snd (moveTeleport w W H s e)) = arrows s"
  "game.maxArrows (snd (moveTeleport w W H s e)) = game.maxArrows s"
  "reloading (snd (moveTeleport w W H s e)) = reloading s"
  "reloadProgress (snd (moveTeleport w W H s e)) = reloadProgress s"
  "reloadTimer (snd (moveTeleport w W H s e)) = reloadTimer s"
  "spawnTimer (snd (moveTeleport w W H s e)) = spawnTimer s"
  "waveTimer (snd (moveTeleport w W H s e)) = waveTimer s"
  "enemies (snd (moveTeleport w W H s e)) = enemies s"
  "projectiles (snd (moveTeleport w W H s e)) = projectiles s"
  "floats (snd (moveTeleport w W H s e)) = floats s"
  "powerups (snd (moveTeleport w W H s e)) = powerups s"
  "alive (snd (moveTeleport w W H s e)) = alive s"
  "bowPulse (snd (moveTeleport w W H s e)) = bowPulse s"
  "shootCooldown (snd (moveTeleport w W H s e)) = shootCooldown s"
  "combo (snd (moveTeleport w W H s e)) = combo s"
  "comboTimer (snd (moveTeleport w W H s e)) = comboTimer s"
  "killStreak (snd (moveTeleport w W H s e)) = killStreak s"
  "shakeX (snd (moveTeleport w W H s e)) = shakeX s"
  "shakeY (snd (moveTeleport w W H s e)) = shakeY s"
  "shakePower (snd (moveTeleport w W H s e)) = shakePower s"
  "activePowerup (snd (moveTeleport w W H s e)) = activePowerup s"
  "powerupTimer (snd (moveTeleport w W H s e)) = powerupTimer s"
  "rapidFire (snd (moveTeleport w W H s e)) = rapidFire s"
  "waveAnnounce (snd (moveTeleport w W H s e)) = waveAnnounce s"
  "totalKills (snd (moveTeleport w W H s e)) = totalKills s"
  "nextPowerupKill (snd (moveTeleport w W H s e)) = nextPowerupKill s"
  "gameOverCalls (snd (moveTeleport w W H s e)) = gameOverCalls s"
  by (simp_all add: moveTeleport_def Let_def)

lemma moveBounce_frame [simp]:
  "hp (snd (moveBounce w W H s e)) = hp s"
  "score (snd (moveBounce w W H s e)) = score s"
  "wave (snd (moveBounce w W H s e)) = wave s"
  "arrows (snd (moveBounce w W H s e)) = arrows s"
  "game.maxArrows (snd (moveBounce w W H s e)) = game.maxArrows s"
  "reloading (snd (moveBounce w W H s e)) = reloading s"
  "reloadProgress (snd (moveBounce w W H s e)) = reloadProgress s"
  "reloadTimer (snd (moveBounce w W H s e)) = reloadTimer s"
  "spawnTimer (snd (moveBounce w W H s e)) = spawnTimer s"
  "waveTimer (snd (moveBounce w W H s e)) = waveTimer s"
  "enemies (snd (moveBounce w W H s e)) = enemies s"
  "projectiles (snd (moveBounce w W H s e)) = projectiles s"
  "floats (snd (moveBounce w W H s e)) = floats s"
  "powerups (snd (moveBounce w W H s e)) = powerups s"
  "alive (snd (moveBounce w W H s e)) = alive s"
  "bowPulse (snd (moveBounce w W H s e)) = bowPulse s"
  "shootCooldown (snd (moveBounce w W H s e)) = shootCooldown s"
  "combo (snd (moveBounce w W H s e)) = combo s"
  "comboTimer (snd (moveBounce w W H s e)) = comboTimer s"
  "killStreak (snd (moveBounce w W H s e)) = killStreak s"
  "shakeX (snd (moveBounce w W H s e)) = shakeX s"
  "shakeY (snd (moveBounce w W H s e)) = shakeY s"
  "shakePower (snd (moveBounce w W H s e)) = shakePower s"
  "activePowerup (snd (moveBounce w W H s e)) = activePowerup s"
  "powerupTimer (snd (moveBounce w W H s e)) = powerupTimer s"
  "rapidFire (snd (moveBounce w W H s e)) = rapidFire s"
  "waveAnnounce (snd (moveBounce w W H s e)) = waveAnnounce s"
  "totalKills (snd (moveBounce w W H s e)) = totalKills s"
  "nextPowerupKill (snd (moveBounce w W H s e)) = nextPowerupKill s"
  "gameOverCalls (snd (moveBounce w W H s e)) = gameOverCalls s"
  by (simp_all add: moveBounce_def Let_def case_prod_beta)

lemma movePattern_frame [simp]:
  "hp (snd (movePattern w W H s e)) = hp s"
  "score (snd (movePattern w W H s e)) = score s"
  "wave (snd (movePattern w W H s e)) = wave s"
  "arrows (snd (movePattern w W H s e)) = arrows s"
  "game.maxArrows (snd (movePattern w W H s e)) = game.maxArrows s"
  "reloading (snd (movePattern w W H s e)) = reloading s"
  "reloadProgress (snd (movePattern w W H s e)) = reloadProgress s"
  "reloadTimer (snd (movePattern w W H s e)) = reloadTimer s"
  "spawnTimer (snd (movePattern w W H s e)) = spawnTimer s"
  "waveTimer (snd (movePattern w W H s e)) = waveTimer s"
  "enemies (snd (movePattern w W H s e)) = enemies s"
  "projectiles (snd (movePattern w W H s e)) = projectiles s"
  "floats (snd (movePattern w W H s e)) = floats s"
  "powerups (snd (movePattern w W H s e)) = powerups s"
  "alive (snd (movePattern w W H s e)) = alive s"
  "bowPulse (snd (movePattern w W H s e)) = bowPulse s"
  "shootCooldown (snd (movePattern w W H s e)) = shootCooldown s"
  "combo (snd (movePattern w W H s e)) = combo s"
  "comboTimer (snd (movePattern w W H s e)) = comboTimer s"
  "killStreak (snd (movePattern w W H s e)) = killStreak s"
  "shakeX (snd (movePattern w W H s e)) = shakeX s"
  "shakeY (snd (movePattern w W H s e)) = shakeY s"
  "shakePower (snd (movePattern w W H s e)) = shakePower s"
  "activePowerup (snd (movePattern w W H s e)) = activePowerup s"
  "powerupTimer (snd (movePattern w W H s e)) = powerupTimer s"
  "rapidFire (snd (movePattern w W H s e)) = rapidFire s"
  "waveAnnounce (snd (movePattern w W H s e)) = waveAnnounce s"
  "totalKills (snd (movePattern w W H s e)) = totalKills s"
  "nextPowerupKill (snd (movePattern w W H s e)) = nextPowerupKill s"
  "gameOverCalls (snd (movePattern w W H s e)) = gameOverCalls s"
  by (simp_all add: movePattern_def split: pattern.splits)

lemma advanceEnemy_frame [simp]:
  "hp (snd (advanceEnemy w W H s e)) = hp s"
  "score (snd (advanceEnemy w W H s e)) = score s"
  "wave (snd (advanceEnemy w W H s e)) = wave s"
  "arrows (snd (advanceEnemy w W H s e)) = arrows s"
  "game.maxArrows (snd (advanceEnemy w W H s e)) = game.maxArrows s"
  "reloading (snd (advanceEnemy w W H s e)) = reloading s"
  "reloadProgress (snd (advanceEnemy w W H s e)) = reloadProgress s"
  "reloadTimer (snd (advanceEnemy w W H s e)) = reloadTimer s"
  "spawnTimer (snd (advanceEnemy w W H s e)) = spawnTimer s"
  "waveTimer (snd (advanceEnemy w W H s e)) = waveTimer s"
  "enemies (snd (advanceEnemy w W H s e)) = enemies s"
  "projectiles (snd (advanceEnemy w W H s e)) = projectiles s"
  "floats (snd (advanceEnemy w W H s e)) = floats s"
  "powerups (snd (advanceEnemy w W H s e)) = powerups s"
  "alive (snd (advanceEnemy w W H s e)) = alive s"
  "bowPulse (snd (advanceEnemy w W H s e)) = bowPulse s"
  "shootCooldown (snd (advanceEnemy w W H s e)) = shootCooldown s"
  "combo (snd (advanceEnemy w W H s e)) = combo s"
  "comboTimer (snd (advanceEnemy w W H s e)) = comboTimer s"
  "killStreak (snd (advanceEnemy w W H s e)) = killStreak s"
  "shakeX (snd (advanceEnemy w W H s e)) = shakeX s"
  "shakeY (snd (advanceEnemy w W H s e)) = shakeY s"
  "shakePower (snd (advanceEnemy w W H s e)) = shakePower s"
  "activePowerup (snd (advanceEnemy w W H s e)) = activePowerup s"
  "powerupTimer (snd (advanceEnemy w W H s e)) = powerupTimer s"
  "rapidFire (snd (advanceEnemy w W H s e)) = rapidFire s"
  "waveAnnounce (snd (advanceEnemy w W H s e)) = waveAnnounce s"
  "totalKills (snd (advanceEnemy w W H s e)) = totalKills s"
  "nextPowerupKill (snd (advanceEnemy w W H s e)) = nextPowerupKill s"
  "gameOverCalls (snd (advanceEnemy w W H s e)) = gameOverCalls s"
  by (simp_all add: advanceEnemy_def Let_def case_prod_beta)

lemma updateEnemy_frame [simp]:
  "score (snd (updateEnemy w W H i ds)) = score (snd ds)"
  "wave (snd (updateEnemy w W H i ds)) = wave (snd ds)"
  "arrows (snd (updateEnemy w W H i ds)) = arrows (snd ds)"
  "game.maxArrows (snd (updateEnemy w W H i ds)) = game.maxArrows (snd ds)"
  "reloading (snd (updateEnemy w W H i ds)) = reloading (snd ds)"
  "reloadProgress (snd (updateEnemy w W H i ds)) = reloadProgress (snd ds)"
  "reloadTimer (snd (updateEnemy w W H i ds)) = reloadTimer (snd ds)"
  "spawnTimer (snd (updateEnemy w W H i ds)) = spawnTimer (snd ds)"
  "waveTimer (snd (updateEnemy w W H i ds)) = waveTimer (snd ds)"
  "projectiles (snd (updateEnemy w W H i ds)) = projectiles (snd ds)"
  "floats (snd (updateEnemy w W H i ds)) = floats (snd ds)"
  "powerups (snd (updateEnemy w W H i ds)) = powerups (snd ds)"
  "bowPulse (snd (updateEnemy w W H i ds)) = bowPulse (snd ds)"
  "shootCooldown (snd (updateEnemy w W H i ds)) = shootCooldown (snd ds)"
  "shakeX (snd (updateEnemy w W H i ds)) = shakeX (snd ds)"
  "shakeY (snd (updateEnemy w W H i ds)) = shakeY (snd ds)"
  "activePowerup (snd (updateEnemy w W H i ds)) = activePowerup (snd ds)"
  "powerupTimer (snd (updateEnemy w W H i ds)) = powerupTimer (snd ds)"
  "rapidFire (snd (updateEnemy w W H i ds)) = rapidFire (snd ds)"
  "waveAnnounce (snd (updateEnemy w W H i ds)) = waveAnnounce (snd ds)"
  "totalKills (snd (updateEnemy w W H i ds)) = totalKills (snd ds)"
  "nextPowerupKill (snd (updateEnemy w W H i ds)) = nextPowerupKill (snd ds)"
  by (simp_all add: updateEnemy_def Let_def case_prod_beta)

lemma updateEnemies_frame [simp]:
  "score (snd (updateEnemies w W H s)) = score s"
  "wave (snd (updateEnemies w W H s)) = wave s"
  "arrows (snd (updateEnemies w W H s)) = arrows s"
  "game.maxArrows (snd (updateEnemies w W H s)) = game.maxArrows s"
  "reloading (snd (updateEnemies w W H s)) = reloading s"
  "reloadProgress (snd (updateEnemies w W H s)) = reloadProgress s"
  "reloadTimer (snd (updateEnemies w W H s)) = reloadTimer s"
  "spawnTimer (snd (updateEnemies w W H s)) = spawnTimer s"
  "waveTimer (snd (updateEnemies w W H s)) = waveTimer s"
  "projectiles (snd (updateEnemies w W H s)) = projectiles s"
  "floats (snd (updateEnemies w W H s)) = floats s"
  "powerups (snd (updateEnemies w W H s)) = powerups s"
  "bowPulse (snd (updateEnemies w W H s)) = bowPulse s"
  "shootCooldown (snd (updateEnemies w W H s)) = shootCooldown s"
  "shakeX (snd (updateEnemies w W H s)) = shakeX s"
  "shakeY (snd (updateEnemies w W H s)) = shakeY s"
  "activePowerup (snd (updateEnemies w W H s)) = activePowerup s"
  "powerupTimer (snd (updateEnemies w W H s)) = powerupTimer s"
  "rapidFire (snd (updateEnemies w W H s)) = rapidFire s"
  "waveAnnounce (snd (updateEnemies w W H s)) = waveAnnounce s"
  "totalKills (snd (updateEnemies w W H s)) = totalKills s"
  "nextPowerupKill (snd (updateEnemies w W H s)) = nextPowerupKill s"
  unfolding updateEnemies_def by (simp_all add: fold_keeps [where f = "\<lambda>ds. g (snd ds)" for g])

lemma bombEnemy_frame [simp]:
  "hp (snd (bombEnemy w cx cy i ks)) = hp (snd ks)"
  "wave (snd (bombEnemy w cx cy i ks)) = wave (snd ks)"
  "arrows (snd (bombEnemy w cx cy i ks)) = arrows (snd ks)"
  "game.maxArrows (snd (bombEnemy w cx cy i ks)) = game.maxArrows (snd ks)"
  "reloading (snd (bombEnemy w cx cy i ks)) = reloading (snd ks)"
  "reloadProgress (snd (bombEnemy w cx cy i ks)) = reloadProgress (snd ks)"
  "reloadTimer (snd (bombEnemy w cx cy i ks)) = reloadTimer (snd ks)"
  "spawnTimer (snd (bombEnemy w cx cy i ks)) = spawnTimer (snd ks)"
  "waveTimer (snd (bombEnemy w cx cy i ks)) = waveTimer (snd ks)"
  "enemies (snd (bombEnemy w cx cy i ks)) = enemies (snd ks)"
  "projectiles (snd (bombEnemy w cx cy i ks)) = projectiles (snd ks)"
  "powerups (snd (bombEnemy w cx cy i ks)) = powerups (snd ks)"
  "alive (snd (bombEnemy w cx cy i ks)) = alive (snd ks)"
  "bowPulse (snd (bombEnemy w cx cy i ks)) = bowPulse (snd ks)"
  "shootCooldown (snd (bombEnemy w cx cy i ks)) = shootCooldown (snd ks)"
  "combo (snd (bombEnemy w cx cy i ks)) = combo (snd ks)"
  "comboTimer (snd (bombEnemy w cx cy i ks)) = comboTimer (snd ks)"
  "killStreak (snd (bombEnemy w cx cy i ks)) = killStreak (snd ks)"
  "shakeX (snd (bombEnemy w cx cy i ks)) = shakeX (snd ks)"
  "shakeY (snd (bombEnemy w cx cy i ks)) = shakeY (snd ks)"
  "shakePower (snd (bombEnemy w cx cy i ks)) = shakePower (snd ks)"
  "activePowerup (snd (bombEnemy w cx cy i ks)) = activePowerup (snd ks)"
  "powerupTimer (snd (bombEnemy w cx cy i ks)) = powerupTimer (snd ks)"
  "rapidFire (snd (bombEnemy w cx cy i ks)) = rapidFire (snd ks)"
  "waveAnnounce (snd (bombEnemy w cx cy i ks)) = waveAnnounce (snd ks)"
  "nextPowerupKill (snd (bombEnemy w cx cy i ks)) = nextPowerupKill (snd ks)"
  "gameOverCalls (snd (bombEnemy w cx cy i ks)) = gameOverCalls (snd ks)"
  by (simp_all add: bombEnemy_def Let_def case_prod_beta)

lemma bombRing_frame [simp]:
  "hp (bombRing w cx cy i s) = hp s"
  "score (bombRing w cx cy i s) = score s"
  "wave (bombRing w cx cy i s) = wave s"
  "arrows (bombRing w cx cy i s) = arrows s"
  "game.maxArrows (bombRing w cx cy i s) = game.maxArrows s"
  "reloading (bombRing w cx cy i s) = reloading s"
  "reloadProgress (bombRing w cx cy i s) = reloadProgress s"
  "reloadTimer (bombRing w cx cy i s) = reloadTimer s"
  "spawnTimer (bombRing w cx cy i s) = spawnTimer s"
  "waveTimer (bombRing w cx cy i s) = waveTimer s"
  "enemies (bombRing w cx cy i s) = enemies s"
  "projectiles (bombRing w cx cy i s) = projectiles s"
  "floats (bombRing w cx cy i s) = floats s"
  "powerups (bombRing w cx cy i s) = powerups s"
  "alive (bombRing w cx cy i s) = alive s"
  "bowPulse (bombRing w cx cy i s) = bowPulse s"
  "shootCooldown (bombRing w cx cy i s) = shootCooldown s"
  "combo (bombRing w cx cy i s) = combo s"
  "comboTimer (bombRing w cx cy i s) = comboTimer s"
  "killStreak (bombRing w cx cy i s) = killStreak s"
  "shakeX (bombRing w cx cy i s) = shakeX s"
  "shakeY (bombRing w cx cy i s) = shakeY s"
  "shakePower (bombRing w cx cy i s) = shakePower s"
  "activePowerup (bombRing w cx cy i s) = activePowerup s"
  "powerupTimer (bombRing w cx cy i s) = powerupTimer s"
  "rapidFire (bombRing w cx cy i s) = rapidFire s"
  "waveAnnounce (bombRing w cx cy i s) = waveAnnounce s"
  "totalKills (bombRing w cx cy i s) = totalKills s"
  "nextPowerupKill (bombRing w cx cy i s) = nextPowerupKill s"
  "gameOverCalls (bombRing w cx cy i s) = gameOverCalls s"
  by (simp_all add: bombRing_def Let_def)

lemma spawnBombExplosion_frame [simp]:
  "hp (spawnBombExplosion w cx cy s) = hp s"
  "wave (spawnBombExplosion w cx cy s) = wave s"
  "arrows (spawnBombExplosion w cx cy s) = arrows s"
  "game.maxArrows (spawnBombExplosion w cx cy s) = game.maxArrows s"
  "reloading (spawnBombExplosion w cx cy s) = reloading s"
  "reloadProgress (spawnBombExplosion w cx cy s) = reloadProgress s"
  "reloadTimer (spawnBombExplosion w cx cy s) = reloadTimer s"
  "spawnTimer (spawnBombExplosion w cx cy s) = spawnTimer s"
  "waveTimer (spawnBombExplosion w cx cy s) = waveTimer s"
  "projectiles (spawnBombExplosion w cx cy s) = projectiles s"
  "powerups (spawnBombExplosion w cx cy s) = powerups s"
  "alive (spawnBombExplosion w cx cy s) = alive s"
  "bowPulse (spawnBombExplosion w cx cy s) = bowPulse s"
  "shootCooldown (spawnBombExplosion w cx cy s) = shootCooldown s"
  "combo (spawnBombExplosion w cx cy s) = combo s"
  "comboTimer (spawnBombExplosion w cx cy s) = comboTimer s"
  "killStreak (spawnBombExplosion w cx cy s) = killStreak s"
  "shakeX (spawnBombExplosion w cx cy s) = shakeX s"
  "shakeY (spawnBombExplosion w cx cy s) = shakeY s"
  "activePowerup (spawnBombExplosion w cx cy s) = activePowerup s"
  "powerupTimer (spawnBombExplosion w cx cy s) = powerupTimer s"
  "rapidFire (spawnBombExplosion w cx cy s) = rapidFire s"
  "waveAnnounce (spawnBombExplosion w cx cy s) = waveAnnounce s"
  "nextPowerupKill (spawnBombExplosion w cx cy s) = nextPowerupKill s"
  "gameOverCalls (spawnBombExplosion w cx cy s) = gameOverCalls s"
  by (simp_all add: spawnBombExplosion_def Let_def case_prod_beta fold_keeps [where f = "\<lambda>ds. g (snd ds)" for g] fold_keeps [where g = "bombRing w cx cy"])

lemma pickupStep_frame [simp]:
  "hp (snd (pickupStep w pu ks)) = hp (snd ks)"
  "score (snd (pickupStep w pu ks)) = score (snd ks)"
  "wave (snd (pickupStep w pu ks)) = wave (snd ks)"
  "arrows (snd (pickupStep w pu ks)) = arrows (snd ks)"
  "game.maxArrows (snd (pickupStep w pu ks)) = game.maxArrows (snd ks)"
  "reloading (snd (pickupStep w pu ks)) = reloading (snd ks)"
  "reloadProgress (snd (pickupStep w pu ks)) = reloadProgress (snd ks)"
  "reloadTimer (snd (pickupStep w pu ks)) = reloadTimer (snd ks)"
  "spawnTimer (snd (pickupStep w pu ks)) = spawnTimer (snd ks)"
  "waveTimer (snd (pickupStep w pu ks)) = waveTimer (snd ks)"
  "enemies (snd (pickupStep w pu ks)) = enemies (snd ks)"
  "projectiles (snd (pickupStep w pu ks)) = projectiles (snd ks)"
  "powerups (snd (pickupStep w pu ks)) = powerups (snd ks)"
  "alive (snd (pickupStep w pu ks)) = alive (snd ks)"
  "bowPulse (snd (pickupStep w pu ks)) = bowPulse (snd ks)"
  "shootCooldown (snd (pickupStep w pu ks)) = shootCooldown (snd ks)"
  "combo (snd (pickupStep w pu ks)) = combo (snd ks)"
  "comboTimer (snd (pickupStep w pu ks)) = comboTimer (snd ks)"
  "killStreak (snd (pickupStep w pu ks)) = killStreak (snd ks)"
  "shakeX (snd (pickupStep w pu ks)) = shakeX (snd ks)"
  "shakeY (snd (pickupStep w pu ks)) = shakeY (snd ks)"
  "shakePower (snd (pickupStep w pu ks)) = shakePower (snd ks)"
  "rapidFire (snd (pickupStep w pu ks)) = rapidFire (snd ks)"
  "waveAnnounce (snd (pickupStep w pu ks)) = waveAnnounce (snd ks)"
  "totalKills (snd (pickupStep w pu ks)) = totalKills (snd ks)"
  "nextPowerupKill (snd (pickupStep w pu ks)) = nextPowerupKill (snd ks)"
  "gameOverCalls (snd (pickupStep w pu ks)) = gameOverCalls (snd ks)"
  by (simp_all add: pickupStep_def Let_def case_prod_beta)

lemma powerupPickup_frame [simp]:
  "hp (powerupPickup w s) = hp s"
  "score (powerupPickup w s) = score s"
  "wave (powerupPickup w s) = wave s"
  "arrows (powerupPickup w s) = arrows s"
  "game.maxArrows (powerupPickup w s) = game.maxArrows s"
  "reloading (powerupPickup w s) = reloading s"
  "reloadProgress (powerupPickup w s) = reloadProgress s"
  "reloadTimer (powerupPickup w s) = reloadTimer s"
  "spawnTimer (powerupPickup w s) = spawnTimer s"
  "waveTimer (powerupPickup w s) = waveTimer s"
  "enemies (powerupPickup w s) = enemies s"
  "projectiles (powerupPickup w s) = projectiles s"
  "alive (powerupPickup w s) = alive s"
  "bowPulse (powerupPickup w s) = bowPulse s"
  "shootCooldown (powerupPickup w s) = shootCooldown s"
  "combo (powerupPickup w s) = combo s"
  "comboTimer (powerupPickup w s) = comboTimer s"
  "killStreak (powerupPickup w s) = killStreak s"
  "shakeX (powerupPickup w s) = shakeX s"
  "shakeY (powerupPickup w s) = shakeY s"
  "shakePower (powerupPickup w s) = shakePower s"
  "rapidFire (powerupPickup w s) = rapidFire s"
  "waveAnnounce (powerupPickup w s) = waveAnnounce s"
  "totalKills (powerupPickup w s) = totalKills s"
  "nextPowerupKill (powerupPickup w s) = nextPowerupKill s"
  "gameOverCalls (powerupPickup w s) = gameOverCalls s"
  by (simp_all add: powerupPickup_def case_prod_beta fold_keeps [where f = "\<lambda>ds. g (snd ds)" for g])

lemma waveStep_frame [simp]:
  "hp (waveStep s) = hp s"
  "score (waveStep s) = score s"
  "arrows (waveStep s) = arrows s"
  "game.maxArrows (waveStep s) = game.maxArrows s"
  "reloading (waveStep s) = reloading s"
  "reloadProgress (waveStep s) = reloadProgress s"
  "reloadTimer (waveStep s) = reloadTimer s"
  "enemies (waveStep s) = enemies s"
  "projectiles (waveStep s) = projectiles s"
  "particles (waveStep s) = particles s"
  "floats (waveStep s) = floats s"
  "powerups (waveStep s) = powerups s"
  "alive (waveStep s) = alive s"
  "bowPulse (waveStep s) = bowPulse s"
  "shootCooldown (waveStep s) = shootCooldown s"
  "combo (waveStep s) = combo s"
  "comboTimer (waveStep s) = comboTimer s"
  "killStreak (waveStep s) = killStreak s"
  "shakeX (waveStep s) = shakeX s"
  "shakeY (waveStep s) = shakeY s"
  "shakePower (waveStep s) = shakePower s"
  "activePowerup (waveStep s) = activePowerup s"
  "powerupTimer (waveStep s) = powerupTimer s"
  "rapidFire (waveStep s) = rapidFire s"
  "totalKills (waveStep s) = totalKills s"
  "nextPowerupKill (waveStep s) = nextPowerupKill s"
  "seed (waveStep s) = seed s"
  "gameOverCalls (waveStep s) = gameOverCalls s"
  by (simp_all add: waveStep_def Let_def)

lemma spawnStep_frame [simp]:
  "hp (spawnStep w W H s) = hp s"
  "score (spawnStep w W H s) = score s"
  "wave (spawnStep w W H s) = wave s"
  "arrows (spawnStep w W H s) = arrows s"
  "game.maxArrows (spawnStep w W H s) = game.maxArrows s"
  "reloading (spawnStep w W H s) = reloading s"
  "reloadProgress (spawnStep w W H s) = reloadProgress s"
  "reloadTimer (spawnStep w W H s) = reloadTimer s"
  "waveTimer (spawnStep w W H s) = waveTimer s"
  "projectiles (spawnStep w W H s) = projectiles s"
  "particles (spawnStep w W H s) = particles s"
  "floats (spawnStep w W H s) = floats s"
  "powerups (spawnStep w W H s) = powerups s"
  "alive (spawnStep w W H s) = alive s"
  "bowPulse (spawnStep w W H s) = bowPulse s"
  "shootCooldown (spawnStep w W H s) = shootCooldown s"
  "combo (spawnStep w W H s) = combo s"
  "comboTimer (spawnStep w W H s) = comboTimer s"
  "killStreak (spawnStep w W H s) = killStreak s"
  "shakeX (spawnStep w W H s) = shakeX s"
  "shakeY (spawnStep w W H s) = shakeY s"
  "shakePower (spawnStep w W H s) = shakePower s"
  "activePowerup (spawnStep w W H s) = activePowerup s"
  "powerupTimer (spawnStep w W H s) = powerupTimer s"
  "rapidFire (spawnStep w W H s) = rapidFire s"
  "waveAnnounce (spawnStep w W H s) = waveAnnounce s"
  "totalKills (spawnStep w W H s) = totalKills s"
  "nextPowerupKill (spawnStep w W H s) = nextPowerupKill s"
  "gameOverCalls (spawnStep w W H s) = gameOverCalls s"
  by (simp_all add: spawnStep_def Let_def)

lemma reloadStep_frame [simp]:
  "hp (reloadStep w W H s) = hp s"
  "score (reloadStep w W H s) = score s"
  "wave (reloadStep w W H s) = wave s"
  "game.maxArrows (reloadStep w W H s) = game.maxArrows s"
  "spawnTimer (reloadStep w W H s) = spawnTimer s"
  "waveTimer (reloadStep w W H s) = waveTimer s"
  "enemies (reloadStep w W H s) = enemies s"
  "projectiles (reloadStep w W H s) = projectiles s"
  "floats (reloadStep w W H s) = floats s"
  "powerups (reloadStep w W H s) = powerups s"
  "alive (reloadStep w W H s) = alive s"
  "bowPulse (reloadStep w W H s) = bowPulse s"
  "shootCooldown (reloadStep w W H s) = shootCooldown s"
  "combo (reloadStep w W H s) = combo s"
  "comboTimer (reloadStep w W H s) = comboTimer s"
  "killStreak (reloadStep w W H s) = killStreak s"
  "shakeX (reloadStep w W H s) = shakeX s"
  "shakeY (reloadStep w W H s) = shakeY s"
  "shakePower (reloadStep w W H s) = shakePower s"
  "activePowerup (reloadStep w W H s) = activePowerup s"
  "powerupTimer (reloadStep w W H s) = powerupTimer s"
  "rapidFire (reloadStep w W H s) = rapidFire s"
  "waveAnnounce (reloadStep w W H s) = waveAnnounce s"
  "totalKills (reloadStep w W H s) = totalKills s"
  "nextPowerupKill (reloadStep w W H s) = nextPowerupKill s"
  "gameOverCalls (reloadStep w W H s) = gameOverCalls s"
  by (simp_all add: reloadStep_def Let_def)

lemma cooldownStep_frame [simp]:
  "hp (cooldownStep s) = hp s"
  "score (cooldownStep s) = score s"
  "wave (cooldownStep s) = wave s"
  "arrows (cooldownStep s) = arrows s"
  "game.maxArrows (cooldownStep s) = game.maxArrows s"
  "reloading (cooldownStep s) = reloading s"
  "reloadProgress (cooldownStep s) = reloadProgress s"
  "reloadTimer (cooldownStep s) = reloadTimer s"
  "spawnTimer (cooldownStep s) = spawnTimer s"
  "waveTimer (cooldownStep s) = waveTimer s"
  "enemies (cooldownStep s) = enemies s"
  "projectiles (cooldownStep s) = projectiles s"
  "particles (cooldownStep s) = particles s"
  "floats (cooldownStep s) = floats s"
  "powerups (cooldownStep s) = powerups s"
  "alive (cooldownStep s) = alive s"
  "combo (cooldownStep s) = combo s"
  "comboTimer (cooldownStep s) = comboTimer s"
  "killStreak (cooldownStep s) = killStreak s"
  "shakeX (cooldownStep s) = shakeX s"
  "shakeY (cooldownStep s) = shakeY s"
  "shakePower (cooldownStep s) = shakePower s"
  "activePowerup (cooldownStep s) = activePowerup s"
  "powerupTimer (cooldownStep s) = powerupTimer s"
  "rapidFire (cooldownStep s) = rapidFire s"
  "waveAnnounce (cooldownStep s) = waveAnnounce s"
  "totalKills (cooldownStep s) = totalKills s"
  "nextPowerupKill (cooldownStep s) = nextPowerupKill s"
  "seed (cooldownStep s) = seed s"
  "gameOverCalls (cooldownStep s) = gameOverCalls s"
  by (simp_all add: cooldownStep_def Let_def)

lemma comboDecay_frame [simp]:
  "hp (comboDecay s) = hp s"
  "score (comboDecay s) = score s"
  "wave (comboDecay s) = wave s"
  "arrows (comboDecay s) = arrows s"
  "game.maxArrows (comboDecay s) = game.maxArrows s"
  "reloading (comboDecay s) = reloading s"
  "reloadProgress (comboDecay s) = reloadProgress s"
  "reloadTimer (comboDecay s) = reloadTimer s"
  "spawnTimer (comboDecay s) = spawnTimer s"
  "waveTimer (comboDecay s) = waveTimer s"
  "enemies (comboDecay s) = enemies s"
  "projectiles (comboDecay s) = projectiles s"
  "particles (comboDecay s) = particles s"
  "floats (comboDecay s) = floats s"
  "powerups (comboDecay s) = powerups s"
  "alive (comboDecay s) = alive s"
  "bowPulse (comboDecay s) = bowPulse s"
  "shootCooldown (comboDecay s) = shootCooldown s"
  "killStreak (comboDecay s) = killStreak s"
  "shakeX (comboDecay s) = shakeX s"
  "shakeY (comboDecay s) = shakeY s"
  "shakePower (comboDecay s) = shakePower s"
  "activePowerup (comboDecay s) = activePowerup s"
  "powerupTimer (comboDecay s) = powerupTimer s"
  "rapidFire (comboDecay s) = rapidFire s"
  "waveAnnounce (comboDecay s) = waveAnnounce s"
  "totalKills (comboDecay s) = totalKills s"
  "nextPowerupKill (comboDecay s) = nextPowerupKill s"
  "seed (comboDecay s) = seed s"
  "gameOverCalls (comboDecay s) = gameOverCalls s"
  by (simp_all add: comboDecay_def Let_def)

lemma powerupTimerStep_frame [simp]:
  "hp (powerupTimerStep s) = hp s"
  "score (powerupTimerStep s) = score s"
  "wave (powerupTimerStep s) = wave s"
  "arrows (powerupTimerStep s) = arrows s"
  "game.maxArrows (powerupTimerStep s) = game.maxArrows s"
  "reloading (powerupTimerStep s) = reloading s"
  "reloadProgress (powerupTimerStep s) = reloadProgress s"
  "reloadTimer (powerupTimerStep s) = reloadTimer s"
  "spawnTimer (powerupTimerStep s) = spawnTimer s"
  "waveTimer (powerupTimerStep s) = waveTimer s"
  "enemies (powerupTimerStep s) = enemies s"
  "projectiles (powerupTimerStep s) = projectiles s"
  "particles (powerupTimerStep s) = particles s"
  "floats (powerupTimerStep s) = floats s"
  "powerups (powerupTimerStep s) = powerups s"
  "alive (powerupTimerStep s) = alive s"
  "bowPulse (powerupTimerStep s) = bowPulse s"
  "shootCooldown (powerupTimerStep s) = shootCooldown s"
  "combo (powerupTimerStep s) = combo s"
  "comboTimer (powerupTimerStep s) = comboTimer s"
  "killStreak (powerupTimerStep s) = killStreak s"
  "shakeX (powerupTimerStep s) = shakeX s"
  "shakeY (powerupTimerStep s) = shakeY s"
  "shakePower (powerupTimerStep s) = shakePower s"
  "rapidFire (powerupTimerStep s) = rapidFire s"
  "waveAnnounce (powerupTimerStep s) = waveAnnounce s"
  "totalKills (powerupTimerStep s) = totalKills s"
  "nextPowerupKill (powerupTimerStep s) = nextPowerupKill s"
  "seed (powerupTimerStep s) = seed s"
  "gameOverCalls (powerupTimerStep s) = gameOverCalls s"
  by (simp_all add: powerupTimerStep_def Let_def)

lemma shakeDecay_frame [simp]:
  "hp (shakeDecay w s) = hp s"
  "score (shakeDecay w s) = score s"
  "wave (shakeDecay w s) = wave s"
  "arrows (shakeDecay w s) = arrows s"
  "game.maxArrows (shakeDecay w s) = game.maxArrows s"
  "reloading (shakeDecay w s) = reloading s"
  "reloadProgress (shakeDecay w s) = reloadProgress s"
  "reloadTimer (shakeDecay w s) = reloadTimer s"
  "spawnTimer (shakeDecay w s) = spawnTimer s"
  "waveTimer (shakeDecay w s) = waveTimer s"
  "enemies (shakeDecay w s) = enemies s"
  "projectiles (shakeDecay w s) = projectiles s"
  "particles (shakeDecay w s) = particles s"
  "floats (shakeDecay w s) = floats s"
  "powerups (shakeDecay w s) = powerups s"
  "alive (shakeDecay w s) = alive s"
  "bowPulse (shakeDecay w s) = bowPulse s"
  "shootCooldown (shakeDecay w s) = shootCooldown s"
  "combo (shakeDecay w s) = combo s"
  "comboTimer (shakeDecay w s) = comboTimer s"
  "killStreak (shakeDecay w s) = killStreak s"
  "activePowerup (shakeDecay w s) = activePowerup s"
  "powerupTimer (shakeDecay w s) = powerupTimer s"
  "rapidFire (shakeDecay w s) = rapidFire s"
  "waveAnnounce (shakeDecay w s) = waveAnnounce s"
  "totalKills (shakeDecay w s) = totalKills s"
  "nextPowerupKill (shakeDecay w s) = nextPowerupKill s"
  "gameOverCalls (shakeDecay w s) = gameOverCalls s"
  by (simp_all add: shakeDecay_def Let_def)

lemma powerupRotate_frame [simp]:
  "hp (powerupRotate s) = hp s"
  "score (powerupRotate s) = score s"
  "wave (powerupRotate s) = wave s"
  "arrows (powerupRotate s) = arrows s"
  "game.maxArrows (powerupRotate s) = game.maxArrows s"
  "reloading (powerupRotate s) = reloading s"
  "reloadProgress (powerupRotate s) = reloadProgress s"
  "reloadTimer (powerupRotate s) = reloadTimer s"
  "spawnTimer (powerupRotate s) = spawnTimer s"
  "waveTimer (powerupRotate s) = waveTimer s"
  "enemies (powerupRotate s) = enemies s"
  "projectiles (powerupRotate s) = projectiles s"
  "particles (powerupRotate s) = particles s"
  "floats (powerupRotate s) = floats s"
  "alive (powerupRotate s) = alive s"
  "bowPulse (powerupRotate s) = bowPulse s"
  "shootCooldown (powerupRotate s) = shootCooldown s"
  "combo (powerupRotate s) = combo s"
  "comboTimer (powerupRotate s) = comboTimer s"
  "killStreak (powerupRotate s) = killStreak s"
  "shakeX (powerupRotate s) = shakeX s"
  "shakeY (powerupRotate s) = shakeY s"
  "shakePower (powerupRotate s) = shakePower s"
  "activePowerup (powerupRotate s) = activePowerup s"
  "powerupTimer (powerupRotate s) = powerupTimer s"
  "rapidFire (powerupRotate s) = rapidFire s"
  "waveAnnounce (powerupRotate s) = waveAnnounce s"
  "totalKills (powerupRotate s) = totalKills s"
  "nextPowerupKill (powerupRotate s) = nextPowerupKill s"
  "seed (powerupRotate s) = seed s"
  "gameOverCalls (powerupRotate s) = gameOverCalls s"
  by (simp_all add: powerupRotate_def)

lemma removeDead_frame [simp]:
  "hp (removeDead dead dp s) = hp s"
  "score (removeDead dead dp s) = score s"
  "wave (removeDead dead dp s) = wave s"
  "arrows (removeDead dead dp s) = arrows s"
  "game.maxArrows (removeDead dead dp s) = game.maxArrows s"
  "reloading (removeDead dead dp s) = reloading s"
  "reloadProgress (removeDead dead dp s) = reloadProgress s"
  "reloadTimer (removeDead dead dp s) = reloadTimer s"
  "spawnTimer (removeDead dead dp s) = spawnTimer s"
  "waveTimer (removeDead dead dp s) = waveTimer s"
  "particles (removeDead dead dp s) = particles s"
  "floats (removeDead dead dp s) = floats s"
  "powerups (removeDead dead dp s) = powerups s"
  "alive (removeDead dead dp s) = alive s"
  "bowPulse (removeDead dead dp s) = bowPulse s"
  "shootCooldown (removeDead dead dp s) = shootCooldown s"
  "combo (removeDead dead dp s) = combo s"
  "comboTimer (removeDead dead dp s) = comboTimer s"
  "killStreak (removeDead dead dp s) = killStreak s"
  "shakeX (removeDead dead dp s) = shakeX s"
  "shakeY (removeDead dead dp s) = shakeY s"
  "shakePower (removeDead dead dp s) = shakePower s"
  "activePowerup (removeDead dead dp s) = activePowerup s"
  "powerupTimer (removeDead dead dp s) = powerupTimer s"
  "rapidFire (removeDead dead dp s) = rapidFire s"
  "waveAnnounce (removeDead dead dp s) = waveAnnounce s"
  "totalKills (removeDead dead dp s) = totalKills s"
  "nextPowerupKill (removeDead dead dp s) = nextPowerupKill s"
  "seed (removeDead dead dp s) = seed s"
  "gameOverCalls (removeDead dead dp s) = gameOverCalls s"
  by (simp_all add: removeDead_def)

lemma moveProjectiles_frame [simp]:
  "hp (moveProjectiles W H s) = hp s"
  "score (moveProjectiles W H s) = score s"
  "wave (moveProjectiles W H s) = wave s"
  "arrows (moveProjectiles W H s) = arrows s"
  "game.maxArrows (moveProjectiles W H s) = game.maxArrows s"
  "reloading (moveProjectiles W H s) = reloading s"
  "reloadProgress (moveProjectiles W H s) = reloadProgress s"
  "reloadTimer (moveProjectiles W H s) = reloadTimer s"
  "spawnTimer (moveProjectiles W H s) = spawnTimer s"
  "waveTimer (moveProjectiles W H s) = waveTimer s"
  "enemies (moveProjectiles W H s) = enemies s"
  "particles (moveProjectiles W H s) = particles s"
  "floats (moveProjectiles W H s) = floats s"
  "powerups (moveProjectiles W H s) = powerups s"
  "alive (moveProjectiles W H s) = alive s"
  "bowPulse (moveProjectiles W H s) = bowPulse s"
  "shootCooldown (moveProjectiles W H s) = shootCooldown s"
  "combo (moveProjectiles W H s) = combo s"
  "comboTimer (moveProjectiles W H s) = comboTimer s"
  "killStreak (moveProjectiles W H s) = killStreak s"
  "shakeX (moveProjectiles W H s) = shakeX s"
  "shakeY (moveProjectiles W H s) = shakeY s"
  "shakePower (moveProjectiles W H s) = shakePower s"
  "activePowerup (moveProjectiles W H s) = activePowerup s"
  "powerupTimer (moveProjectiles W H s) = powerupTimer s"
  "rapidFire (moveProjectiles W H s) = rapidFire s"
  "waveAnnounce (moveProjectiles W H s) = waveAnnounce s"
  "totalKills (moveProjectiles W H s) = totalKills s"
  "nextPowerupKill (moveProjectiles W H s) = nextPowerupKill s"
  "seed (moveProjectiles W H s) = seed s"
  "gameOverCalls (moveProjectiles W H s) = gameOverCalls s"
  by (simp_all add: moveProjectiles_def)

lemma moveParticles_frame [simp]:
  "hp (moveParticles s) = hp s"
  "score (moveParticles s) = score s"
  "wave (moveParticles s) = wave s"
  "arrows (moveParticles s) = arrows s"
  "game.maxArrows (moveParticles s) = game.maxArrows s"
  "reloading (moveParticles s) = reloading s"
  "reloadProgress (moveParticles s) = reloadProgress s"
  "reloadTimer (moveParticles s) = reloadTimer s"
  "spawnTimer (moveParticles s) = spawnTimer s"
  "waveTimer (moveParticles s) = waveTimer s"
  "enemies (moveParticles s) = enemies s"
  "projectiles (moveParticles s) = projectiles s"
  "floats (moveParticles s) = floats s"
  "powerups (moveParticles s) = powerups s"
  "alive (moveParticles s) = alive s"
  "bowPulse (moveParticles s) = bowPulse s"
  "shootCooldown (moveParticles s) = shootCooldown s"
  "combo (moveParticles s) = combo s"
  "comboTimer (moveParticles s) = comboTimer s"
  "killStreak (moveParticles s) = killStreak s"
  "shakeX (moveParticles s) = shakeX s"
  "shakeY (moveParticles s) = shakeY s"
  "shakePower (moveParticles s) = shakePower s"
  "activePowerup (moveParticles s) = activePowerup s"
  "powerupTimer (moveParticles s) = powerupTimer s"
  "rapidFire (moveParticles s) = rapidFire s"
  "waveAnnounce (moveParticles s) = waveAnnounce s"
  "totalKills (moveParticles s) = totalKills s"
  "nextPowerupKill (moveParticles s) = nextPowerupKill s"
  "seed (moveParticles s) = seed s"
  "gameOverCalls (moveParticles s) = gameOverCalls s"
  by (simp_all add: moveParticles_def)

lemma moveFloats_frame [simp]:
  "hp (moveFloats s) = hp s"
  "score (moveFloats s) = score s"
  "wave (moveFloats s) = wave s"
  "arrows (moveFloats s) = arrows s"
  "game.maxArrows (moveFloats s) = game.maxArrows s"
  "reloading (moveFloats s) = reloading s"
  "reloadProgress (moveFloats s) = reloadProgress s"
  "reloadTimer (moveFloats s) = reloadTimer s"
  "spawnTimer (moveFloats s) = spawnTimer s"
  "waveTimer (moveFloats s) = waveTimer s"
  "enemies (moveFloats s) = enemies s"
  "projectiles (moveFloats s) = projectiles s"
  "particles (moveFloats s) = particles s"
  "powerups (moveFloats s) = powerups s"
  "alive (moveFloats s) = alive s"
  "bowPulse (moveFloats s) = bowPulse s"
  "shootCooldown (moveFloats s) = shootCooldown s"
  "combo (moveFloats s) = combo s"
  "comboTimer (moveFloats s) = comboTimer s"
  "killStreak (moveFloats s) = killStreak s"
  "shakeX (moveFloats s) = shakeX s"
  "shakeY (moveFloats s) = shakeY s"
  "shakePower (moveFloats s) = shakePower s"
  "activePowerup (moveFloats s) = activePowerup s"
  "powerupTimer (moveFloats s) = powerupTimer s"
  "rapidFire (moveFloats s) = rapidFire s"
  "waveAnnounce (moveFloats s) = waveAnnounce s"
  "totalKills (moveFloats s) = totalKills s"
  "nextPowerupKill (moveFloats s) = nextPowerupKill s"
  "seed (moveFloats s) = seed s"
  "gameOverCalls (moveFloats s) = gameOverCalls s"
  by (simp_all add: moveFloats_def)

subsection \<open>The enemy update, field by field\<close>

lemma movePattern_keeps:
  "enemy.hp (fst (movePattern w W H s e)) = enemy.hp e"
  "maxHp (fst (movePattern w W H s e)) = maxHp e"
  "id_e (fst (movePattern w W H s e)) = id_e e"
  "splitDone (fst (movePattern w W H s e)) = splitDone e"
  "pattern (fst (movePattern w W H s e)) = pattern e"
  "enemyType.radius (fst (movePattern w W H s e)) = enemyType.radius e"
  "damage (fst (movePattern w W H s e)) = damage e"
  "points (fst (movePattern w W H s e)) = points e"
  by (simp_all add: movePattern_def moveStraight_def moveZigzag_def zigzagKick_def
        moveChase_def moveTeleport_def teleportRelocate_def moveBounce_def moveSpiral_def
        Let_def case_prod_beta split: pattern.splits)

lemma advanceEnemy_keeps [simp]:
  "enemy.hp (fst (advanceEnemy w W H s e)) = enemy.hp e"
  "maxHp (fst (advanceEnemy w W H s e)) = maxHp e"
  "id_e (fst (advanceEnemy w W H s e)) = id_e e"
  "splitDone (fst (advanceEnemy w W H s e)) = splitDone e"
  "pattern (fst (advanceEnemy w W H s e)) = pattern e"
  "enemyType.radius (fst (advanceEnemy w W H s e)) = enemyType.radius e"
  "damage (fst (advanceEnemy w W H s e)) = damage e"
  "points (fst (advanceEnemy w W H s e)) = points e"
  by (simp_all add: advanceEnemy_def Let_def case_prod_beta movePattern_keeps pulseStep_def)

lemma advanceEnemy_straight:
  assumes "pattern e = Straight"
  shows "enemy.x (fst (advanceEnemy w W H s e)) = enemy.x e + enemy.vx e"
    and "enemy.y (fst (advanceEnemy w W H s e)) = enemy.y e + enemy.vy e"
  using assms
  by (simp_all add: advanceEnemy_def Let_def case_prod_beta movePattern_def moveStraight_def
        pulseStep_def)

lemma updateEnemy_fields:
  "enemies (snd (updateEnemy w W H i ds)) =
     (enemies (snd ds))[i := fst (advanceEnemy w W H (snd ds) (enemies (snd ds) ! i))]"
  "hp (snd (updateEnemy w W H i ds)) =
     (if touchesBow (W / 2) (H / 2) (fst (advanceEnemy w W H (snd ds) (enemies (snd ds) ! i)))
      then max 0 (hp (snd ds)
                   - damage (enemies (snd ds) ! i) * playerDamageMult (diff w) * 0.017)
      else hp (snd ds))"
  "gameOverCalls (snd (updateEnemy w W H i ds)) =
     (if touchesBow (W / 2) (H / 2) (fst (advanceEnemy w W H (snd ds) (enemies (snd ds) ! i)))
         \<and> hp (snd ds)
              - damage (enemies (snd ds) ! i) * playerDamageMult (diff w) * 0.017 \<le> 0
      then gameOverCalls (snd ds) @ [score (snd ds)] else gameOverCalls (snd ds))"
  "alive (snd (updateEnemy w W H i ds)) =
     (if touchesBow (W / 2) (H / 2) (fst (advanceEnemy w W H (snd ds) (enemies (snd ds) ! i)))
         \<and> hp (snd ds)
              - damage (enemies (snd ds) ! i) * playerDamageMult (diff w) * 0.017 \<le> 0
      then False else alive (snd ds))"
  by (simp_all add: updateEnemy_def Let_def case_prod_beta)

lemma length_enemies_updateEnemy [simp]:
  "length (enemies (snd (updateEnemy w W H i ds))) = length (enemies (snd ds))"
  by (simp add: updateEnemy_fields)

section \<open>Shot attempts that change nothing\<close>

text \<open>
  Claim C2. A shot attempt while the player is not alive, while reloading, with no
  arrows left, with the shoot cooldown still running, or with the pointer exactly at
  the centre of the canvas returns before the first assignment: the state after it is
  the state before it, so no projectile is created and no arrow is spent.
\<close>

theorem shoot_noop:
  assumes "\<not> alive s \<or> reloading s \<or> arrows s \<le> 0 \<or> shootCooldown s > 0
           \<or> (\<exists>W H. canvas w = Some (W, H) \<and> mouseX w = W / 2 \<and> mouseY w = H / 2)"
  shows "shoot w s = s"
proof (cases "\<not> alive s \<or> reloading s \<or> arrows s \<le> 0")
  case True
  then show ?thesis by (simp add: shoot_def)
next
  case False
  note ready = this
  show ?thesis
  proof (cases "shootCooldown s > 0")
    case True
    with ready show ?thesis by (simp add: shoot_def)
  next
    case False
    with ready assms obtain W H
      where "canvas w = Some (W, H)" "mouseX w = W / 2" "mouseY w = H / 2"
      by auto
    with ready False show ?thesis by (simp add: shoot_def)
  qed
qed

theorem shoot_noop_witness:
  "shoot (sampleWorld Normal 100 100) ((initialState Normal)\<lparr>reloading := True\<rparr>)
     = (initialState Normal)\<lparr>reloading := True\<rparr>
   \<and> shoot (sampleWorld Normal 400 300) (initialState Normal) = initialState Normal"
proof -
  have a: "shoot (sampleWorld Normal 100 100) ((initialState Normal)\<lparr>reloading := True\<rparr>)
     = (initialState Normal)\<lparr>reloading := True\<rparr>"
    by (rule shoot_noop) simp
  have b: "shoot (sampleWorld Normal 400 300) (initialState Normal) = initialState Normal"
    by (rule shoot_noop) (simp add: sampleWorld_def)
  show ?thesis using a b by simp
qed

section \<open>Wave timer\<close>

lemma loop_wave:
  assumes "alive s" and "canvas w = Some (W, H)"
  shows "wave (loop w s) = wave (waveStep s)"
    and "waveTimer (loop w s) = waveTimer (waveStep s)"
    and "waveAnnounce (loop w s) = waveAnnounce (waveStep s)"
  using assms by (simp_all add: loop_def Let_def case_prod_beta)




section \<open>Teleport relocation\<close>

lemma createEnemy_position:
  "enemy.x (createEnemy r k (e\<lparr>teleportTimer := t\<rparr>) W H None) = enemy.x (createEnemy r k e W H None)"
  "enemy.y (createEnemy r k (e\<lparr>teleportTimer := t\<rparr>) W H None) = enemy.y (createEnemy r k e W H None)"
  by (simp_all add: createEnemy_def Let_def case_prod_beta)

text \<open>
  Claim C10. When the countdown of a teleport-pattern enemy expires, the relocation
  assigns a fresh countdown and the position of a freshly created enemy (an edge spawn
  point) and nothing else: the relocated enemy is the old one with exactly the fields
  \<open>x\<close>, \<open>y\<close> and \<open>teleportTimer\<close> replaced. In particular health, speed and velocity
  are the old ones: the velocity is not re-aimed at the centre from the new position.
\<close>

theorem teleport_relocation_frame:
  "fst (teleportRelocate w W H s e) =
     e\<lparr>teleportTimer := 100 + Math_random w s 0 * 100,
       enemy.x := enemy.x (createEnemy (rnd w) (seed s + 25) e W H None),
       enemy.y := enemy.y (createEnemy (rnd w) (seed s + 25) e W H None)\<rparr>
   \<and> enemy.hp (fst (teleportRelocate w W H s e)) = enemy.hp e
   \<and> enemy.vx (fst (teleportRelocate w W H s e)) = enemy.vx e
   \<and> enemy.vy (fst (teleportRelocate w W H s e)) = enemy.vy e
   \<and> speed (fst (teleportRelocate w W H s e)) = speed e
   \<and> maxHp (fst (teleportRelocate w W H s e)) = maxHp e"
  by (simp add: teleportRelocate_def Let_def createEnemy_position add.commute)

section \<open>Score of a kill\<close>

lemma Math_round_of_int [simp]: "Math_round (real_of_int n) = n"
  by (simp add: Math_round_def)

lemma killEnemy_tally:
  "score (snd (killEnemy w W H ei (dead, s))) =
     score s + Math_round (real_of_int (points (enemies s ! ei) * int (wave s))
                            * (1 + real_of_int (combo s div 3) * 0.5))"
  "combo (snd (killEnemy w W H ei (dead, s))) = combo s + 1"
  "comboTimer (snd (killEnemy w W H ei (dead, s))) = 90"
  "killStreak (snd (killEnemy w W H ei (dead, s))) = killStreak s + 1"
  "totalKills (snd (killEnemy w W H ei (dead, s))) = totalKills s + 1"
  by (simp_all add: killEnemy_def Let_def)

text \<open>
  Claim C5. A projectile hit that brings the health of a live enemy to 0 or below adds
  \<open>round(points * wave * (1 + floor(combo / 3) * 0.5))\<close> to the score, with the combo
  counter as it is at that moment, increments the combo counter by 1 and sets its
  decay window to 90 frames. While the combo counter is below 3 (in particular at 0)
  the increase is exactly \<open>points * wave\<close>.
\<close>

theorem projectile_kill_score:
  assumes "ei < length (enemies s)"
    and "ei \<notin> set deadEnemies"
    and "hits p (enemies s ! ei)"
    and "enemy.hp (enemies s ! ei) \<le> 1"
  shows "score (snd (snd (hitEnemy w W H pix p ei (deadEnemies, deadProjectiles, s)))) =
           score s + Math_round (real_of_int (points (enemies s ! ei) * int (wave s))
                                  * (1 + real_of_int (combo s div 3) * 0.5))
       \<and> combo (snd (snd (hitEnemy w W H pix p ei (deadEnemies, deadProjectiles, s)))) = combo s + 1
       \<and> comboTimer (snd (snd (hitEnemy w W H pix p ei (deadEnemies, deadProjectiles, s)))) = 90
       \<and> (0 \<le> combo s \<and> combo s < 3 \<longrightarrow>
            score (snd (snd (hitEnemy w W H pix p ei (deadEnemies, deadProjectiles, s)))) =
              score s + points (enemies s ! ei) * int (wave s))"
proof -
  have small: "combo s div 3 = 0" if "0 \<le> combo s \<and> combo s < 3"
    using that by simp
  show ?thesis
    using assms
    by (auto simp add: hitEnemy_def Let_def case_prod_beta killEnemy_tally small
             simp del: of_int_mult)
qed

theorem projectile_kill_score_witness:
  "score (snd (snd (hitEnemy (sampleWorld Normal 100 100) 800 600 0 (sampleProjectile 100 100) 0
      ([], {}, (initialState Normal)\<lparr>enemies := [sampleEnemy (ENEMY_TYPES ! 0) 100 100 0 0]\<rparr>)))) = 10
   \<and> combo (snd (snd (hitEnemy (sampleWorld Normal 100 100) 800 600 0 (sampleProjectile 100 100) 0
      ([], {}, (initialState Normal)\<lparr>enemies := [sampleEnemy (ENEMY_TYPES ! 0) 100 100 0 0]\<rparr>)))) = 1
   \<and> comboTimer (snd (snd (hitEnemy (sampleWorld Normal 100 100) 800 600 0 (sampleProjectile 100 100) 0
      ([], {}, (initialState Normal)\<lparr>enemies := [sampleEnemy (ENEMY_TYPES ! 0) 100 100 0 0]\<rparr>)))) = 90"
  using projectile_kill_score [of 0
          "(initialState Normal)\<lparr>enemies := [sampleEnemy (ENEMY_TYPES ! 0) 100 100 0 0]\<rparr>"
          "[]" "sampleProjectile 100 100" "sampleWorld Normal 100 100" 800 600 0 "{}"]
  by (simp add: initialState_def sampleEnemy_def sampleProjectile_def ENEMY_TYPES_def
        hits_def minus_jsnum_def)

section \<open>Reload\<close>

lemma reloadTime_pos: "0 < reloadTime (DIFFICULTY d)"
  by (cases d) simp_all

lemma loop_reload_tick:
  assumes "alive s" and "canvas w = Some (W, H)" and "reloading s" and "1 < reloadTimer s"
  shows "reloading (loop w s)"
    and "reloadTimer (loop w s) = reloadTimer s - 1"
    and "arrows (loop w s) = arrows s"
    and "game.maxArrows (loop w s) = game.maxArrows s"
    and "reloadProgress (loop w s) =
           1 - real_of_int (reloadTimer s - 1) / real_of_int (reloadTime (diff w))"
  using assms by (simp_all add: loop_def Let_def case_prod_beta reloadStep_def)

lemma loop_reload_done:
  assumes "alive s" and "canvas w = Some (W, H)" and "reloading s" and "reloadTimer s \<le> 1"
  shows "\<not> reloading (loop w s)"
    and "arrows (loop w s) = game.maxArrows s"
    and "game.maxArrows (loop w s) = game.maxArrows s"
    and "reloadProgress (loop w s) = 0"
  using assms by (simp_all add: loop_def Let_def case_prod_beta reloadStep_def)

lemma alive_shoot [simp]: "alive (shoot w s) = alive s"
  by (simp add: shoot_def Let_def split: option.splits)

lemma shoot_last_arrow:
  assumes "alive s" and "\<not> reloading s" and "arrows s = 1" and "shootCooldown s \<le> 0"
    and "canvas w = Some (W, H)" and "mouseX w \<noteq> W / 2 \<or> mouseY w \<noteq> H / 2"
  shows "reloading (shoot w s)"
    and "arrows (shoot w s) = 0"
    and "reloadTimer (shoot w s) = reloadTime (diff w)"
    and "reloadProgress (shoot w s) = 0"
    and "game.maxArrows (shoot w s) = game.maxArrows s"
proof -
  have nz: "\<not> (mouseX w * 2 = W \<and> mouseY w * 2 = H)"
    using assms(6) by auto
  with assms(1-5) show "reloading (shoot w s)" "arrows (shoot w s) = 0"
    "reloadTimer (shoot w s) = reloadTime (diff w)" "reloadProgress (shoot w s) = 0"
    "game.maxArrows (shoot w s) = game.maxArrows s"
    by (simp_all add: shoot_def Let_def) blast+
qed

lemma run_snoc: "run (ws @ [w]) s = loop w (run ws s)"
  by (simp add: run_def)

lemma reload_run_aux:
  assumes "reloading s" and "reloadTimer s = reloadTime (DIFFICULTY d)"
    and "\<forall>w \<in> set ws. difficulty w = d \<and> canvas w \<noteq> None"
    and "\<forall>j < length ws. alive (run (take j ws) s)"
    and "int (length ws) < reloadTime (DIFFICULTY d)"
  shows "reloading (run ws s)
       \<and> reloadTimer (run ws s) = reloadTime (DIFFICULTY d) - int (length ws)
       \<and> arrows (run ws s) = arrows s
       \<and> game.maxArrows (run ws s) = game.maxArrows s
       \<and> (ws \<noteq> [] \<longrightarrow> reloadProgress (run ws s)
              = real_of_int (int (length ws)) / real_of_int (reloadTime (DIFFICULTY d)))"
  using assms(3-5)
proof (induction ws rule: rev_induct)
  case Nil
  show ?case using assms(1,2) by (simp add: run_def)
next
  case (snoc w ws)
  let ?T = "reloadTime (DIFFICULTY d)"
  let ?s = "run ws s"
  have prem: "\<forall>w \<in> set ws. difficulty w = d \<and> canvas w \<noteq> None"
    using snoc.prems(1) by simp
  have live: "\<forall>j < length ws. alive (run (take j ws) s)"
  proof (intro allI impI)
    fix j assume "j < length ws"
    then show "alive (run (take j ws) s)"
      using snoc.prems(2) [rule_format, of j] by simp
  qed
  have len: "int (length ws) < ?T" using snoc.prems(3) by simp
  note ih = snoc.IH [OF prem live len]
  have al: "alive ?s" using snoc.prems(2) [rule_format, of "length ws"] by simp
  obtain W H where cv: "canvas w = Some (W, H)"
    using snoc.prems(1) by auto
  have dw: "diff w = DIFFICULTY d" using snoc.prems(1) by (simp add: diff_def)
  have big: "1 < reloadTimer ?s" using ih snoc.prems(3) by simp
  have rl: "reloading ?s" using ih by simp
  have T0: "real_of_int ?T \<noteq> 0" using reloadTime_pos [of d] by simp
  have "reloadProgress (loop w ?s) = 1 - real_of_int (reloadTimer ?s - 1) / real_of_int ?T"
    using loop_reload_tick(5) [OF al cv rl big] dw by simp
  also have "\<dots> = real_of_int (int (length (ws @ [w]))) / real_of_int ?T"
    using ih T0 by (simp add: field_simps)
  finally have pr: "reloadProgress (loop w ?s) = real_of_int (int (length (ws @ [w]))) / real_of_int ?T" .
  show ?case
    using loop_reload_tick(1-4) [OF al cv rl big] ih pr
    by (simp add: run_snoc)
qed

text \<open>
  Claim C1, as the code has it. A shot that spends the last arrow starts the reload:
  the countdown is the reload duration \<open>T\<close> of the difficulty and the progress is 0.
  Over the following frames (each started alive, on a mounted canvas, at the same
  difficulty) the ammo stays at 0 and the progress is \<open>k / T\<close> after \<open>k < T\<close> frames;
  after exactly \<open>T\<close> frames, and not before, reloading ends and the ammo is \<open>maxArrows\<close>.
  The completing frame resets the progress to 0: the value 1 that it computes first is
  overwritten before the frame ends.
\<close>

theorem reload_cycle:
  assumes "alive s0" and "\<not> reloading s0" and "arrows s0 = 1" and "shootCooldown s0 \<le> 0"
    and "canvas w0 = Some (W, H)" and "mouseX w0 \<noteq> W / 2 \<or> mouseY w0 \<noteq> H / 2"
    and "difficulty w0 = d"
    and "\<forall>w \<in> set ws. difficulty w = d \<and> canvas w \<noteq> None"
    and "\<forall>j < length ws. alive (run (take j ws) (shoot w0 s0))"
    and "int (length ws) \<le> reloadTime (DIFFICULTY d)"
  shows "game.maxArrows (run ws (shoot w0 s0)) = game.maxArrows s0
       \<and> (int (length ws) < reloadTime (DIFFICULTY d) \<longrightarrow>
            reloading (run ws (shoot w0 s0)) \<and> arrows (run ws (shoot w0 s0)) = 0
            \<and> reloadTimer (run ws (shoot w0 s0)) = reloadTime (DIFFICULTY d) - int (length ws)
            \<and> reloadProgress (run ws (shoot w0 s0))
                = real_of_int (int (length ws)) / real_of_int (reloadTime (DIFFICULTY d)))
       \<and> (int (length ws) = reloadTime (DIFFICULTY d) \<longrightarrow>
            \<not> reloading (run ws (shoot w0 s0))
            \<and> arrows (run ws (shoot w0 s0)) = game.maxArrows s0
            \<and> reloadProgress (run ws (shoot w0 s0)) = 0)"
proof -
  let ?T = "reloadTime (DIFFICULTY d)"
  let ?s = "shoot w0 s0"
  note st = shoot_last_arrow [OF assms(1-6)]
  have tm: "reloadTimer ?s = ?T" using st(3) assms(7) by (simp add: diff_def)
  show ?thesis
  proof (cases "int (length ws) < ?T")
    case True
    note aux = reload_run_aux [OF st(1) tm assms(8,9) True]
    have "reloadProgress (run ws ?s) = real_of_int (int (length ws)) / real_of_int ?T"
    proof (cases "ws = []")
      case True
      then show ?thesis using st(4) by (simp add: run_def)
    next
      case False
      then show ?thesis using aux by simp
    qed
    then show ?thesis using aux st True by simp
  next
    case False
    then have eq: "int (length ws) = ?T" using assms(10) by simp
    then have "ws \<noteq> []" using reloadTime_pos [of d] by auto
    then obtain ws' w where ws: "ws = ws' @ [w]"
      by (cases ws rule: rev_cases) auto
    have prem: "\<forall>w \<in> set ws'. difficulty w = d \<and> canvas w \<noteq> None"
      using assms(8) ws by simp
    have live: "\<forall>j < length ws'. alive (run (take j ws') ?s)"
    proof (intro allI impI)
      fix j assume "j < length ws'"
      then show "alive (run (take j ws') ?s)"
        using assms(9) [rule_format, of j] ws by simp
    qed
    have len: "int (length ws') < ?T" using eq ws by simp
    note aux = reload_run_aux [OF st(1) tm prem live len]
    have al: "alive (run ws' ?s)" using assms(9) [rule_format, of "length ws'"] ws by simp
    obtain W' H' where cv: "canvas w = Some (W', H')" using assms(8) ws by auto
    have one: "reloadTimer (run ws' ?s) \<le> 1" using aux eq ws by simp
    have rl: "reloading (run ws' ?s)" using aux by simp
    show ?thesis
      using loop_reload_done [OF al cv rl one] aux st eq ws
      by (simp add: run_snoc)
  qed
qed

theorem reload_cycle_witness:
  "reloading (run [sampleWorld Normal 100 100]
      (shoot (sampleWorld Normal 100 100) ((initialState Normal)\<lparr>arrows := 1\<rparr>)))
   \<and> arrows (run [sampleWorld Normal 100 100]
      (shoot (sampleWorld Normal 100 100) ((initialState Normal)\<lparr>arrows := 1\<rparr>))) = 0
   \<and> reloadProgress (run [sampleWorld Normal 100 100]
      (shoot (sampleWorld Normal 100 100) ((initialState Normal)\<lparr>arrows := 1\<rparr>))) = 1 / 180"
  using reload_cycle [of "(initialState Normal)\<lparr>arrows := 1\<rparr>" "sampleWorld Normal 100 100"
                         800 600 Normal "[sampleWorld Normal 100 100]"]
  by (simp add: initialState_def sampleWorld_def run_def)

text \<open>
  The claim as stated fails at the completing frame: a reload in its last frame
  (countdown at 1, progress 179/180 at normal difficulty) ends with the ammo restored
  and the progress at 0, not at 1.
\<close>

theorem reload_progress_counterexample:
  "reloadProgress (loop (sampleWorld Normal 100 100)
      ((initialState Normal)\<lparr>arrows := 0, reloading := True, reloadTimer := 1,
                                reloadProgress := 179 / 180\<rparr>)) = 0
   \<and> arrows (loop (sampleWorld Normal 100 100)
      ((initialState Normal)\<lparr>arrows := 0, reloading := True, reloadTimer := 1,
                                reloadProgress := 179 / 180\<rparr>)) = 8
   \<and> reloadProgress (loop (sampleWorld Normal 100 100)
      ((initialState Normal)\<lparr>arrows := 0, reloading := True, reloadTimer := 1,
                                reloadProgress := 179 / 180\<rparr>)) \<noteq> 1"
  by (simp add: loop_reload_done [where W = 800 and H = 600] initialState_def sampleWorld_def)

section \<open>Game over\<close>

lemma sqrt_less_iff_square: "0 \<le> b \<Longrightarrow> (sqrt a < b) = (a < b * b)"
proof -
  assume b: "0 \<le> b"
  have "(sqrt a < b) = (sqrt a < sqrt (b * b))" using b by simp
  also have "\<dots> = (a < b * b)" by (rule real_sqrt_less_iff)
  finally show ?thesis .
qed

text \<open>
  Claim C3 fails on the code. When two enemies touch the bow in the frame in which
  the health reaches 0, the callback of the first one sets \<open>alive\<close> to false and calls
  \<open>onGameOver\<close>; its \<open>return\<close> only ends that callback, so the second enemy is
  processed too, finds the health at 0 and calls \<open>onGameOver\<close> again: the host is
  told twice.
\<close>

theorem game_over_reported_twice:
  "gameOverCalls (loop (sampleWorld Normal 100 100) twoContacts) = [0, 0]"
proof -
  let ?w = "sampleWorld Normal 100 100"
  define a where "a = sampleEnemy (ENEMY_TYPES ! 0) 400 263 0 2.5"
  define b where "b = sampleEnemy (ENEMY_TYPES ! 0) 400 337 0 (- 2.5)"
  define s8 where "s8 = powerupRotate (shakeDecay ?w (powerupTimerStep (comboDecay
      (cooldownStep (reloadStep ?w 800 600 (spawnStep ?w 800 600 (waveStep twoContacts)))))))"
  have en: "enemies s8 = [a, b]"
    unfolding s8_def a_def b_def
    by (simp add: spawnStep_def waveStep_def twoContacts_def initialState_def Let_def
          diff_def sampleWorld_def)
  have s8: "hp s8 = 0.04" "score s8 = 0" "gameOverCalls s8 = []"
    unfolding s8_def by (simp_all add: twoContacts_def initialState_def)
  have scout: "damage a = 10" "damage b = 10"
    unfolding a_def b_def by (simp_all add: sampleEnemy_def ENEMY_TYPES_def)
  have mult: "playerDamageMult (diff ?w) = 1"
    by (simp add: diff_def sampleWorld_def)
  have ta: "touchesBow 400 300 (fst (advanceEnemy ?w 800 600 s a))" for s
    unfolding a_def
    by (simp add: touchesBow_def Let_def advanceEnemy_straight sampleEnemy_def ENEMY_TYPES_def
          minus_jsnum_def sqrt_less_iff_square)
  have tb: "touchesBow 400 300 (fst (advanceEnemy ?w 800 600 s b))" for s
    unfolding b_def
    by (simp add: touchesBow_def Let_def advanceEnemy_straight sampleEnemy_def ENEMY_TYPES_def
          minus_jsnum_def sqrt_less_iff_square)
  define r1 where "r1 = updateEnemy ?w 800 600 0 ([], s8)"
  have r1: "hp (snd r1) = 0" "gameOverCalls (snd r1) = [0]" "score (snd r1) = 0"
    "enemies (snd r1) ! Suc 0 = b"
    unfolding r1_def by (simp_all add: updateEnemy_fields en s8 scout mult ta)
  define r2 where "r2 = updateEnemy ?w 800 600 1 r1"
  have r2: "gameOverCalls (snd r2) = [0, 0]"
    unfolding r2_def by (simp add: updateEnemy_fields r1 scout mult tb)
  have "gameOverCalls (snd (updateEnemies ?w 800 600 s8)) = [0, 0]"
    using r2 by (simp add: updateEnemies_def en fold_upt_2 r1_def r2_def)
  then show ?thesis
    by (simp add: loop_def Let_def case_prod_beta s8_def sampleWorld_def twoContacts_def
          initialState_def)
qed

section \<open>The bomb power-up\<close>

lemma projectileHits_no_projectiles:
  "projectiles s = [] \<Longrightarrow> projectileHits w W H dead s = (dead, {}, s)"
  by (simp add: projectileHits_def)

lemma updateEnemies_no_enemies:
  "enemies s = [] \<Longrightarrow> updateEnemies w W H s = ([], s)"
  by (simp add: updateEnemies_def)

lemma removeDead_nothing:
  "enemies s = [] \<Longrightarrow> projectiles s = [] \<Longrightarrow> removeDead [] {} s = s"
  by (simp add: removeDead_def)

lemma spawnStep_idle:
  assumes "spawnTimer s < max 35 (spawnRate (diff w) - int (wave s) * 6)"
  shows "spawnStep w W H s = s"
proof -
  have "\<not> max 35 (spawnRate (diff w) - int (wave s) * 6) \<le> spawnTimer s"
    using assms by (simp only: not_le)
  then show ?thesis
    unfolding spawnStep_def Let_def by (simp only: if_False)
qed

text \<open>A frame without enemies, projectiles and spawn: only timers, pick-ups and effects.\<close>

lemma loop_quiet:
  assumes "alive s" and "canvas w = Some (W, H)"
    and "enemies s = []" and "projectiles s = []"
    and "spawnTimer (waveStep s) < max 35 (spawnRate (diff w) - int (wave (waveStep s)) * 6)"
  shows "loop w s =
    moveFloats (moveParticles (moveProjectiles W H (powerupPickup w (powerupRotate
      (shakeDecay w (powerupTimerStep (comboDecay (cooldownStep
        (reloadStep w W H (waveStep s))))))))))"
proof -
  define s8 where "s8 = powerupRotate (shakeDecay w (powerupTimerStep (comboDecay
      (cooldownStep (reloadStep w W H (waveStep s))))))"
  have e8: "enemies s8 = []" and p8: "projectiles s8 = []"
    using assms(3,4) by (simp_all add: s8_def)
  have eq: "removeDead [] {} s8 = s8"
    by (rule removeDead_nothing [OF e8 p8])
  have "loop w s = moveFloats (moveParticles (moveProjectiles W H (powerupPickup w
      (removeDead [] {} s8))))"
    using assms(1,2) e8 p8
    by (simp add: loop_def spawnStep_idle [OF assms(5)] s8_def [symmetric]
          updateEnemies_no_enemies projectileHits_no_projectiles)
  then have "loop w s = moveFloats (moveParticles (moveProjectiles W H (powerupPickup w s8)))"
    by (simp only: eq)
  then show ?thesis
    by (simp only: s8_def)
qed

lemma powerupPickup_none: "powerups s = [] \<Longrightarrow> powerupPickup w s = s"
  by (simp add: powerupPickup_def)

lemma quiet_fields:
  assumes "alive s" and "canvas w = Some (W, H)"
    and "enemies s = []" and "projectiles s = []"
    and "spawnTimer (waveStep s) < max 35 (spawnRate (diff w) - int (wave (waveStep s)) * 6)"
  shows "alive (loop w s)" and "enemies (loop w s) = []" and "projectiles (loop w s) = []"
    and "spawnTimer (loop w s) = spawnTimer s + 1"
    and "wave (loop w s) = wave (waveStep s)"
    and "reloading (loop w s) = reloading (reloadStep w W H s)"
    and "arrows (loop w s) = arrows (reloadStep w W H s)"
    and "shootCooldown (loop w s) = shootCooldown (cooldownStep s)"
  using assms(1,3,4)
  by (simp_all add: loop_quiet [OF assms] moveProjectiles_def waveStep_def reloadStep_def
        cooldownStep_def Let_def)

lemma quiet_powerup:
  assumes "alive s" and "canvas w = Some (W, H)"
    and "enemies s = []" and "projectiles s = []"
    and "spawnTimer (waveStep s) < max 35 (spawnRate (diff w) - int (wave (waveStep s)) * 6)"
    and "powerups s = []"
  shows "activePowerup (loop w s) = activePowerup (powerupTimerStep s)"
    and "powerupTimer (loop w s) = powerupTimer (powerupTimerStep s)"
    and "powerups (loop w s) = []"
proof -
  define s8 where "s8 = powerupRotate (shakeDecay w (powerupTimerStep (comboDecay
      (cooldownStep (reloadStep w W H (waveStep s))))))"
  have "powerups s8 = []"
    using assms(6) by (simp add: s8_def powerupRotate_def)
  then have pk: "powerupPickup w s8 = s8"
    by (rule powerupPickup_none)
  have lp: "loop w s = moveFloats (moveParticles (moveProjectiles W H (powerupPickup w s8)))"
    unfolding s8_def by (rule loop_quiet [OF assms(1-5)])
  show "activePowerup (loop w s) = activePowerup (powerupTimerStep s)"
    and "powerupTimer (loop w s) = powerupTimer (powerupTimerStep s)"
    and "powerups (loop w s) = []"
    using assms(6)
    by (simp_all add: lp pk) (simp_all add: s8_def powerupTimerStep_def powerupRotate_def Let_def)
qed

lemma shoot_plain:
  assumes "alive s" and "\<not> reloading s" and "0 < arrows s" and "shootCooldown s \<le> 0"
    and "canvas w = Some (W, H)" and "mouseX w \<noteq> W / 2 \<or> mouseY w \<noteq> H / 2"
    and "activePowerup s = None"
  shows "length (projectiles (shoot w s)) = length (projectiles s) + 1"
    and "enemies (shoot w s) = enemies s"
    and "score (shoot w s) = score s"
proof -
  have nz: "\<not> (mouseX w * 2 = W \<and> mouseY w * 2 = H)"
    using assms(6) by auto
  with assms(1-5,7) show "length (projectiles (shoot w s)) = length (projectiles s) + 1"
    "enemies (shoot w s) = enemies s" "score (shoot w s) = score s"
    by (simp_all add: shoot_def Let_def)
qed

text \<open>
  Claim C7 fails on the code. Picking up a bomb sets the power-up countdown to 1. The
  countdown of the very next frame brings it to 0 and clears the active power-up, shot
  or no shot: the bomb does not stay active until the next shot, and the shot made
  after that frame is an ordinary one that creates a projectile.
\<close>

theorem bomb_expires_before_shot:
  "activePowerup (loop (sampleWorld Normal 100 100) bombUnderPointer) = Some Bomb
   \<and> powerupTimer (loop (sampleWorld Normal 100 100) bombUnderPointer) = 1
   \<and> activePowerup (loop (sampleWorld Normal 100 100)
         (loop (sampleWorld Normal 100 100) bombUnderPointer)) = None
   \<and> length (projectiles (shoot (sampleWorld Normal 100 100)
         (loop (sampleWorld Normal 100 100)
           (loop (sampleWorld Normal 100 100) bombUnderPointer)))) = 1"
proof -
  define w where "w = sampleWorld Normal 100 100"
  define s0 where "s0 = bombUnderPointer"
  define s1 where "s1 = loop w s0"
  define s2 where "s2 = loop w s1"
  have cv: "canvas w = Some (800, 600)" and ms: "mouseX w = 100" "mouseY w = 100"
    and df: "diff w = DIFFICULTY Normal"
    by (simp_all add: w_def sampleWorld_def diff_def)
  have i0: "alive s0" "enemies s0 = []" "projectiles s0 = []" "spawnTimer s0 = 0"
    "waveTimer s0 = 0" "wave s0 = 1" "\<not> reloading s0" "arrows s0 = 8" "shootCooldown s0 = 0"
    "activePowerup s0 = None" "powerupTimer s0 = 0"
    by (simp_all add: s0_def bombUnderPointer_def initialState_def)
  have q0: "spawnTimer (waveStep s0) < max 35 (spawnRate (diff w) - int (wave (waveStep s0)) * 6)"
    by (simp add: waveStep_def Let_def i0 df)
  note f1 = quiet_fields [OF i0(1) cv i0(2,3) q0, folded s1_def]
  have wt1: "waveTimer s1 = 1"
    unfolding s1_def by (simp add: loop_wave [OF i0(1) cv] waveStep_def Let_def i0)
  define s8 where "s8 = powerupRotate (shakeDecay w (powerupTimerStep (comboDecay
      (cooldownStep (reloadStep w 800 600 (waveStep s0))))))"
  have pu8: "powerups s8 = [\<lparr>powerUp.x = Fin 100, y = Fin 100, ptype = Bomb, radius = 16,
      angle = 0.04, life = 359, pulsePhase = 0.07\<rparr>]"
    by (simp add: s8_def powerupRotate_def s0_def bombUnderPointer_def initialState_def)
  have pk: "activePowerup (powerupPickup w s8) = Some Bomb"
    "powerupTimer (powerupPickup w s8) = 1" "powerups (powerupPickup w s8) = []"
    by (simp_all add: powerupPickup_def pu8 pickupStep_def nearPointer_def ms minus_jsnum_def
          Let_def)
  have lp1: "s1 = moveFloats (moveParticles (moveProjectiles 800 600 (powerupPickup w s8)))"
    unfolding s1_def s8_def by (rule loop_quiet [OF i0(1) cv i0(2,3) q0])
  have a1: "activePowerup s1 = Some Bomb" "powerupTimer s1 = 1" "powerups s1 = []"
    by (simp_all add: lp1 pk)
  have i1: "wave s1 = 1" "\<not> reloading s1" "arrows s1 = 8" "shootCooldown s1 = 0"
    using f1(5-8) by (simp_all add: waveStep_def reloadStep_def cooldownStep_def Let_def i0)
  have q1: "spawnTimer (waveStep s1) < max 35 (spawnRate (diff w) - int (wave (waveStep s1)) * 6)"
    by (simp add: waveStep_def Let_def f1(4) i0 wt1 i1 df)
  note f2 = quiet_fields [OF f1(1) cv f1(2,3) q1, folded s2_def]
  note p2 = quiet_powerup [OF f1(1) cv f1(2,3) q1 a1(3), folded s2_def]
  have a2: "activePowerup s2 = None"
    using p2(1) by (simp add: powerupTimerStep_def Let_def a1)
  have i2: "\<not> reloading s2" "arrows s2 = 8" "shootCooldown s2 = 0"
    using f2(6-8) by (simp_all add: reloadStep_def cooldownStep_def Let_def i1)
  have "length (projectiles (shoot w s2)) = length (projectiles s2) + 1"
    by (rule shoot_plain(1) [OF f2(1) i2(1) _ _ cv _ a2]) (simp_all add: i2 ms)
  then have sh: "length (projectiles (shoot w s2)) = 1"
    by (simp add: f2(3))
  show ?thesis
    using a1(1,2) a2 sh
    by (simp only: s2_def s1_def s0_def w_def)
qed

section \<open>Splitter offspring\<close>

lemma createEnemy_type [simp]:
  "maxHp (createEnemy r k type cw ch ov) = maxHp type"
  "id_e (createEnemy r k type cw ch ov) = id_e type"
  "splitDone (createEnemy r k type cw ch ov) = False"
  "enemy.x (createEnemy r k type cw ch (Some (ox, oy))) = ox"
  "enemy.y (createEnemy r k type cw ch (Some (ox, oy))) = oy"
  by (simp_all add: createEnemy_def Let_def case_prod_beta)

text \<open>
  What the projectile path does for a dying splitter that has not split yet: the flag
  is set and exactly two scouts (maximal and current health 1) are appended, each
  within 25 of the splitter in both coordinates. A splitter whose flag is set, and
  any other enemy, gets no offspring.
\<close>

lemma splitStep_offspring:
  assumes "ei < length (enemies s)"
    and "id_e (enemies s ! ei) = ''splitter''" and "\<not> splitDone (enemies s ! ei)"
  shows "\<exists>a b. enemies (splitStep w W H ei s)
                 = (enemies s)[ei := (enemies s ! ei)\<lparr>splitDone := True\<rparr>] @ [a, b]
               \<and> id_e a = ''scout'' \<and> id_e b = ''scout''
               \<and> maxHp a = 1 \<and> maxHp b = 1 \<and> enemy.hp a = 1 \<and> enemy.hp b = 1
               \<and> enemy.x a = enemy.x (enemies s ! ei) + Fin ((Math_random w s 0 - 0.5) * 50)
               \<and> enemy.y a = enemy.y (enemies s ! ei) + Fin ((Math_random w s 1 - 0.5) * 50)"
  using assms
  by (simp add: splitStep_def Let_def find_scout fold_upt_2 spawnScout_def createEnemy_hp
        nth_append ENEMY_TYPES_def Math_random_def)

lemma splitStep_no_offspring:
  assumes "id_e (enemies s ! ei) \<noteq> ''splitter'' \<or> splitDone (enemies s ! ei)"
  shows "splitStep w W H ei s = s"
  using assms by (auto simp add: splitStep_def Let_def)

lemma bombEnemy_killed:
  "fst (bombEnemy w cx cy i ks) =
     (if inBlast cx cy (enemies (snd ks) ! i) then fst ks @ [i] else fst ks)"
  "score (snd (bombEnemy w cx cy i ks)) =
     (if inBlast cx cy (enemies (snd ks) ! i)
      then score (snd ks) + points (enemies (snd ks) ! i) * int (wave (snd ks))
      else score (snd ks))"
  by (simp_all add: bombEnemy_def Let_def case_prod_beta)

lemma spawnBombExplosion_fields:
  "enemies (spawnBombExplosion w cx cy s) =
     fold splice1 (rev (sort (fst (fold (bombEnemy w cx cy) [0..<length (enemies s)] ([], s)))))
       (enemies s)"
  "score (spawnBombExplosion w cx cy s) =
     score (snd (fold (bombEnemy w cx cy) [0..<length (enemies s)] ([], s)))"
  by (simp_all add: spawnBombExplosion_def Let_def case_prod_beta
        fold_keeps [where f = "\<lambda>ds. g (snd ds)" for g] fold_keeps [where g = "bombRing w cx cy"])

text \<open>
  Claim C6 fails on the code: a splitter killed by the bomb dies without offspring. The
  bomb path removes it and awards its points, but has none of the splitting that the
  projectile path does.
\<close>

theorem bomb_kills_splitter_without_offspring:
  "enemies bombOnSplitter = [sampleEnemy (ENEMY_TYPES ! 4) 200 200 1.5 0]
   \<and> id_e (sampleEnemy (ENEMY_TYPES ! 4) 200 200 1.5 0) = ''splitter''
   \<and> enemies (shoot (sampleWorld Normal 200 200) bombOnSplitter) = []
   \<and> score (shoot (sampleWorld Normal 200 200) bombOnSplitter) = 50
   \<and> projectiles (shoot (sampleWorld Normal 200 200) bombOnSplitter) = []"
proof -
  define w where "w = sampleWorld Normal 200 200"
  define e where "e = sampleEnemy (ENEMY_TYPES ! 4) 200 200 1.5 0"
  have en: "enemies bombOnSplitter = [e]"
    by (simp add: bombOnSplitter_def e_def)
  have ide: "id_e e = ''splitter''" and pt: "points e = 50"
    by (simp_all add: e_def sampleEnemy_def ENEMY_TYPES_def)
  have blast: "inBlast 200 200 e"
    by (simp add: inBlast_def e_def sampleEnemy_def minus_jsnum_def Let_def)
  have st: "wave bombOnSplitter = 1" "score bombOnSplitter = 0" "projectiles bombOnSplitter = []"
    by (simp_all add: bombOnSplitter_def initialState_def)
  have b1: "fst (fold (bombEnemy w 200 200) [0..<length (enemies bombOnSplitter)]
                  ([], bombOnSplitter)) = [0]"
    "score (snd (fold (bombEnemy w 200 200) [0..<length (enemies bombOnSplitter)]
                  ([], bombOnSplitter))) = 50"
    by (simp_all add: en bombEnemy_killed blast st pt)
  have ex: "enemies (spawnBombExplosion w 200 200 bombOnSplitter) = []"
    "score (spawnBombExplosion w 200 200 bombOnSplitter) = 50"
    by (simp_all add: spawnBombExplosion_fields b1) (simp add: en splice1_def)
  have "enemies (shoot w bombOnSplitter) = enemies (spawnBombExplosion w 200 200 bombOnSplitter)"
    "score (shoot w bombOnSplitter) = score (spawnBombExplosion w 200 200 bombOnSplitter)"
    "projectiles (shoot w bombOnSplitter) = []"
    by (simp_all add: shoot_def Let_def w_def sampleWorld_def)
       (simp_all add: bombOnSplitter_def initialState_def)
  then show ?thesis
    using en ide ex by (simp add: w_def e_def)
qed

section \<open>Velocity renormalisation\<close>
















section \<open>Enemy health\<close>

lemma healthy_hitInv: "list_all healthy es \<Longrightarrow> hitInv dead es"
  by (auto simp: hitInv_def healthy_def list_all_length)

lemma hitInv_extend:
  assumes "hitInv dead es" and "ei < length es"
    and "0 \<le> enemy.hp e'" and "enemy.hp e' \<le> maxHp e'"
    and "enemy.hp e' \<le> 0 \<longrightarrow> ei \<in> set dead'"
    and "set dead \<subseteq> set dead'"
    and "list_all healthy extra"
  shows "hitInv dead' (es[ei := e'] @ extra)"
  unfolding hitInv_def
proof (intro allI impI)
  fix i assume i: "i < length (es[ei := e'] @ extra)"
  let ?e = "(es[ei := e'] @ extra) ! i"
  consider "i = ei" | "i \<noteq> ei" "i < length es" | "length es \<le> i" by linarith
  then show "0 \<le> enemy.hp ?e \<and> enemy.hp ?e \<le> maxHp ?e \<and> (enemy.hp ?e \<le> 0 \<longrightarrow> i \<in> set dead')"
  proof cases
    case 1
    then have "?e = e'" using assms(2) by (simp add: nth_append)
    then show ?thesis using assms(3-5) 1 by simp
  next
    case 2
    then have "?e = es ! i" by (simp add: nth_append)
    then show ?thesis using assms(1,6) 2 by (auto simp: hitInv_def)
  next
    case 3
    then have "?e = extra ! (i - length es)" by (simp add: nth_append)
    moreover have "i - length es < length extra" using i 3 by simp
    ultimately have "healthy ?e" using assms(7) by (simp add: list_all_length)
    then show ?thesis by (simp add: healthy_def)
  qed
qed

lemma splitStep_shape:
  assumes "ei < length (enemies s)"
  shows "\<exists>e' extra. enemies (splitStep w W H ei s) = (enemies s)[ei := e'] @ extra
           \<and> enemy.hp e' = enemy.hp (enemies s ! ei) \<and> maxHp e' = maxHp (enemies s ! ei)
           \<and> list_all healthy extra"
proof (cases "id_e (enemies s ! ei) = ''splitter'' \<and> \<not> splitDone (enemies s ! ei)")
  case True
  then obtain a b where
    "enemies (splitStep w W H ei s)
       = (enemies s)[ei := (enemies s ! ei)\<lparr>splitDone := True\<rparr>] @ [a, b]"
    "maxHp a = 1" "maxHp b = 1" "enemy.hp a = 1" "enemy.hp b = 1"
    using splitStep_offspring [OF assms, of w W H] by blast
  then show ?thesis
    by (intro exI [of _ "(enemies s ! ei)\<lparr>splitDone := True\<rparr>"] exI [of _ "[a, b]"])
       (simp add: healthy_def)
next
  case False
  then have "splitStep w W H ei s = s"
    by (intro splitStep_no_offspring) auto
  then show ?thesis
    by (intro exI [of _ "enemies s ! ei"] exI [of _ "[]"]) simp
qed

lemma killEnemy_shape:
  assumes "ei < length (enemies s)"
  shows "\<exists>e' extra. enemies (snd (killEnemy w W H ei (dead, s))) = (enemies s)[ei := e'] @ extra
           \<and> enemy.hp e' = enemy.hp (enemies s ! ei) \<and> maxHp e' = maxHp (enemies s ! ei)
           \<and> list_all healthy extra"
    and "fst (killEnemy w W H ei (dead, s)) = (if ei \<in> set dead then dead else dead @ [ei])"
proof -
  define e where "e = enemies s ! ei"
  define s6 where "s6 = addShake (4 + real_of_int (maxHp e))
     (let s4 = addFloat (enemy.x e) (enemy.y e - Fin (enemyType.radius e) - Fin 8)
                 (ScoreText (Math_round (real_of_int (points e * int (wave s))
                     * (1 + real_of_int (combo s div 3) * 0.5))))
                 (enemyType.color e) (3 \<le> combo s + 1)
                 (spawnParticles w (enemy.x e) (enemy.y e) (enemyType.color e) 14 1.3
                    (s\<lparr>score := score s + Math_round (real_of_int (points e * int (wave s))
                                     * (1 + real_of_int (combo s div 3) * 0.5)),
                       totalKills := totalKills s + 1, killStreak := killStreak s + 1,
                       combo := combo s + 1, comboTimer := 90\<rparr>))
      in if 3 \<le> combo s4
         then addFloat (enemy.x e) (enemy.y e - Fin (enemyType.radius e) - Fin 28)
                (ComboText (combo s4)) ''#ffff00'' True s4
         else s4)"
  have en6: "enemies s6 = enemies s"
    by (simp add: s6_def Let_def)
  have k: "snd (killEnemy w W H ei (dead, s)) = powerupDrop w ei (splitStep w W H ei s6)"
    by (simp add: killEnemy_def Let_def s6_def e_def)
  have "ei < length (enemies s6)" using assms en6 by simp
  from splitStep_shape [OF this, of w W H]
  show "\<exists>e' extra. enemies (snd (killEnemy w W H ei (dead, s))) = (enemies s)[ei := e'] @ extra
           \<and> enemy.hp e' = enemy.hp (enemies s ! ei) \<and> maxHp e' = maxHp (enemies s ! ei)
           \<and> list_all healthy extra"
    by (simp add: k en6)
  show "fst (killEnemy w W H ei (dead, s)) = (if ei \<in> set dead then dead else dead @ [ei])"
    by (simp add: killEnemy_def Let_def)
qed

lemma hitEnemy_cases:
  "hitEnemy w W H pix p ei (dead, dp, s) =
     (if ei \<in> set dead \<or> \<not> hits p (enemies s ! ei) then (dead, dp, s)
      else
        let e2 = (enemies s ! ei)\<lparr>enemy.hp := enemy.hp (enemies s ! ei) - 1, flashTimer := 7\<rparr>;
            s2 = spawnParticles w (enemy.x e2) (enemy.y e2) (enemyType.color e2) 4 1
                   (s\<lparr>enemies := (enemies s)[ei := e2]\<rparr>);
            dp' = (if \<not> piercing p then insert pix dp else dp)
        in if enemy.hp e2 \<le> 0
           then (fst (killEnemy w W H ei (dead, s2)), dp', snd (killEnemy w W H ei (dead, s2)))
           else (dead, dp', s2))"
  by (simp add: hitEnemy_def Let_def case_prod_beta)

lemma hitEnemy_inv:
  assumes inv: "hitInv dead (enemies s)" and ei: "ei < length (enemies s)"
  shows "hitInv (fst (hitEnemy w W H pix p ei (dead, dp, s)))
           (enemies (snd (snd (hitEnemy w W H pix p ei (dead, dp, s)))))"
    and "length (enemies s) \<le> length (enemies (snd (snd (hitEnemy w W H pix p ei (dead, dp, s)))))"
proof -
  let ?r = "hitEnemy w W H pix p ei (dead, dp, s)"
  have "hitInv (fst ?r) (enemies (snd (snd ?r)))
        \<and> length (enemies s) \<le> length (enemies (snd (snd ?r)))"
  proof (cases "ei \<in> set dead \<or> \<not> hits p (enemies s ! ei)")
    case True
    then show ?thesis using inv by (simp add: hitEnemy_cases)
  next
    case False
    define e where "e = enemies s ! ei"
    define e2 where "e2 = e\<lparr>enemy.hp := enemy.hp e - 1, flashTimer := 7\<rparr>"
    define s2 where "s2 = spawnParticles w (enemy.x e2) (enemy.y e2) (enemyType.color e2) 4 1
                   (s\<lparr>enemies := (enemies s)[ei := e2]\<rparr>)"
    have en2: "enemies s2 = (enemies s)[ei := e2]" by (simp add: s2_def)
    have pos: "0 < enemy.hp e" and le: "enemy.hp e \<le> maxHp e"
      using inv ei False by (auto simp: hitInv_def e_def)
    have h2: "enemy.hp e2 = enemy.hp e - 1" "maxHp e2 = maxHp e" by (simp_all add: e2_def)
    show ?thesis
    proof (cases "enemy.hp e2 \<le> 0")
      case True
      have r: "?r = (fst (killEnemy w W H ei (dead, s2)),
                     (if \<not> piercing p then insert pix dp else dp),
                     snd (killEnemy w W H ei (dead, s2)))"
        using False True
        by (simp add: hitEnemy_cases Let_def e_def [symmetric] e2_def [symmetric]
              s2_def [symmetric])
      have ei2: "ei < length (enemies s2)" using ei en2 by simp
      from killEnemy_shape(1) [OF ei2, of w W H dead]
      obtain e' extra where sh:
        "enemies (snd (killEnemy w W H ei (dead, s2))) = (enemies s2)[ei := e'] @ extra"
        "enemy.hp e' = enemy.hp (enemies s2 ! ei)" "maxHp e' = maxHp (enemies s2 ! ei)"
        "list_all healthy extra"
        by blast
      have at: "enemies s2 ! ei = e2" using ei en2 by simp
      have es: "(enemies s2)[ei := e'] = (enemies s)[ei := e']" by (simp add: en2)
      have dead': "fst (killEnemy w W H ei (dead, s2)) = dead @ [ei]"
        using False by (simp add: killEnemy_shape(2) [OF ei2])
      have "hitInv (dead @ [ei]) ((enemies s)[ei := e'] @ extra)"
        by (rule hitInv_extend [OF inv ei _ _ _ _ sh(4)])
           (use sh(2,3) at h2 pos le in auto)
      then show ?thesis
        by (simp add: r sh(1) es dead')
    next
      case nonlethal: False
      have r: "?r = (dead, (if \<not> piercing p then insert pix dp else dp), s2)"
        using False nonlethal
        by (simp add: hitEnemy_cases Let_def e_def [symmetric] e2_def [symmetric]
              s2_def [symmetric])
      have "hitInv dead ((enemies s)[ei := e2] @ [])"
        by (rule hitInv_extend [OF inv ei]) (use h2 pos le nonlethal in auto)
      then show ?thesis
        by (simp add: r en2)
    qed
  qed
  then show "hitInv (fst ?r) (enemies (snd (snd ?r)))"
    and "length (enemies s) \<le> length (enemies (snd (snd ?r)))"
    by simp_all
qed

lemma fold_hitEnemy_inv:
  assumes "hitInv (fst st) (enemies (snd (snd st)))"
    and "\<forall>i \<in> set is. i < length (enemies (snd (snd st)))"
  shows "hitInv (fst (fold (hitEnemy w W H pix p) is st))
           (enemies (snd (snd (fold (hitEnemy w W H pix p) is st))))
       \<and> length (enemies (snd (snd st)))
           \<le> length (enemies (snd (snd (fold (hitEnemy w W H pix p) is st))))"
  using assms
proof (induction "is" arbitrary: st)
  case Nil
  then show ?case by simp
next
  case (Cons i "is")
  obtain dead dp s where st: "st = (dead, dp, s)" by (cases st) auto
  let ?r = "hitEnemy w W H pix p i st"
  have i: "i < length (enemies s)" using Cons.prems(2) st by simp
  have inv: "hitInv dead (enemies s)" using Cons.prems(1) st by simp
  have a: "hitInv (fst ?r) (enemies (snd (snd ?r)))"
    and b: "length (enemies s) \<le> length (enemies (snd (snd ?r)))"
    unfolding st by (rule hitEnemy_inv [OF inv i])+
  have c: "\<forall>j \<in> set is. j < length (enemies (snd (snd ?r)))"
    using Cons.prems(2) b st by auto
  from Cons.IH [OF a c] b show ?case
    by (simp add: st)
qed

lemma projectileLoop_inv:
  assumes "hitInv (fst st) (enemies (snd (snd st)))"
  shows "hitInv (fst (projectileLoop w W H ip st))
           (enemies (snd (snd (projectileLoop w W H ip st))))"
  unfolding projectileLoop_def
  using fold_hitEnemy_inv [OF assms, of "[0..<length (enemies (snd (snd st)))]"]
  by simp

lemma projectileHits_inv:
  assumes "hitInv dead (enemies s)"
  shows "hitInv (fst (projectileHits w W H dead s))
           (enemies (snd (snd (projectileHits w W H dead s))))"
proof -
  have "hitInv (fst (fold (projectileLoop w W H) ips st))
          (enemies (snd (snd (fold (projectileLoop w W H) ips st))))"
    if "hitInv (fst st) (enemies (snd (snd st)))" for ips st
    using that
  proof (induction ips arbitrary: st)
    case Nil
    then show ?case by simp
  next
    case (Cons ip ips)
    show ?case
      using Cons.IH [OF projectileLoop_inv [OF Cons.prems]] by simp
  qed
  from this [of "(dead, {}, s)"] assms show ?thesis
    by (simp add: projectileHits_def)
qed

text \<open>The enemy update changes neither the health nor the number of the enemies.\<close>

lemma healthy_vitals:
  "list_all healthy es
     \<longleftrightarrow> list_all (\<lambda>v. 1 \<le> fst v \<and> fst v \<le> snd v) (map (\<lambda>e. (enemy.hp e, maxHp e)) es)"
  by (simp add: list_all_iff healthy_def)

lemma updateEnemy_vitals:
  "map (\<lambda>e. (enemy.hp e, maxHp e)) (enemies (snd (updateEnemy w W H i ds)))
     = map (\<lambda>e. (enemy.hp e, maxHp e)) (enemies (snd ds))"
proof (cases "i < length (enemies (snd ds))")
  case True
  then show ?thesis
    by (simp add: updateEnemy_fields(1) map_update list_update_same_conv)
next
  case False
  then show ?thesis
    by (simp add: updateEnemy_fields(1) list_update_beyond not_less)
qed

lemma updateEnemies_healthy:
  "list_all healthy (enemies (snd (updateEnemies w W H s))) = list_all healthy (enemies s)"
proof -
  have "map (\<lambda>e. (enemy.hp e, maxHp e)) (enemies (snd (updateEnemies w W H s)))
          = map (\<lambda>e. (enemy.hp e, maxHp e)) (enemies s)"
    unfolding updateEnemies_def
    using fold_keeps [where f = "\<lambda>ds. map (\<lambda>e. (enemy.hp e, maxHp e)) (enemies (snd ds))"
                        and g = "updateEnemy w W H", OF updateEnemy_vitals]
    by simp
  then show ?thesis by (simp only: healthy_vitals)
qed

text \<open>
  Removal by descending indices: what is left of the list stood at an index that is
  not among the removed ones.
\<close>

lemma splice1_nth:
  "j < length (splice1 i xs) \<Longrightarrow> splice1 i xs ! j = (if j < i then xs ! j else xs ! Suc j)"
  by (auto simp: splice1_def nth_append min_def)

lemma length_splice1: "length (splice1 i xs) = (if i < length xs then length xs - 1 else length xs)"
  by (auto simp: splice1_def)

lemma fold_splice1_sound:
  assumes "sorted_wrt (>) is" and "e \<in> set (fold splice1 is xs)"
  shows "\<exists>j < length xs. j \<notin> set is \<and> xs ! j = e"
  using assms
proof (induction "is" arbitrary: xs)
  case Nil
  then show ?case by (auto simp: in_set_conv_nth)
next
  case (Cons i "is")
  have below: "\<forall>k \<in> set is. k < i" and srt: "sorted_wrt (>) is"
    using Cons.prems(1) by auto
  from Cons.IH [OF srt, of "splice1 i xs"] Cons.prems(2)
  obtain j where j: "j < length (splice1 i xs)" "j \<notin> set is" "splice1 i xs ! j = e"
    by auto
  show ?case
  proof (cases "j < i")
    case True
    then have "xs ! j = e" using j by (simp add: splice1_nth)
    moreover have "j < length xs" using j(1) by (simp add: length_splice1 split: if_splits)
    ultimately show ?thesis using True j(2) by (intro exI [of _ j]) auto
  next
    case False
    then have "xs ! Suc j = e" using j by (simp add: splice1_nth)
    moreover have "Suc j < length xs"
      using j(1) False by (simp add: length_splice1 split: if_splits)
    moreover have "Suc j \<notin> set (i # is)" using False below by auto
    ultimately show ?thesis by (intro exI [of _ "Suc j"]) auto
  qed
qed

lemma set_fold_splice1: "set (fold splice1 is xs) \<subseteq> set xs"
proof (induction "is" arbitrary: xs)
  case Nil
  then show ?case by simp
next
  case (Cons i "is")
  have "set (splice1 i xs) \<subseteq> set xs"
    by (auto simp: splice1_def dest: in_set_takeD in_set_dropD)
  with Cons.IH [of "splice1 i xs"] show ?case by auto
qed

lemma descending_dead: "sorted_wrt (>) (rev (sort (remdups dead)))"
proof -
  have "sorted_wrt (<) (sort (remdups dead))"
    by (simp add: strict_sorted_iff)
  then show ?thesis
    by (simp add: sorted_wrt_rev)
qed

lemma removeDead_healthy:
  assumes "hitInv dead (enemies s)"
  shows "list_all healthy (enemies (removeDead dead dp s))"
proof -
  have "healthy e" if "e \<in> set (fold splice1 (rev (sort (remdups dead))) (enemies s))" for e
  proof -
    from fold_splice1_sound [OF descending_dead that]
    obtain j where j: "j < length (enemies s)" "j \<notin> set dead" "enemies s ! j = e"
      by auto
    then show ?thesis
      using assms by (auto simp: hitInv_def healthy_def)
  qed
  then show ?thesis
    by (simp add: removeDead_def list_all_iff)
qed

text \<open>Spawning: the type is one of \<open>ENEMY_TYPES\<close>, whose maximal health is at least 1.\<close>

lemma spawn_index_in_pool:
  assumes "0 < n"
  shows "nat \<lfloor>rnd_val u * real n\<rfloor> < n"
proof -
  have r: "0 \<le> rnd_val u" "rnd_val u < 1" using rnd_val [of u] by simp_all
  have "rnd_val u * real n < real n" using r assms by simp
  then have "\<lfloor>rnd_val u * real n\<rfloor> < int n" by (simp add: floor_less_iff)
  moreover have "0 \<le> \<lfloor>rnd_val u * real n\<rfloor>" using r by simp
  ultimately show ?thesis by linarith
qed

lemma ENEMY_TYPES_maxHp: "t \<in> set ENEMY_TYPES \<Longrightarrow> 1 \<le> maxHp t"
  by (auto simp: ENEMY_TYPES_def)

lemma pool_pick:
  "take (min (Suc n) (length ENEMY_TYPES)) ENEMY_TYPES
     ! nat \<lfloor>rnd_val u * real (min (Suc n) (length ENEMY_TYPES))\<rfloor> \<in> set ENEMY_TYPES"
proof -
  define pool where "pool = take (min (Suc n) (length ENEMY_TYPES)) ENEMY_TYPES"
  have len: "length pool = min (Suc n) (length ENEMY_TYPES)" by (simp add: pool_def)
  have "0 < length pool" by (simp add: pool_def ENEMY_TYPES_def)
  then have "nat \<lfloor>rnd_val u * real (length pool)\<rfloor> < length pool"
    by (rule spawn_index_in_pool)
  then have "pool ! nat \<lfloor>rnd_val u * real (length pool)\<rfloor> \<in> set pool" by simp
  then have "pool ! nat \<lfloor>rnd_val u * real (length pool)\<rfloor> \<in> set ENEMY_TYPES"
    by (auto simp: pool_def dest: in_set_takeD)
  then show ?thesis unfolding len unfolding pool_def .
qed

lemma spawnStep_healthy:
  assumes "list_all healthy (enemies s)"
  shows "list_all healthy (enemies (spawnStep w W H s))"
proof (cases "max 35 (spawnRate (diff w) - int (wave s) * 6) \<le> spawnTimer s")
  case False
  then have "spawnStep w W H s = s"
    by (intro spawnStep_idle) (simp only: not_le)
  then show ?thesis using assms by simp
next
  case True
  show ?thesis
    unfolding spawnStep_def Let_def
    by (subst if_P [OF True])
       (simp add: assms healthy_def createEnemy_hp Math_random_def
          ENEMY_TYPES_maxHp [OF pool_pick])
qed

lemma loop_healthy:
  assumes "list_all healthy (enemies s)"
  shows "list_all healthy (enemies (loop w s))"
proof (cases "alive s \<and> canvas w \<noteq> None")
  case False
  then have "loop w s = s" by (auto simp: loop_def split: option.split)
  then show ?thesis using assms by simp
next
  case True
  then obtain W H where cv: "canvas w = Some (W, H)" and al: "alive s" by auto
  define s8 where "s8 = powerupRotate (shakeDecay w (powerupTimerStep (comboDecay
      (cooldownStep (reloadStep w W H (spawnStep w W H (waveStep s)))))))"
  define r9 where "r9 = updateEnemies w W H s8"
  define r10 where "r10 = projectileHits w W H (fst r9) (snd r9)"
  define s11 where "s11 = removeDead (fst r10) (fst (snd r10)) (snd (snd r10))"
  have "list_all healthy (enemies (waveStep s))" using assms by simp
  then have "list_all healthy (enemies (spawnStep w W H (waveStep s)))"
    by (rule spawnStep_healthy)
  then have "list_all healthy (enemies s8)" by (simp add: s8_def)
  then have "list_all healthy (enemies (snd r9))"
    by (simp add: r9_def updateEnemies_healthy)
  then have "hitInv (fst r9) (enemies (snd r9))" by (rule healthy_hitInv)
  then have "hitInv (fst r10) (enemies (snd (snd r10)))"
    unfolding r10_def by (rule projectileHits_inv)
  then have h11: "list_all healthy (enemies s11)"
    unfolding s11_def by (rule removeDead_healthy)
  have "loop w s = moveFloats (moveParticles (moveProjectiles W H (powerupPickup w s11)))"
    using al cv
    by (simp add: loop_def Let_def case_prod_beta s11_def r10_def r9_def s8_def)
  then show ?thesis using h11 by simp
qed

lemma shoot_enemies: "set (enemies (shoot w s)) \<subseteq> set (enemies s)"
proof -
  have b: "set (enemies (spawnBombExplosion w cx cy s)) \<subseteq> set (enemies s)" for cx cy
    by (simp add: spawnBombExplosion_fields(1) set_fold_splice1)
  show ?thesis
    by (simp add: shoot_def Let_def b split: option.split)
qed

lemma shoot_healthy:
  "list_all healthy (enemies s) \<Longrightarrow> list_all healthy (enemies (shoot w s))"
  using shoot_enemies [of w s] by (auto simp: list_all_iff)

lemma hits_after_hit [simp]:
  "hits p (e\<lparr>enemy.hp := h, flashTimer := f\<rparr>) = hits p e"
  by (simp add: hits_def)

lemma hitEnemy_hp:
  assumes ei: "ei < length (enemies s)" and nd: "ei \<notin> set dead"
    and ht: "hits p (enemies s ! ei)"
  shows "enemy.hp (enemies (snd (snd (hitEnemy w W H pix p ei (dead, dp, s)))) ! ei)
           = enemy.hp (enemies s ! ei) - 1"
    and "enemy.hp (enemies s ! ei) \<le> 1
           \<Longrightarrow> ei \<in> set (fst (hitEnemy w W H pix p ei (dead, dp, s)))"
    and "1 < enemy.hp (enemies s ! ei)
           \<Longrightarrow> fst (hitEnemy w W H pix p ei (dead, dp, s)) = dead
               \<and> enemies (snd (snd (hitEnemy w W H pix p ei (dead, dp, s))))
                   = (enemies s)[ei := (enemies s ! ei)
                        \<lparr>enemy.hp := enemy.hp (enemies s ! ei) - 1, flashTimer := 7\<rparr>]"
proof -
  define e2 where
    "e2 = (enemies s ! ei)\<lparr>enemy.hp := enemy.hp (enemies s ! ei) - 1, flashTimer := 7\<rparr>"
  define s2 where "s2 = spawnParticles w (enemy.x e2) (enemy.y e2) (enemyType.color e2) 4 1
                   (s\<lparr>enemies := (enemies s)[ei := e2]\<rparr>)"
  have en2: "enemies s2 = (enemies s)[ei := e2]" by (simp add: s2_def)
  have ei2: "ei < length (enemies s2)" using ei en2 by simp
  have at: "enemies s2 ! ei = e2" using ei en2 by simp
  have h2: "enemy.hp e2 = enemy.hp (enemies s ! ei) - 1" by (simp add: e2_def)
  have r: "hitEnemy w W H pix p ei (dead, dp, s) =
     (if enemy.hp e2 \<le> 0
      then (fst (killEnemy w W H ei (dead, s2)), (if \<not> piercing p then insert pix dp else dp),
            snd (killEnemy w W H ei (dead, s2)))
      else (dead, (if \<not> piercing p then insert pix dp else dp), s2))"
    using nd ht by (simp add: hitEnemy_cases Let_def e2_def [symmetric] s2_def [symmetric])
  from killEnemy_shape(1) [OF ei2, of w W H dead]
  obtain e' extra where sh:
    "enemies (snd (killEnemy w W H ei (dead, s2))) = (enemies s2)[ei := e'] @ extra"
    "enemy.hp e' = enemy.hp (enemies s2 ! ei)"
    by blast
  have kd: "fst (killEnemy w W H ei (dead, s2)) = dead @ [ei]"
    using nd by (simp add: killEnemy_shape(2) [OF ei2])
  show "enemy.hp (enemies (snd (snd (hitEnemy w W H pix p ei (dead, dp, s)))) ! ei)
           = enemy.hp (enemies s ! ei) - 1"
    using ei2 by (simp add: r sh at h2 en2 nth_append)
  show "ei \<in> set (fst (hitEnemy w W H pix p ei (dead, dp, s)))"
    if "enemy.hp (enemies s ! ei) \<le> 1"
    using that by (simp add: r h2 kd)
  show "fst (hitEnemy w W H pix p ei (dead, dp, s)) = dead
        \<and> enemies (snd (snd (hitEnemy w W H pix p ei (dead, dp, s))))
            = (enemies s)[ei := (enemies s ! ei)
                 \<lparr>enemy.hp := enemy.hp (enemies s ! ei) - 1, flashTimer := 7\<rparr>]"
    if "1 < enemy.hp (enemies s ! ei)"
    using that by (simp add: r h2 en2 e2_def)
qed

lemma hits_nonlethal:
  assumes "ei < length (enemies s)" and "ei \<notin> set dead"
    and "\<forall>ip \<in> set ips. hits (snd ip) (enemies s ! ei)"
    and "int (length ips) < enemy.hp (enemies s ! ei)"
  shows "enemy.hp (enemies (snd (snd
           (fold (\<lambda>ip. hitEnemy w W H (fst ip) (snd ip) ei) ips (dead, dp, s)))) ! ei)
         = enemy.hp (enemies s ! ei) - int (length ips)"
  using assms
proof (induction ips arbitrary: s dp)
  case Nil
  then show ?case by simp
next
  case (Cons ip ips)
  let ?r = "hitEnemy w W H (fst ip) (snd ip) ei (dead, dp, s)"
  have ht: "hits (snd ip) (enemies s ! ei)" using Cons.prems(3) by simp
  have big: "1 < enemy.hp (enemies s ! ei)" using Cons.prems(4) by simp
  note h = hitEnemy_hp(3) [OF Cons.prems(1,2) ht big, of w W H "fst ip" dp]
  obtain dp' s' where r: "?r = (dead, dp', s')"
    using h by (cases ?r) auto
  have en: "enemies s' = (enemies s)[ei := (enemies s ! ei)
              \<lparr>enemy.hp := enemy.hp (enemies s ! ei) - 1, flashTimer := 7\<rparr>]"
    using h r by simp
  have at: "enemies s' ! ei = (enemies s ! ei)
              \<lparr>enemy.hp := enemy.hp (enemies s ! ei) - 1, flashTimer := 7\<rparr>"
    using Cons.prems(1) by (simp add: en)
  have a: "ei < length (enemies s')" using Cons.prems(1) by (simp add: en)
  have c: "\<forall>ip \<in> set ips. hits (snd ip) (enemies s' ! ei)"
    using Cons.prems(3) by (simp add: at)
  have d: "int (length ips) < enemy.hp (enemies s' ! ei)"
    using Cons.prems(4) by (simp add: at)
  from Cons.IH [OF a Cons.prems(2) c d, of dp'] show ?case
    by (simp add: r at)
qed

text \<open>
  The health of the enemies in the current revision of the engine. Enemies are created
  at the maximal health of their type. While the enemies of a state have health between
  1 and their maximum: a projectile hit on a
  live enemy lowers its health by exactly 1, so \<open>n\<close> hits that are not lethal leave it
  at its health before minus \<open>n\<close>; a hit that brings it to 0 marks it for removal at
  once; during the hit phase of a frame, whatever the number of projectiles that
  overlap an enemy, every health stays between 0 and the maximum and every enemy at 0
  is marked; and after the frame (and after a shot) every enemy left has health
  between 1 and its maximum again.
\<close>

theorem enemy_health:
  assumes "list_all healthy (enemies s)"
  shows "enemy.hp (createEnemy r k type cw ch ov) = maxHp type
       \<and> (ei < length (enemies s) \<and> ei \<notin> set dead \<and> hits p (enemies s ! ei) \<longrightarrow>
            enemy.hp (enemies (snd (snd (hitEnemy w W H pix p ei (dead, dp, s)))) ! ei)
              = enemy.hp (enemies s ! ei) - 1
            \<and> (enemy.hp (enemies s ! ei) \<le> 1
                 \<longrightarrow> ei \<in> set (fst (hitEnemy w W H pix p ei (dead, dp, s)))))
       \<and> (ei < length (enemies s) \<and> ei \<notin> set dead
            \<and> (\<forall>ip \<in> set ips. hits (snd ip) (enemies s ! ei))
            \<and> int (length ips) < enemy.hp (enemies s ! ei) \<longrightarrow>
            enemy.hp (enemies (snd (snd
                (fold (\<lambda>ip. hitEnemy w W H (fst ip) (snd ip) ei) ips (dead, dp, s)))) ! ei)
              = enemy.hp (enemies s ! ei) - int (length ips))
       \<and> hitInv (fst (projectileHits w W H dead s))
                (enemies (snd (snd (projectileHits w W H dead s))))
       \<and> list_all healthy (enemies (loop w s))
       \<and> list_all healthy (enemies (shoot w s))"
proof (intro conjI impI)
  show "enemy.hp (createEnemy r k type cw ch ov) = maxHp type"
    by (rule createEnemy_hp)
next
  assume a: "ei < length (enemies s) \<and> ei \<notin> set dead \<and> hits p (enemies s ! ei)"
  then show "enemy.hp (enemies (snd (snd (hitEnemy w W H pix p ei (dead, dp, s)))) ! ei)
              = enemy.hp (enemies s ! ei) - 1"
    by (intro hitEnemy_hp(1)) simp_all
  assume "enemy.hp (enemies s ! ei) \<le> 1"
  with a show "ei \<in> set (fst (hitEnemy w W H pix p ei (dead, dp, s)))"
    by (intro hitEnemy_hp(2)) simp_all
next
  assume "ei < length (enemies s) \<and> ei \<notin> set dead
            \<and> (\<forall>ip \<in> set ips. hits (snd ip) (enemies s ! ei))
            \<and> int (length ips) < enemy.hp (enemies s ! ei)"
  then show "enemy.hp (enemies (snd (snd
                (fold (\<lambda>ip. hitEnemy w W H (fst ip) (snd ip) ei) ips (dead, dp, s)))) ! ei)
              = enemy.hp (enemies s ! ei) - int (length ips)"
    by (intro hits_nonlethal) simp_all
next
  show "hitInv (fst (projectileHits w W H dead s))
                (enemies (snd (snd (projectileHits w W H dead s))))"
    by (rule projectileHits_inv [OF healthy_hitInv [OF assms]])
next
  show "list_all healthy (enemies (loop w s))"
    by (rule loop_healthy [OF assms])
next
  show "list_all healthy (enemies (shoot w s))"
    by (rule shoot_healthy [OF assms])
qed

theorem enemy_health_witness:
  "enemy.hp (enemies (snd (snd (fold
       (\<lambda>ip. hitEnemy (sampleWorld Normal 400 0) 800 600 (fst ip) (snd ip) 0)
       [(0, sampleProjectile 100 100), (1, sampleProjectile 100 100)]
       ([], {}, initialState Normal
                  \<lparr>enemies := [sampleEnemy (ENEMY_TYPES ! 1) 100 100 0 0]\<rparr>)))) ! 0) = 3
   \<and> enemy.hp (enemies (snd (snd (hitEnemy (sampleWorld Normal 400 0) 800 600 0 (sampleProjectile 100 100) 0
       ([], {}, initialState Normal
                  \<lparr>enemies := [sampleEnemy (ENEMY_TYPES ! 1) 100 100 0 0]\<rparr>)))) ! 0) = 4
   \<and> list_all healthy (enemies (loop (sampleWorld Normal 400 0) (initialState Normal
                  \<lparr>enemies := [sampleEnemy (ENEMY_TYPES ! 1) 100 100 0 0]\<rparr>)))"
proof -
  define e0 where "e0 = sampleEnemy (ENEMY_TYPES ! 1) 100 100 0 0"
  define s0 where "s0 = initialState Normal
                  \<lparr>enemies := [sampleEnemy (ENEMY_TYPES ! 1) 100 100 0 0]\<rparr>"
  have en: "enemies s0 = [e0]"
    by (simp add: s0_def e0_def)
  have hp: "enemy.hp e0 = 5" and mx: "maxHp e0 = 5"
    by (simp_all add: e0_def sampleEnemy_def ENEMY_TYPES_def)
  have ht: "hits (sampleProjectile 100 100) e0"
    by (simp add: e0_def hits_def Let_def minus_jsnum_def sampleProjectile_def sampleEnemy_def
          ENEMY_TYPES_def)
  have h: "list_all healthy (enemies s0)"
    by (simp add: en healthy_def hp mx)
  from enemy_health [OF h, where ei = 0 and dead = "[]" and p = "sampleProjectile 100 100"
      and ips = "[(0, sampleProjectile 100 100), (1, sampleProjectile 100 100)]"
      and w = "sampleWorld Normal 400 0" and W = 800 and H = 600 and pix = 0 and dp = "{}",
      THEN conjunct2]
  show ?thesis
    unfolding s0_def [symmetric] by (simp add: en hp ht)
qed

section \<open>Enemy health in the earlier revision\<close>

lemma spawnParticles_old_frame [simp]:
  "enemies (spawnParticles_old w px py col n s) = enemies s"
  "projectiles (spawnParticles_old w px py col n s) = projectiles s"
  "score (spawnParticles_old w px py col n s) = score s"
  "wave (spawnParticles_old w px py col n s) = wave s"
  unfolding spawnParticles_old_def
  by (rule fold_keeps, simp add: spawnParticle_old_def Let_def)+

text \<open>
  A hit of the earlier loop on an enemy that is not a splitter, by a projectile that
  does not pierce: the health goes down by 1 whatever it was, and whenever the result
  is 0 or less the points are paid, also for an enemy that is in \<open>deadEnemies\<close> already.
\<close>

lemma hitEnemy_old_hit:
  assumes ei: "ei < length (enemies s)" and ht: "hits p (enemies s ! ei)"
    and np: "\<not> piercing p" and ns: "id_e (enemies s ! ei) \<noteq> ''splitter''"
  shows "enemies (snd (hitEnemy_old w W H pix p ei (dead, s)))
           = (enemies s)[ei := (enemies s ! ei)
                \<lparr>enemy.hp := enemy.hp (enemies s ! ei) - 1, flashTimer := 8\<rparr>]"
    and "projectiles (snd (hitEnemy_old w W H pix p ei (dead, s))) = splice1 pix (projectiles s)"
    and "score (snd (hitEnemy_old w W H pix p ei (dead, s)))
           = (if enemy.hp (enemies s ! ei) \<le> 1
              then score s + points (enemies s ! ei) * int (wave s) else score s)"
    and "wave (snd (hitEnemy_old w W H pix p ei (dead, s))) = wave s"
    and "fst (hitEnemy_old w W H pix p ei (dead, s))
           = (if enemy.hp (enemies s ! ei) \<le> 1 \<and> ei \<notin> set dead then dead @ [ei] else dead)"
proof -
  define e2 where
    "e2 = (enemies s ! ei)\<lparr>enemy.hp := enemy.hp (enemies s ! ei) - 1, flashTimer := 8\<rparr>"
  define s2 where "s2 = spawnParticles_old w (enemy.x e2) (enemy.y e2) (enemyType.color e2) 5
                   (s\<lparr>enemies := (enemies s)[ei := e2]\<rparr>)"
  have en2: "enemies s2 = (enemies s)[ei := e2]" and pr2: "projectiles s2 = projectiles s"
    and sc2: "score s2 = score s" and wv2: "wave s2 = wave s"
    by (simp_all add: s2_def)
  have at: "enemies s2 ! ei = e2" using ei by (simp add: en2)
  have h2: "enemy.hp e2 = enemy.hp (enemies s ! ei) - 1" and i2: "id_e e2 \<noteq> ''splitter''"
    and p2: "points e2 = points (enemies s ! ei)"
    using ns by (simp_all add: e2_def)
  have k: "killEnemy_old w W H ei (dead, s2) =
      (if ei \<notin> set dead then dead @ [ei] else dead,
       spawnParticles_old w (enemy.x e2) (enemy.y e2) (enemyType.color e2) 15
         (s2\<lparr>score := score s2 + points e2 * int (wave s2)\<rparr>))"
    using i2 by (simp add: killEnemy_old_def splitStep_old_def Let_def at)
  have r: "hitEnemy_old w W H pix p ei (dead, s) =
     (if enemy.hp (enemies s ! ei) \<le> 1
      then (fst (killEnemy_old w W H ei (dead, s2)),
            (snd (killEnemy_old w W H ei (dead, s2)))
              \<lparr>projectiles := splice1 pix (projectiles (snd (killEnemy_old w W H ei (dead, s2))))\<rparr>)
      else (dead, s2\<lparr>projectiles := splice1 pix (projectiles s2)\<rparr>))"
    using ht np
    by (simp add: hitEnemy_old_def Let_def e2_def [symmetric] s2_def [symmetric] case_prod_beta)
  show "enemies (snd (hitEnemy_old w W H pix p ei (dead, s)))
           = (enemies s)[ei := (enemies s ! ei)
                \<lparr>enemy.hp := enemy.hp (enemies s ! ei) - 1, flashTimer := 8\<rparr>]"
    by (simp add: r k en2) (simp add: e2_def)
  show "projectiles (snd (hitEnemy_old w W H pix p ei (dead, s))) = splice1 pix (projectiles s)"
    by (simp add: r k pr2)
  show "score (snd (hitEnemy_old w W H pix p ei (dead, s)))
           = (if enemy.hp (enemies s ! ei) \<le> 1
              then score s + points (enemies s ! ei) * int (wave s) else score s)"
    by (simp add: r k sc2 wv2 h2 p2)
  show "wave (snd (hitEnemy_old w W H pix p ei (dead, s))) = wave s"
    by (simp add: r k wv2)
  show "fst (hitEnemy_old w W H pix p ei (dead, s))
           = (if enemy.hp (enemies s ! ei) \<le> 1 \<and> ei \<notin> set dead then dead @ [ei] else dead)"
    by (simp add: r k h2)
qed

text \<open>
  Claim C4 fails on the earlier revision of the engine, src/game/GameCanvas.tsx, which
  the claim covers too. Its hit loop does not skip an enemy that is dead already. With
  three projectiles on a scout of health 1, the first hit brings the health to 0, pays
  10 points and removes the first projectile, so that the second one moves to index 0
  and is skipped; the third, now at index 1, hits the dead scout again: its health is
  -1, outside [0, max health], and the 10 points are paid a second time.
\<close>

theorem earlier_hit_loop_negative_health:
  "enemy.hp (enemies threeOnScout ! 0) = 1
   \<and> maxHp (enemies threeOnScout ! 0) = 1
   \<and> score threeOnScout = 0
   \<and> enemy.hp (enemies (snd (projectileHits_old (sampleWorld Normal 400 0) 800 600 []
         threeOnScout)) ! 0) = - 1
   \<and> score (snd (projectileHits_old (sampleWorld Normal 400 0) 800 600 [] threeOnScout)) = 20
   \<and> fst (projectileHits_old (sampleWorld Normal 400 0) 800 600 [] threeOnScout) = [0]
   \<and> projectiles (snd (projectileHits_old (sampleWorld Normal 400 0) 800 600 []
         threeOnScout)) = [sampleProjectile 100 100]"
proof -
  define w where "w = sampleWorld Normal 400 0"
  define e0 where "e0 = sampleEnemy (ENEMY_TYPES ! 0) 100 100 2.5 0"
  define pa where "pa = sampleProjectile 98 100"
  define pb where "pb = sampleProjectile 100 100"
  define pc where "pc = sampleProjectile 102 100"
  define s0 where "s0 = threeOnScout"
  have en0: "enemies s0 = [e0]" and pr0: "projectiles s0 = [pa, pb, pc]"
    and sc0: "score s0 = 0" and wv0: "wave s0 = 1"
    by (simp_all add: s0_def threeOnScout_def e0_def pa_def pb_def pc_def initialState_def)
  have e: "enemy.hp e0 = 1" "maxHp e0 = 1" "points e0 = 10" "id_e e0 \<noteq> ''splitter''"
    by (simp_all add: e0_def sampleEnemy_def ENEMY_TYPES_def)
  have ha: "hits pa e0" and hc: "hits pc e0"
    by (simp_all add: hits_def Let_def minus_jsnum_def pa_def pc_def e0_def sampleProjectile_def
          sampleEnemy_def ENEMY_TYPES_def)
  have np: "\<not> piercing pa" "\<not> piercing pc"
    by (simp_all add: pa_def pc_def sampleProjectile_def)
  define r1 where "r1 = hitEnemy_old w 800 600 0 pa 0 ([], s0)"
  define e1 where "e1 = e0\<lparr>enemy.hp := enemy.hp e0 - 1, flashTimer := 8\<rparr>"
  have a1: "0 < length (enemies s0)" "hits pa (enemies s0 ! 0)"
    "id_e (enemies s0 ! 0) \<noteq> ''splitter''"
    using ha e(4) by (simp_all add: en0)
  note h1 = hitEnemy_old_hit [OF a1(1,2) np(1) a1(3), of w 800 600 0 "[]", folded r1_def]
  have en1: "enemies (snd r1) = [e1]" and pr1: "projectiles (snd r1) = [pb, pc]"
    and sc1: "score (snd r1) = 10" and wv1: "wave (snd r1) = 1" and d1: "fst r1 = [0]"
    by (simp_all add: h1 en0 pr0 sc0 wv0 e e1_def splice1_def)
  have l1: "projectileLoop_old w 800 600 0 ([], s0) = r1"
    by (simp add: projectileLoop_old_def en0 pr0 r1_def)
  have e1f: "enemy.hp e1 = 0" "points e1 = 10" "id_e e1 \<noteq> ''splitter''" "hits pc e1"
    using e hc by (simp_all add: e1_def)
  define r2 where "r2 = hitEnemy_old w 800 600 1 pc 0 (fst r1, snd r1)"
  define e2 where "e2 = e1\<lparr>enemy.hp := enemy.hp e1 - 1, flashTimer := 8\<rparr>"
  have a2: "0 < length (enemies (snd r1))" "hits pc (enemies (snd r1) ! 0)"
    "id_e (enemies (snd r1) ! 0) \<noteq> ''splitter''"
    using e1f by (simp_all add: en1)
  note h2 = hitEnemy_old_hit [OF a2(1,2) np(2) a2(3), of w 800 600 1 "fst r1", folded r2_def]
  have en2: "enemies (snd r2) = [e2]" and pr2: "projectiles (snd r2) = [pb]"
    and sc2: "score (snd r2) = 20" and d2: "fst r2 = [0]"
    by (simp_all add: h2 en1 pr1 sc1 wv1 d1 e1f e2_def splice1_def)
  have l2: "projectileLoop_old w 800 600 (Suc 0) r1 = r2"
    by (simp add: projectileLoop_old_def en1 pr1 r2_def)
  have l3: "projectileLoop_old w 800 600 2 r2 = r2"
    by (simp add: projectileLoop_old_def pr2)
  have "[0..<length (projectiles s0)] = [0, 1, 2]"
    by (simp add: pr0 upt_rec)
  then have res: "projectileHits_old w 800 600 [] s0 = r2"
    by (simp add: projectileHits_old_def l1 l2 l3)
  have "enemy.hp e2 = - 1"
    by (simp add: e2_def e1f)
  then show ?thesis
    unfolding w_def [symmetric] s0_def [symmetric] pb_def [symmetric]
    by (simp add: res en2 sc2 d2 pr2 en0 sc0 e)
qed

end
